theory Spec2Isabelle
  imports Main "HOL-Library.Multiset" "HOL-Library.Signed_Division"
    "HOL-Library.Sublist"
begin

section \<open>Rule check messages and approval resolution\<close>

text \<open>
  The severity of a rule check message. The enumeration is declared outside the
  files at hand; its members and their order (\<open>Hint < Warning < Error\<close>) are
  those of the specification.
\<close>

datatype Severity = Hint | Warning | Error

fun severityRank :: "Severity \<Rightarrow> nat" where
  "severityRank Hint = 0"
| "severityRank Warning = 1"
| "severityRank Error = 2"

text \<open>
  The part of \<open>RuleCheckMessage\<close> read by the command line front end. The
  approval key is an S-expression; only its identity matters here, so its type
  is left open.
\<close>

record 'k RuleCheckMessage =
  getSeverity :: Severity
  getSeverityTr :: string
  getMessage :: string
  getApproval :: "'k"

text \<open>
  The comparison function handed to \<open>Toolbox::sortNumeric\<close> by
  \<open>CommandLineInterface::prepareRuleCheckMessages\<close>. The \<open>QCollator\<close>
  (numeric mode, case insensitive) is the parameter \<open>cmp\<close>.
\<close>

definition compareMessages ::
  "(string \<Rightarrow> string \<Rightarrow> bool) \<Rightarrow> 'k RuleCheckMessage \<Rightarrow> 'k RuleCheckMessage \<Rightarrow> bool" where
  "compareMessages cmp lhs rhs =
     (if getSeverity lhs \<noteq> getSeverity rhs
      then severityRank (getSeverity lhs) > severityRank (getSeverity rhs)
      else cmp (getMessage lhs) (getMessage rhs))"

text \<open>
  \<open>std::sort\<close> promises a permutation of its input in which no element is
  ordered before an earlier one; the order of equivalent elements is not fixed.
  \<open>sortResult lt xs ys\<close> says that \<open>ys\<close> is an admissible result for \<open>xs\<close>.
\<close>

definition sortResult :: "('a \<Rightarrow> 'a \<Rightarrow> bool) \<Rightarrow> 'a list \<Rightarrow> 'a list \<Rightarrow> bool" where
  "sortResult lt xs ys \<longleftrightarrow> mset ys = mset xs \<and> sorted_wrt (\<lambda>a b. \<not> lt b a) ys"

text \<open>One admissible \<open>std::sort\<close>: insertion from the right.\<close>

fun insertBy :: "('a \<Rightarrow> 'a \<Rightarrow> bool) \<Rightarrow> 'a \<Rightarrow> 'a list \<Rightarrow> 'a list" where
  "insertBy lt x [] = [x]"
| "insertBy lt x (y # ys) = (if lt y x then y # insertBy lt x ys else x # y # ys)"

fun insertionSort :: "('a \<Rightarrow> 'a \<Rightarrow> bool) \<Rightarrow> 'a list \<Rightarrow> 'a list" where
  "insertionSort lt [] = []"
| "insertionSort lt (x # xs) = insertBy lt x (insertionSort lt xs)"

text \<open>
  The loop of \<open>prepareRuleCheckMessages\<close> over the sorted messages: it counts
  the approved ones and formats the others as \<open>[SEVERITY] message\<close>.
\<close>

definition formatMessage :: "(string \<Rightarrow> string) \<Rightarrow> 'k RuleCheckMessage \<Rightarrow> string" where
  "formatMessage toUpper msg = ''['' @ toUpper (getSeverityTr msg) @ ''] '' @ getMessage msg"

fun countAndPrint ::
  "(string \<Rightarrow> string) \<Rightarrow> 'k set \<Rightarrow> 'k RuleCheckMessage list \<Rightarrow> string list \<times> nat
     \<Rightarrow> string list \<times> nat" where
  "countAndPrint toUpper approvals [] acc = acc"
| "countAndPrint toUpper approvals (msg # msgs) (printedMessages, approvedMsgCount) =
     (if getApproval msg \<in> approvals
      then countAndPrint toUpper approvals msgs (printedMessages, approvedMsgCount + 1)
      else countAndPrint toUpper approvals msgs
             (printedMessages @ [formatMessage toUpper msg], approvedMsgCount))"

definition prepareRuleCheckMessages ::
  "(('k RuleCheckMessage \<Rightarrow> 'k RuleCheckMessage \<Rightarrow> bool) \<Rightarrow> 'k RuleCheckMessage list
      \<Rightarrow> 'k RuleCheckMessage list)
   \<Rightarrow> (string \<Rightarrow> string \<Rightarrow> bool) \<Rightarrow> (string \<Rightarrow> string)
   \<Rightarrow> 'k RuleCheckMessage list \<Rightarrow> 'k set \<Rightarrow> string list \<times> nat" where
  "prepareRuleCheckMessages stdSort cmp toUpper messages approvals =
     countAndPrint toUpper approvals (stdSort (compareMessages cmp) messages) ([], 0)"

text \<open>A collator and a list of messages for concrete examples.\<close>

fun collateAscii :: "string \<Rightarrow> string \<Rightarrow> bool" where
  "collateAscii [] [] = False"
| "collateAscii [] (y # ys) = True"
| "collateAscii (x # xs) [] = False"
| "collateAscii (x # xs) (y # ys) =
     (if (of_char x :: nat) < of_char y then True
      else if (of_char y :: nat) < of_char x then False
      else collateAscii xs ys)"

definition exampleMessages :: "nat RuleCheckMessage list" where
  "exampleMessages =
    [\<lparr>getSeverity = Warning, getSeverityTr = ''Warning'', getMessage = ''b'', getApproval = 1\<rparr>,
     \<lparr>getSeverity = Error, getSeverityTr = ''Error'', getMessage = ''z'', getApproval = 2\<rparr>,
     \<lparr>getSeverity = Warning, getSeverityTr = ''Warning'', getMessage = ''a'', getApproval = 3\<rparr>,
     \<lparr>getSeverity = Hint, getSeverityTr = ''Hint'', getMessage = ''c'', getApproval = 4\<rparr>]"

section \<open>Lengths\<close>

text \<open>
  \<open>Length\<close> is a signed 64-bit number of nanometres. Its arithmetic is on the
  machine integer, so a result outside of \<open>[-2^63, 2^63)\<close> wraps around.
  \<open>UnsignedLength\<close> and \<open>PositiveLength\<close> are lengths known to be \<open>\<ge> 0\<close> and
  \<open>> 0\<close>.
\<close>

type_synonym Length = int

definition wrap64 :: "int \<Rightarrow> int" where
  "wrap64 x = (x + 2 ^ 63) mod 2 ^ 64 - 2 ^ 63"

definition isLength :: "int \<Rightarrow> bool" where
  "isLength x \<longleftrightarrow> - (2 ^ 63) \<le> x \<and> x < 2 ^ 63"

definition isUnsignedLength :: "int \<Rightarrow> bool" where
  "isUnsignedLength x \<longleftrightarrow> 0 \<le> x \<and> x < 2 ^ 63"

definition isPositiveLength :: "int \<Rightarrow> bool" where
  "isPositiveLength x \<longleftrightarrow> 0 < x \<and> x < 2 ^ 63"

definition lenAdd :: "Length \<Rightarrow> Length \<Rightarrow> Length" where
  "lenAdd a b = wrap64 (a + b)"

definition lenSub :: "Length \<Rightarrow> Length \<Rightarrow> Length" where
  "lenSub a b = wrap64 (a - b)"

definition lenMul :: "Length \<Rightarrow> int \<Rightarrow> Length" where
  "lenMul a n = wrap64 (a * n)"

definition lenNeg :: "Length \<Rightarrow> Length" where
  "lenNeg a = wrap64 (- a)"

text \<open>Division of the machine integer truncates towards zero.\<close>

definition lenDiv :: "Length \<Rightarrow> int \<Rightarrow> Length" where
  "lenDiv a n = wrap64 (a sdiv n)"

text \<open>
  Modelled from the spec: the constant \<open>maxArcTolerance()\<close> is declared in the
  header of the check, which is not among the files at hand; the specification
  gives its value as 5 \<mu>m = 5000 nm.
\<close>

definition maxArcTolerance :: Length where
  "maxArcTolerance = 5000"

section \<open>Errors\<close>

text \<open>The exceptions of the code base, as values.\<close>

datatype error = LogicError string | RuntimeError string | RangeError string

text \<open>
  Modelled from the spec: the type-safe wrappers check their range on
  construction. The sum of a \<open>PositiveLength\<close> and an \<open>UnsignedLength\<close> is again
  constructed as a \<open>PositiveLength\<close>, the sum of two \<open>UnsignedLength\<close>s as an
  \<open>UnsignedLength\<close>.
\<close>

definition mkPositiveLength :: "Length \<Rightarrow> error + Length" where
  "mkPositiveLength x = (if x > 0 then Inr x else Inl (RuntimeError ''Not a positive length''))"

definition posAdd :: "Length \<Rightarrow> Length \<Rightarrow> error + Length" where
  "posAdd a b = mkPositiveLength (lenAdd a b)"

definition mkUnsignedLength :: "Length \<Rightarrow> error + Length" where
  "mkUnsignedLength x = (if x \<ge> 0 then Inr x else Inl (RuntimeError ''Not an unsigned length''))"

definition unsAdd :: "Length \<Rightarrow> Length \<Rightarrow> error + Length" where
  "unsAdd a b = mkUnsignedLength (lenAdd a b)"

section \<open>Geometry and board data\<close>

type_synonym Uuid = nat
type_synonym Point = "Length \<times> Length"

record Vertex =
  getPos :: Point
  getAngle :: int

type_synonym Path = "Vertex list"

text \<open>\<open>ClipperLib::Paths\<close>: a vector of rings of integer points.\<close>

type_synonym ClipperPaths = "(int \<times> int) list list"

text \<open>\<open>ClipperLib::PolyTree\<close>: contours with their nested children.\<close>

datatype PolyNode = PolyNode "(int \<times> int) list" "PolyNode list"
type_synonym PolyTree = "PolyNode list"

datatype Layer =
    TopCopper | InnerCopper nat | BotCopper
  | BoardOutlines
  | TopCourtyard | BotCourtyard
  | TopDocumentation | BotDocumentation
  | TopPlacement | BotPlacement
  | OtherLayer nat

record Transform =
  tPosition :: Point
  tRotation :: int
  tMirrored :: bool

record Hole =
  holeUuid :: Uuid
  holeDiameter :: Length
  holePath :: Path

record Polygon =
  polygonUuid :: Uuid
  polygonLayer :: Layer
  polygonLineWidth :: Length
  polygonIsFilled :: bool
  polygonPath :: Path

record Circle =
  circleUuid :: Uuid
  circleLayer :: Layer
  circleLineWidth :: Length
  circleIsFilled :: bool
  circleCenter :: Point
  circleDiameter :: Length

record StrokeText =
  textUuid :: Uuid
  textLayer :: Layer
  textStrokeWidth :: Length
  textPosition :: Point
  textRotation :: int
  textMirrored :: bool
  textPaths :: "Path list"

record Via =
  viaUuid :: Uuid
  viaPosition :: Point
  viaDrillDiameter :: Length
  viaSize :: Length

record NetLine =
  netLineUuid :: Uuid
  netLineLayer :: Layer
  netLineWidth :: Length
  netLineStartPos :: Point
  netLineEndPos :: Point

record NetPoint =
  netPointUuid :: Uuid
  netPointPosition :: Point
  netPointIsUsed :: bool

record NetSegment =
  netSegmentUuid :: Uuid
  netSegmentNetSignal :: "Uuid option"
  netSegmentVias :: "Via list"
  netSegmentNetLines :: "NetLine list"
  netSegmentNetPoints :: "NetPoint list"
  netSegmentIsUsed :: bool

record Plane =
  planeUuid :: Uuid
  planeLayer :: Layer
  planeMinWidth :: Length
  planeNetSignal :: Uuid
  planeOutline :: Path
  planeFragments :: "Path list"

datatype PadShape = RoundedRect | RoundedOctagon | Stroke | Custom

record PadGeometry =
  geometryShape :: PadShape
  geometryWidth :: Length
  geometryHeight :: Length
  geometryPath :: Path

record FootprintPad =
  padUuid :: Uuid
  padPosition :: Point
  padRotation :: int
  padMirrored :: bool
  padLibPosition :: Point
  padLibRotation :: int
  padHoles :: "Hole list"
  padLayers :: "Layer list"
  padGeometries :: "(Layer \<times> PadGeometry list) list"
  padNetSignal :: "Uuid option"
  padNetLines :: "NetLine list"

record Footprint =
  footprintPolygons :: "Polygon list"
  footprintCircles :: "Circle list"
  footprintHoles :: "Hole list"

record ComponentInstance =
  componentUuid :: Uuid
  componentDefaultDeviceUuid :: "Uuid option"
  componentIsSchematicOnly :: bool

record Device =
  deviceComponent :: ComponentInstance
  deviceLibDeviceUuid :: Uuid
  devicePosition :: Point
  deviceRotation :: int
  deviceMirrored :: bool
  devicePads :: "FootprintPad list"
  deviceLibFootprint :: Footprint
  deviceStrokeTexts :: "StrokeText list"

record AirWire =
  airWireP1 :: "Uuid \<times> Point"
  airWireP2 :: "Uuid \<times> Point"
  airWireNetSignal :: Uuid

record Board =
  getCopperLayers :: "Layer list"
  getNetSegments :: "NetSegment list"
  getPlanes :: "Plane list"
  getPolygons :: "Polygon list"
  getStrokeTexts :: "StrokeText list"
  getHoles :: "Hole list"
  getDeviceInstances :: "Device list"
  getAirWires :: "AirWire list"
  getComponentInstances :: "ComponentInstance list"

definition getDeviceInstanceByComponentUuid :: "Board \<Rightarrow> Uuid \<Rightarrow> Device option" where
  "getDeviceInstanceByComponentUuid board uuid =
     find (\<lambda>d. componentUuid (deviceComponent d) = uuid) (getDeviceInstances board)"

text \<open>The transforms built from a device, a pad, a text and a library pad.\<close>

definition deviceTransform :: "Device \<Rightarrow> Transform" where
  "deviceTransform d =
     \<lparr>tPosition = devicePosition d, tRotation = deviceRotation d, tMirrored = deviceMirrored d\<rparr>"

definition padTransform :: "FootprintPad \<Rightarrow> Transform" where
  "padTransform p =
     \<lparr>tPosition = padPosition p, tRotation = padRotation p, tMirrored = padMirrored p\<rparr>"

definition libPadTransform :: "FootprintPad \<Rightarrow> Transform" where
  "libPadTransform p =
     \<lparr>tPosition = padLibPosition p, tRotation = padLibRotation p, tMirrored = False\<rparr>"

definition textTransform :: "StrokeText \<Rightarrow> Transform" where
  "textTransform t =
     \<lparr>tPosition = textPosition t, tRotation = textRotation t, tMirrored = textMirrored t\<rparr>"

definition identityTransform :: Transform where
  "identityTransform = \<lparr>tPosition = (0, 0), tRotation = 0, tMirrored = False\<rparr>"

section \<open>Messages of the design rule check\<close>

datatype MsgKind =
    MinimumWidthViolation
  | CopperCopperClearanceViolation
  | CopperBoardClearanceViolation
  | CopperHoleClearanceViolation
  | DrillDrillClearanceViolation
  | DrillBoardClearanceViolation
  | MinimumAnnularRingViolation
  | MinimumDrillDiameterViolation
  | MinimumSlotWidthViolation
  | ForbiddenSlot
  | InvalidPadConnection
  | CourtyardOverlap
  | OpenBoardOutlinePolygon
  | MissingBoardOutline
  | MultipleBoardOutlines
  | MinimumBoardOutlineInnerRadiusViolation
  | MissingDevice
  | DefaultDeviceMismatch
  | MissingConnection
  | EmptyNetSegment
  | UnconnectedJunction

text \<open>
  The arguments handed to the constructor of a message: the board objects it is
  about (by their identity), layers, net signals and lengths.
\<close>

datatype MsgArg =
    ArgVia Uuid
  | ArgNetLine Uuid
  | ArgPlane Uuid
  | ArgBoardPolygon Uuid
  | ArgBoardStrokeText Uuid
  | ArgBoardHole Uuid
  | ArgPad Uuid
  | ArgDevice Uuid
  | ArgDevicePtr "Uuid option"
  | ArgPolygon Uuid
  | ArgPolygonPtr "Uuid option"
  | ArgCircle Uuid
  | ArgCirclePtr "Uuid option"
  | ArgStrokeText Uuid
  | ArgHole Uuid
  | ArgHoleUuid Uuid
  | ArgLayer Layer
  | ArgLayerPtr "Layer option"
  | ArgNetSignal "Uuid option"
  | ArgLength Length
  | ArgComponent Uuid
  | ArgAnchor Uuid
  | ArgNetSegment Uuid
  | ArgNetPoint Uuid

record DrcMsg =
  msgKind :: MsgKind
  msgArgs :: "MsgArg list"
  msgLocations :: "Path list"

definition mkMsg :: "MsgKind \<Rightarrow> MsgArg list \<Rightarrow> Path list \<Rightarrow> DrcMsg" where
  "mkMsg k args locations = \<lparr>msgKind = k, msgArgs = args, msgLocations = locations\<rparr>"

section \<open>Settings\<close>

text \<open>
  Modelled from the spec: the enumeration \<open>AllowedSlots\<close> is declared in the
  settings header, which is not among the files at hand; its members and their
  order are those of the specification.
\<close>

datatype AllowedSlots = SlotsNone | SingleSegmentStraight | MultiSegmentStraight | SlotsAny

fun allowedSlotsRank :: "AllowedSlots \<Rightarrow> nat" where
  "allowedSlotsRank SlotsNone = 0"
| "allowedSlotsRank SingleSegmentStraight = 1"
| "allowedSlotsRank MultiSegmentStraight = 2"
| "allowedSlotsRank SlotsAny = 3"

record Settings =
  getMinCopperWidth :: Length
  getMinCopperCopperClearance :: Length
  getMinCopperBoardClearance :: Length
  getMinCopperNpthClearance :: Length
  getMinDrillDrillClearance :: Length
  getMinDrillBoardClearance :: Length
  getMinPthAnnularRing :: Length
  getMinNpthDrillDiameter :: Length
  getMinPthDrillDiameter :: Length
  getMinNpthSlotWidth :: Length
  getMinPthSlotWidth :: Length
  getAllowedNpthSlots :: AllowedSlots
  getAllowedPthSlots :: AllowedSlots
  getMinOutlineToolDiameter :: Length

section \<open>The geometry the check relies on\<close>

text \<open>
  \<open>BoardClipperPathGenerator\<close>, \<open>ClipperHelpers\<close>, \<open>Path\<close>, \<open>Transform\<close> and the
  board's own operations are not among the files at hand. The check is
  verified for every implementation of them: they are the fields of the record
  below. The polygon operations and the generator can raise an exception. A
  generator field stands for a fresh generator, one \<open>add\<close> call and \<open>getPaths\<close>;
  an \<open>add\<close> call written without an offset passes 0. \<open>clipUniteSelf\<close> is
  \<open>unite\<close> of one set of paths (non-zero filling), \<open>clipUniteToTree\<close> is
  \<open>uniteToTree\<close> (even-odd filling); the conversion of a single path is
  \<open>convertPaths\<close> of the list of that path. \<open>messageText\<close> is the localized text
  of a message.
\<close>

record Kernel =
  addVia :: "Board \<Rightarrow> Via \<Rightarrow> Length \<Rightarrow> error + ClipperPaths"
  addNetLine :: "Board \<Rightarrow> NetLine \<Rightarrow> Length \<Rightarrow> error + ClipperPaths"
  addPlane :: "Board \<Rightarrow> Plane \<Rightarrow> error + ClipperPaths"
  addBoardPolygon :: "Board \<Rightarrow> Polygon \<Rightarrow> error + ClipperPaths"
  addPolygon :: "Board \<Rightarrow> Polygon \<Rightarrow> Transform \<Rightarrow> error + ClipperPaths"
  addStrokeText :: "Board \<Rightarrow> StrokeText \<Rightarrow> Length \<Rightarrow> error + ClipperPaths"
  addPad :: "Board \<Rightarrow> FootprintPad \<Rightarrow> Transform \<Rightarrow> Layer \<Rightarrow> Length \<Rightarrow> error + ClipperPaths"
  addCircle :: "Board \<Rightarrow> Circle \<Rightarrow> Transform \<Rightarrow> Length \<Rightarrow> error + ClipperPaths"
  addHole :: "Board \<Rightarrow> Hole \<Rightarrow> Transform \<Rightarrow> Length \<Rightarrow> error + ClipperPaths"
  addCopper :: "Board \<Rightarrow> Layer \<Rightarrow> Uuid set \<Rightarrow> bool \<Rightarrow> error + ClipperPaths"
  clipOffset :: "ClipperPaths \<Rightarrow> Length \<Rightarrow> Length \<Rightarrow> error + ClipperPaths"
  clipIntersect :: "ClipperPaths \<Rightarrow> ClipperPaths \<Rightarrow> error + PolyTree"
  clipIntersectAll :: "ClipperPaths list \<Rightarrow> error + PolyTree"
  clipUnite :: "ClipperPaths \<Rightarrow> ClipperPaths \<Rightarrow> error + ClipperPaths"
  clipUniteSelf :: "ClipperPaths \<Rightarrow> error + ClipperPaths"
  clipUniteToTree :: "ClipperPaths \<Rightarrow> error + PolyTree"
  clipSubtractToTree :: "ClipperPaths \<Rightarrow> ClipperPaths \<Rightarrow> error + PolyTree"
  flattenTree :: "PolyTree \<Rightarrow> ClipperPaths"
  treeToPaths :: "PolyTree \<Rightarrow> ClipperPaths"
  convertToPaths :: "ClipperPaths \<Rightarrow> Path list"
  convertPaths :: "Path list \<Rightarrow> Length \<Rightarrow> ClipperPaths"
  toOutlineStrokes :: "Path \<Rightarrow> Length \<Rightarrow> Path list"
  toClosedPath :: "Path \<Rightarrow> Path"
  obround :: "Point \<Rightarrow> Point \<Rightarrow> Length \<Rightarrow> Path"
  circlePath :: "Length \<Rightarrow> Path"
  translated :: "Path \<Rightarrow> Point \<Rightarrow> Path"
  rotated :: "Path \<Rightarrow> int \<Rightarrow> Path"
  mapPath :: "Transform \<Rightarrow> Path \<Rightarrow> Path"
  mapPoint :: "Transform \<Rightarrow> Point \<Rightarrow> Point"
  mapLayer :: "Transform \<Rightarrow> Layer \<Rightarrow> Layer"
  containsOrigin :: "PadGeometry \<Rightarrow> bool"
  rebuildAllPlanes :: "Board \<Rightarrow> error + Board"
  forceAirWiresRebuild :: "Board \<Rightarrow> Board"
  messageText :: "DrcMsg \<Rightarrow> string"

text \<open>
  Modelled from the spec: \<open>Path::isClosed\<close> is not among the files at hand; a
  path is closed when its first position equals its last position.
\<close>

definition isClosed :: "Path \<Rightarrow> bool" where
  "isClosed p = (case p of [] \<Rightarrow> False | v # vs \<Rightarrow> getPos v = getPos (last (v # vs)))"

section \<open>The state of the check and its signals\<close>

datatype Signal =
    Started
  | ProgressPercent int
  | ProgressStatus string
  | ProgressMessage string
  | Finished

text \<open>
  The members of \<open>BoardDesignRuleCheck\<close>. The board is a reference to the
  caller's board, which the check rebuilds planes and air wires of. \<open>emitted\<close>
  records the Qt signals the object has emitted so far.
\<close>

record State =
  mBoard :: Board
  mSettings :: Settings
  mIgnorePlanes :: bool
  mProgressPercent :: int
  mProgressStatus :: "string list"
  mMessages :: "DrcMsg list"
  mCachedPaths :: "(Layer \<times> Uuid set) \<rightharpoonup> ClipperPaths"
  emitted :: "Signal list"

text \<open>
  A member function that returns an \<open>'x\<close> or raises: it takes the state and yields
  the result or the exception, and the state at that moment.
\<close>

type_synonym 'x M = "State \<Rightarrow> (error + 'x) \<times> State"

definition ret :: "'x \<Rightarrow> 'x M" where
  "ret x = (\<lambda>s. (Inr x, s))"

definition lift :: "error + 'x \<Rightarrow> 'x M" where
  "lift r = (\<lambda>s. (r, s))"

definition bind :: "'x M \<Rightarrow> ('x \<Rightarrow> 'y M) \<Rightarrow> 'y M" where
  "bind m f = (\<lambda>s. case m s of (Inl e, s') \<Rightarrow> (Inl e, s') | (Inr x, s') \<Rightarrow> f x s')"

definition seq :: "unit M \<Rightarrow> 'y M \<Rightarrow> 'y M" where
  "seq a b = bind a (\<lambda>_. b)"

fun block :: "unit M list \<Rightarrow> unit M" where
  "block [] = ret ()"
| "block (a # as) = seq a (block as)"

definition whenM :: "bool \<Rightarrow> unit M \<Rightarrow> unit M" where
  "whenM c a = (if c then a else ret ())"

definition withState :: "(State \<Rightarrow> 'x M) \<Rightarrow> 'x M" where
  "withState f = (\<lambda>s. f s s)"

fun forEach :: "'a list \<Rightarrow> ('a \<Rightarrow> unit M) \<Rightarrow> unit M" where
  "forEach [] f = ret ()"
| "forEach (x # xs) f = seq (f x) (forEach xs f)"

text \<open>
  The two nested iterator loops over the pairs of a vector: the first runs up to
  the last element but one, the second from the element behind the first to the
  end.
\<close>

fun forEachPair :: "'a list \<Rightarrow> ('a \<Rightarrow> 'a \<Rightarrow> unit M) \<Rightarrow> unit M" where
  "forEachPair [] f = ret ()"
| "forEachPair (x # xs) f = seq (forEach xs (f x)) (forEachPair xs f)"

text \<open>Computations that touch no member: a result or an exception.\<close>

definition bindE :: "error + 'x \<Rightarrow> ('x \<Rightarrow> error + 'y) \<Rightarrow> error + 'y" where
  "bindE r f = (case r of Inl e \<Rightarrow> Inl e | Inr x \<Rightarrow> f x)"

fun mapE :: "('a \<Rightarrow> error + 'b) \<Rightarrow> 'a list \<Rightarrow> error + 'b list" where
  "mapE f [] = Inr []"
| "mapE f (x # xs) = bindE (f x) (\<lambda>y. bindE (mapE f xs) (\<lambda>ys. Inr (y # ys)))"

definition concatE :: "('a \<Rightarrow> error + 'b list) \<Rightarrow> 'a list \<Rightarrow> error + 'b list" where
  "concatE f xs = bindE (mapE f xs) (\<lambda>yss. Inr (concat yss))"

subsection \<open>The emitting members\<close>

definition emitStarted :: "unit M" where
  "emitStarted = (\<lambda>s. (Inr (), s\<lparr>emitted := emitted s @ [Started]\<rparr>))"

definition emitFinished :: "unit M" where
  "emitFinished = (\<lambda>s. (Inr (), s\<lparr>emitted := emitted s @ [Finished]\<rparr>))"

definition emitProgress :: "int \<Rightarrow> unit M" where
  "emitProgress percent =
     (\<lambda>s. (Inr (), s\<lparr>mProgressPercent := percent,
                      emitted := emitted s @ [ProgressPercent percent]\<rparr>))"

text \<open>
  \<open>emitStatus\<close> also lets the application process its pending events; the
  model takes no event to reach the check or its board meanwhile.
\<close>

definition emitStatus :: "string \<Rightarrow> unit M" where
  "emitStatus status =
     (\<lambda>s. (Inr (), s\<lparr>mProgressStatus := mProgressStatus s @ [status],
                      emitted := emitted s @ [ProgressStatus status]\<rparr>))"

definition emitMessage :: "Kernel \<Rightarrow> DrcMsg \<Rightarrow> unit M" where
  "emitMessage K msg =
     (\<lambda>s. (Inr (), s\<lparr>mMessages := mMessages s @ [msg],
                      emitted := emitted s @ [ProgressMessage (messageText K msg)]\<rparr>))"

section \<open>The checks\<close>

definition setBoard :: "Board \<Rightarrow> unit M" where
  "setBoard b = (\<lambda>s. (Inr (), s\<lparr>mBoard := b\<rparr>))"

definition rebuildPlanes :: "Kernel \<Rightarrow> int \<Rightarrow> unit M" where
  "rebuildPlanes K progressEnd =
     block [
       emitStatus ''Rebuild planes...'',
       withState (\<lambda>s. bind (lift (rebuildAllPlanes K (mBoard s))) setBoard),
       emitProgress progressEnd]"

subsection \<open>Minimum copper width\<close>

definition textLocations :: "Kernel \<Rightarrow> StrokeText \<Rightarrow> Path list" where
  "textLocations K text =
     concat (map (\<lambda>path. toOutlineStrokes K (mapPath K (textTransform text) path)
                            (max (textStrokeWidth text) 50000))
                 (textPaths text))"

definition checkMinimumCopperWidth :: "Kernel \<Rightarrow> int \<Rightarrow> unit M" where
  "checkMinimumCopperWidth K progressEnd = withState (\<lambda>s.
     let minWidth = getMinCopperWidth (mSettings s); board = mBoard s in
     if minWidth = 0 then ret ()
     else block [
       emitStatus ''Check copper widths...'',
       forEach (getStrokeTexts board) (\<lambda>text.
         if textLayer text \<notin> set (getCopperLayers board) then ret ()
         else whenM (textStrokeWidth text < minWidth)
           (emitMessage K (mkMsg MinimumWidthViolation
              [ArgBoardStrokeText (textUuid text), ArgLength minWidth]
              (textLocations K text)))),
       forEach (getPlanes board) (\<lambda>plane.
         if planeLayer plane \<notin> set (getCopperLayers board) then ret ()
         else whenM (planeMinWidth plane < minWidth)
           (emitMessage K (mkMsg MinimumWidthViolation
              [ArgPlane (planeUuid plane), ArgLength minWidth]
              (toOutlineStrokes K (toClosedPath K (planeOutline plane)) 200000)))),
       forEach (getDeviceInstances board) (\<lambda>device.
         forEach (deviceStrokeTexts device) (\<lambda>text.
           if textLayer text \<notin> set (getCopperLayers board) then ret ()
           else whenM (textStrokeWidth text < minWidth)
             (emitMessage K (mkMsg MinimumWidthViolation
                [ArgBoardStrokeText (textUuid text), ArgLength minWidth]
                (textLocations K text))))),
       forEach (getNetSegments board) (\<lambda>netsegment.
         forEach (netSegmentNetLines netsegment) (\<lambda>netline.
           if netLineLayer netline \<notin> set (getCopperLayers board) then ret ()
           else whenM (netLineWidth netline < minWidth)
             (emitMessage K (mkMsg MinimumWidthViolation
                [ArgNetLine (netLineUuid netline), ArgLength minWidth]
                [obround K (netLineStartPos netline) (netLineEndPos netline)
                   (netLineWidth netline)])))),
       emitProgress progressEnd])"

subsection \<open>Copper to copper clearance\<close>

text \<open>The offset applied to each copper object.\<close>

definition copperCopperOffset :: "Length \<Rightarrow> Length" where
  "copperCopperOffset clearance =
     max (lenSub (lenDiv (lenSub clearance maxArcTolerance) 2) 1) 0"

record Item =
  itemObj :: MsgArg
  itemPolygon :: "Uuid option"
  itemCircle :: "Uuid option"
  itemLayer :: "Layer option"
  itemNetSignal :: "Uuid option"
  itemAreas :: ClipperPaths

definition mkItem ::
  "MsgArg \<Rightarrow> Uuid option \<Rightarrow> Uuid option \<Rightarrow> Layer option \<Rightarrow> Uuid option \<Rightarrow> ClipperPaths \<Rightarrow> Item" where
  "mkItem obj polygon circle layer net areas =
     \<lparr>itemObj = obj, itemPolygon = polygon, itemCircle = circle, itemLayer = layer,
      itemNetSignal = net, itemAreas = areas\<rparr>"

definition netSegmentItems :: "Kernel \<Rightarrow> Board \<Rightarrow> Length \<Rightarrow> NetSegment \<Rightarrow> error + Item list" where
  "netSegmentItems K board offset netSegment =
     bindE (mapE (\<lambda>via.
              bindE (addVia K board via offset) (\<lambda>paths.
                Inr (mkItem (ArgVia (viaUuid via)) None None None
                       (netSegmentNetSignal netSegment) paths)))
            (netSegmentVias netSegment)) (\<lambda>vias.
     bindE (concatE (\<lambda>netLine.
              if netLineLayer netLine \<in> set (getCopperLayers board)
              then bindE (addNetLine K board netLine offset) (\<lambda>paths.
                Inr [mkItem (ArgNetLine (netLineUuid netLine)) None None
                       (Some (netLineLayer netLine)) (netSegmentNetSignal netSegment) paths])
              else Inr [])
            (netSegmentNetLines netSegment)) (\<lambda>netLines.
     Inr (vias @ netLines)))"

definition planeItems :: "Kernel \<Rightarrow> Board \<Rightarrow> Length \<Rightarrow> error + Item list" where
  "planeItems K board offset =
     concatE (\<lambda>plane.
       if planeLayer plane \<in> set (getCopperLayers board)
       then bindE (addPlane K board plane) (\<lambda>paths.
            bindE (clipOffset K paths offset maxArcTolerance) (\<lambda>paths.
              Inr [mkItem (ArgPlane (planeUuid plane)) None None (Some (planeLayer plane))
                     (Some (planeNetSignal plane)) paths]))
       else Inr [])
     (getPlanes board)"

definition boardPolygonItems :: "Kernel \<Rightarrow> Board \<Rightarrow> Length \<Rightarrow> error + Item list" where
  "boardPolygonItems K board offset =
     concatE (\<lambda>polygon.
       if polygonLayer polygon \<in> set (getCopperLayers board)
       then bindE (addBoardPolygon K board polygon) (\<lambda>paths.
            bindE (clipOffset K paths offset maxArcTolerance) (\<lambda>paths.
              Inr [mkItem (ArgBoardPolygon (polygonUuid polygon)) None None
                     (Some (polygonLayer polygon)) None paths]))
       else Inr [])
     (getPolygons board)"

definition strokeTextItems ::
  "Kernel \<Rightarrow> Board \<Rightarrow> Length \<Rightarrow> StrokeText list \<Rightarrow> error + Item list" where
  "strokeTextItems K board offset texts =
     concatE (\<lambda>strokeText.
       if textLayer strokeText \<in> set (getCopperLayers board)
       then bindE (addStrokeText K board strokeText offset) (\<lambda>paths.
              Inr [mkItem (ArgBoardStrokeText (textUuid strokeText)) None None
                     (Some (textLayer strokeText)) None paths])
       else Inr [])
     texts"

definition deviceItems :: "Kernel \<Rightarrow> Board \<Rightarrow> Length \<Rightarrow> Device \<Rightarrow> error + Item list" where
  "deviceItems K board offset device =
     (let transform = deviceTransform device;
          dev = componentUuid (deviceComponent device) in
     bindE (concatE (\<lambda>pad.
              concatE (\<lambda>layer.
                if layer \<in> set (padLayers pad)
                then bindE (addPad K board pad transform layer offset) (\<lambda>paths.
                       Inr [mkItem (ArgPad (padUuid pad)) None None (Some layer)
                              (padNetSignal pad) paths])
                else Inr [])
              (getCopperLayers board))
            (devicePads device)) (\<lambda>pads.
     bindE (concatE (\<lambda>polygon.
              if polygonLayer polygon \<in> set (getCopperLayers board)
              then bindE (addPolygon K board polygon transform) (\<lambda>paths.
                   bindE (clipOffset K paths offset maxArcTolerance) (\<lambda>paths.
                     Inr [mkItem (ArgDevice dev) (Some (polygonUuid polygon)) None
                            (Some (polygonLayer polygon)) None paths]))
              else Inr [])
            (footprintPolygons (deviceLibFootprint device))) (\<lambda>polygons.
     bindE (concatE (\<lambda>circle.
              if circleLayer circle \<in> set (getCopperLayers board)
              then bindE (addCircle K board circle transform offset) (\<lambda>paths.
                     Inr [mkItem (ArgDevice dev) None (Some (circleUuid circle))
                            (Some (circleLayer circle)) None paths])
              else Inr [])
            (footprintCircles (deviceLibFootprint device))) (\<lambda>circles.
     bindE (strokeTextItems K board offset (deviceStrokeTexts device)) (\<lambda>texts.
     Inr (pads @ polygons @ circles @ texts))))))"

text \<open>The areas of all copper objects, in the order the check collects them.\<close>

definition copperItems :: "Kernel \<Rightarrow> Board \<Rightarrow> bool \<Rightarrow> Length \<Rightarrow> error + Item list" where
  "copperItems K board ignorePlanes offset =
     bindE (concatE (netSegmentItems K board offset) (getNetSegments board)) (\<lambda>segments.
     bindE (if \<not> ignorePlanes then planeItems K board offset else Inr []) (\<lambda>planes.
     bindE (boardPolygonItems K board offset) (\<lambda>polygons.
     bindE (strokeTextItems K board offset (getStrokeTexts board)) (\<lambda>texts.
     bindE (concatE (deviceItems K board offset) (getDeviceInstances board)) (\<lambda>devices.
     Inr (segments @ planes @ polygons @ texts @ devices))))))"

definition copperCopperMsg :: "Kernel \<Rightarrow> Length \<Rightarrow> Item \<Rightarrow> Item \<Rightarrow> ClipperPaths \<Rightarrow> DrcMsg" where
  "copperCopperMsg K clearance it1 it2 paths =
     mkMsg CopperCopperClearanceViolation
       [ArgLayerPtr (itemLayer it1), ArgNetSignal (itemNetSignal it1), itemObj it1,
        ArgPolygonPtr (itemPolygon it1), ArgCirclePtr (itemCircle it1),
        ArgLayerPtr (itemLayer it2), ArgNetSignal (itemNetSignal it2), itemObj it2,
        ArgPolygonPtr (itemPolygon it2), ArgCirclePtr (itemCircle it2),
        ArgLength clearance]
       (convertToPaths K paths)"

definition checkCopperPair :: "Kernel \<Rightarrow> Length \<Rightarrow> Item \<Rightarrow> Item \<Rightarrow> unit M" where
  "checkCopperPair K clearance it1 it2 =
     whenM ((itemNetSignal it1 \<noteq> itemNetSignal it2 \<or> itemNetSignal it1 = None \<or>
             itemNetSignal it2 = None) \<and>
            (itemLayer it1 = None \<or> itemLayer it2 = None \<or> itemLayer it1 = itemLayer it2))
       (bind (lift (clipIntersect K (itemAreas it1) (itemAreas it2))) (\<lambda>intersections.
          let paths = flattenTree K intersections in
          whenM (paths \<noteq> []) (emitMessage K (copperCopperMsg K clearance it1 it2 paths))))"

definition checkCopperCopperClearances :: "Kernel \<Rightarrow> int \<Rightarrow> unit M" where
  "checkCopperCopperClearances K progressEnd = withState (\<lambda>s.
     let clearance = getMinCopperCopperClearance (mSettings s) in
     if clearance = 0 then ret ()
     else block [
       emitStatus ''Check copper clearances...'',
       bind (lift (copperItems K (mBoard s) (mIgnorePlanes s) (copperCopperOffset clearance)))
         (\<lambda>items. forEachPair items (checkCopperPair K clearance)),
       emitProgress progressEnd])"

subsection \<open>Copper to board edge clearance\<close>

definition getBoardClearanceArea :: "Kernel \<Rightarrow> Board \<Rightarrow> Length \<Rightarrow> error + ClipperPaths" where
  "getBoardClearanceArea K board clearance =
     bindE (unsAdd clearance clearance) (\<lambda>twice.
     let clearanceWidth = max (lenSub (lenSub twice maxArcTolerance) 1) 1;
         boardPaths = concat (map (\<lambda>polygon.
             if polygonLayer polygon = BoardOutlines
             then convertPaths K (toOutlineStrokes K (polygonPath polygon) clearanceWidth)
                    maxArcTolerance
             else [])
           (getPolygons board));
         devicePaths = concat (map (\<lambda>device.
             concat (map (\<lambda>polygon.
               if polygonLayer polygon = BoardOutlines
               then convertPaths K
                      (toOutlineStrokes K (mapPath K (deviceTransform device) (polygonPath polygon))
                         clearanceWidth)
                      maxArcTolerance
               else [])
             (footprintPolygons (deviceLibFootprint device))))
           (getDeviceInstances board))
     in clipUniteSelf K (boardPaths @ devicePaths))"

text \<open>
  The helper \<open>intersects\<close> of the board clearance checks followed by the emission
  it guards: the paths of one object are intersected with the restricted area,
  and a message with the intersection as locations is emitted when there are any.
\<close>

definition reportIntersection ::
  "Kernel \<Rightarrow> ClipperPaths \<Rightarrow> error + ClipperPaths \<Rightarrow> (Path list \<Rightarrow> DrcMsg) \<Rightarrow> unit M" where
  "reportIntersection K area objPaths msg =
     bind (lift objPaths) (\<lambda>paths.
     bind (lift (clipIntersect K area paths)) (\<lambda>intersections.
       let locations = convertToPaths K (flattenTree K intersections) in
       whenM (locations \<noteq> []) (emitMessage K (msg locations))))"

definition checkCopperBoardClearances :: "Kernel \<Rightarrow> int \<Rightarrow> unit M" where
  "checkCopperBoardClearances K progressEnd = withState (\<lambda>s.
     let clearance = getMinCopperBoardClearance (mSettings s); board = mBoard s in
     if clearance = 0 then ret ()
     else seq (emitStatus ''Check board clearances...'')
       (bind (lift (getBoardClearanceArea K board clearance)) (\<lambda>restrictedArea. block [
         forEach (getNetSegments board) (\<lambda>netSegment. block [
           forEach (netSegmentVias netSegment) (\<lambda>via.
             reportIntersection K restrictedArea (addVia K board via 0)
               (mkMsg CopperBoardClearanceViolation [ArgVia (viaUuid via), ArgLength clearance])),
           forEach (netSegmentNetLines netSegment) (\<lambda>netLine.
             reportIntersection K restrictedArea (addNetLine K board netLine 0)
               (mkMsg CopperBoardClearanceViolation
                  [ArgNetLine (netLineUuid netLine), ArgLength clearance]))]),
         whenM (\<not> mIgnorePlanes s)
           (forEach (getPlanes board) (\<lambda>plane.
             reportIntersection K restrictedArea (addPlane K board plane)
               (mkMsg CopperBoardClearanceViolation
                  [ArgPlane (planeUuid plane), ArgLength clearance]))),
         forEach (getPolygons board) (\<lambda>polygon.
           whenM (polygonLayer polygon \<in> set (getCopperLayers board))
             (reportIntersection K restrictedArea (addBoardPolygon K board polygon)
               (mkMsg CopperBoardClearanceViolation
                  [ArgDevicePtr None, ArgPolygon (polygonUuid polygon), ArgLength clearance]))),
         forEach (getStrokeTexts board) (\<lambda>strokeText.
           whenM (textLayer strokeText \<in> set (getCopperLayers board))
             (reportIntersection K restrictedArea (addStrokeText K board strokeText 0)
               (mkMsg CopperBoardClearanceViolation
                  [ArgDevicePtr None, ArgStrokeText (textUuid strokeText), ArgLength clearance]))),
         forEach (getDeviceInstances board) (\<lambda>device.
           let transform = deviceTransform device;
               dev = componentUuid (deviceComponent device) in
           block [
             forEach (devicePads device) (\<lambda>pad.
               forEach (getCopperLayers board) (\<lambda>layer.
                 whenM (layer \<in> set (padLayers pad))
                   (reportIntersection K restrictedArea (addPad K board pad transform layer 0)
                     (mkMsg CopperBoardClearanceViolation
                        [ArgPad (padUuid pad), ArgLength clearance])))),
             forEach (footprintPolygons (deviceLibFootprint device)) (\<lambda>polygon.
               whenM (polygonLayer polygon \<in> set (getCopperLayers board))
                 (reportIntersection K restrictedArea (addPolygon K board polygon transform)
                   (mkMsg CopperBoardClearanceViolation
                      [ArgDevicePtr (Some dev), ArgPolygon (polygonUuid polygon),
                       ArgLength clearance]))),
             forEach (footprintCircles (deviceLibFootprint device)) (\<lambda>circle.
               whenM (circleLayer circle \<in> set (getCopperLayers board))
                 (reportIntersection K restrictedArea (addCircle K board circle transform 0)
                   (mkMsg CopperBoardClearanceViolation
                      [ArgDevicePtr (Some dev), ArgCircle (circleUuid circle),
                       ArgLength clearance]))),
             forEach (deviceStrokeTexts device) (\<lambda>strokeText.
               whenM (textLayer strokeText \<in> set (getCopperLayers board))
                 (reportIntersection K restrictedArea (addStrokeText K board strokeText 0)
                   (mkMsg CopperBoardClearanceViolation
                      [ArgDevicePtr (Some dev), ArgStrokeText (textUuid strokeText),
                       ArgLength clearance])))]),
         emitProgress progressEnd])))"

subsection \<open>Copper to hole clearance\<close>

definition setCachedPaths :: "Layer \<times> Uuid set \<Rightarrow> ClipperPaths \<Rightarrow> unit M" where
  "setCachedPaths key paths = (\<lambda>s. (Inr (), s\<lparr>mCachedPaths := (mCachedPaths s)(key \<mapsto> paths)\<rparr>))"

definition getCopperPaths :: "Kernel \<Rightarrow> Layer \<Rightarrow> Uuid set \<Rightarrow> ClipperPaths M" where
  "getCopperPaths K layer netsignals = withState (\<lambda>s.
     case mCachedPaths s (layer, netsignals) of
       Some paths \<Rightarrow> ret paths
     | None \<Rightarrow>
         bind (lift (addCopper K (mBoard s) layer netsignals (mIgnorePlanes s))) (\<lambda>paths.
           seq (setCachedPaths (layer, netsignals) paths) (ret paths)))"

fun foldM :: "('b \<Rightarrow> 'a \<Rightarrow> 'b M) \<Rightarrow> 'b \<Rightarrow> 'a list \<Rightarrow> 'b M" where
  "foldM f acc [] = ret acc"
| "foldM f acc (x # xs) = bind (f acc x) (\<lambda>acc'. foldM f acc' xs)"

fun foldE :: "('b \<Rightarrow> 'a \<Rightarrow> error + 'b) \<Rightarrow> 'b \<Rightarrow> 'a list \<Rightarrow> error + 'b" where
  "foldE f acc [] = Inr acc"
| "foldE f acc (x # xs) = bindE (f acc x) (\<lambda>acc'. foldE f acc' xs)"

definition checkCopperHoleClearances :: "Kernel \<Rightarrow> int \<Rightarrow> unit M" where
  "checkCopperHoleClearances K progressEnd = withState (\<lambda>s.
     let clearance = getMinCopperNpthClearance (mSettings s); board = mBoard s in
     if clearance = 0 then ret ()
     else seq (emitStatus ''Check hole clearances...'')
       (bind (foldM (\<lambda>copperAreas layer.
                bind (getCopperPaths K layer {}) (\<lambda>paths. lift (clipUnite K copperAreas paths)))
              [] (getCopperLayers board)) (\<lambda>copperAreas. block [
         forEach (getHoles board) (\<lambda>hole.
           reportIntersection K copperAreas
             (addHole K board hole identityTransform (lenSub (lenSub clearance maxArcTolerance) 1))
             (mkMsg CopperHoleClearanceViolation
                [ArgDevicePtr None, ArgHole (holeUuid hole), ArgLength clearance])),
         forEach (getDeviceInstances board) (\<lambda>device.
           forEach (footprintHoles (deviceLibFootprint device)) (\<lambda>hole.
             reportIntersection K copperAreas
               (addHole K board hole (deviceTransform device)
                  (lenSub (lenSub clearance maxArcTolerance) 1))
               (mkMsg CopperHoleClearanceViolation
                  [ArgDevicePtr (Some (componentUuid (deviceComponent device))),
                   ArgHole (holeUuid hole), ArgLength clearance]))),
         emitProgress progressEnd])))"

subsection \<open>Drill to drill clearance\<close>

definition drillExpansion :: "Length \<Rightarrow> Length" where
  "drillExpansion clearance = max (lenSub (lenSub clearance maxArcTolerance) 1) 0"

record DrillItem =
  drillObj :: MsgArg
  drillHole :: "Uuid option"
  drillAreas :: ClipperPaths

text \<open>The helper \<open>addItem\<close>: the outline of one drill, its diameter expanded.\<close>

definition drillItem ::
  "Kernel \<Rightarrow> Length \<Rightarrow> MsgArg \<Rightarrow> Uuid \<Rightarrow> Path \<Rightarrow> Length \<Rightarrow> error + DrillItem" where
  "drillItem K diameterExpansion item hole path diameter =
     bindE (posAdd diameter diameterExpansion) (\<lambda>expanded.
       Inr \<lparr>drillObj = item, drillHole = Some hole,
            drillAreas = convertPaths K (toOutlineStrokes K path expanded) maxArcTolerance\<rparr>)"

definition makeNonEmptyPath :: "Point \<Rightarrow> Path" where
  "makeNonEmptyPath pos = [\<lparr>getPos = pos, getAngle = 0\<rparr>]"

definition drillItems :: "Kernel \<Rightarrow> Board \<Rightarrow> Length \<Rightarrow> error + DrillItem list" where
  "drillItems K board diameterExpansion =
     bindE (concatE (\<lambda>netSegment.
              mapE (\<lambda>via. drillItem K diameterExpansion (ArgVia (viaUuid via)) (viaUuid via)
                             (makeNonEmptyPath (viaPosition via)) (viaDrillDiameter via))
                (netSegmentVias netSegment))
            (getNetSegments board)) (\<lambda>vias.
     bindE (mapE (\<lambda>hole. drillItem K diameterExpansion (ArgBoardHole (holeUuid hole))
                            (holeUuid hole) (holePath hole) (holeDiameter hole))
            (getHoles board)) (\<lambda>holes.
     bindE (concatE (\<lambda>device.
              bindE (concatE (\<lambda>pad.
                       mapE (\<lambda>hole. drillItem K diameterExpansion (ArgPad (padUuid pad))
                                      (holeUuid hole)
                                      (mapPath K (deviceTransform device)
                                         (mapPath K (libPadTransform pad) (holePath hole)))
                                      (holeDiameter hole))
                         (padHoles pad))
                     (devicePads device)) (\<lambda>padHoles.
              bindE (mapE (\<lambda>hole. drillItem K diameterExpansion
                                     (ArgDevice (componentUuid (deviceComponent device)))
                                     (holeUuid hole)
                                     (mapPath K (deviceTransform device) (holePath hole))
                                     (holeDiameter hole))
                     (footprintHoles (deviceLibFootprint device))) (\<lambda>holes.
              Inr (padHoles @ holes))))
            (getDeviceInstances board)) (\<lambda>devices.
     Inr (vias @ holes @ devices))))"

definition drillDrillMsg :: "Kernel \<Rightarrow> Length \<Rightarrow> DrillItem \<Rightarrow> Uuid \<Rightarrow> DrillItem \<Rightarrow> Uuid
    \<Rightarrow> ClipperPaths \<Rightarrow> DrcMsg" where
  "drillDrillMsg K clearance it1 hole1 it2 hole2 paths =
     mkMsg DrillDrillClearanceViolation
       [drillObj it1, ArgHoleUuid hole1, drillObj it2, ArgHoleUuid hole2, ArgLength clearance]
       (convertToPaths K paths)"

definition checkDrillPair :: "Kernel \<Rightarrow> Length \<Rightarrow> DrillItem \<Rightarrow> DrillItem \<Rightarrow> unit M" where
  "checkDrillPair K clearance it1 it2 =
     bind (lift (clipIntersect K (drillAreas it1) (drillAreas it2))) (\<lambda>intersections.
       let paths = flattenTree K intersections in
       case (drillHole it1, drillHole it2) of
         (Some hole1, Some hole2) \<Rightarrow>
           whenM (paths \<noteq> []) (emitMessage K (drillDrillMsg K clearance it1 hole1 it2 hole2 paths))
       | _ \<Rightarrow> ret ())"

definition checkDrillDrillClearances :: "Kernel \<Rightarrow> int \<Rightarrow> unit M" where
  "checkDrillDrillClearances K progressEnd = withState (\<lambda>s.
     let clearance = getMinDrillDrillClearance (mSettings s) in
     if clearance = 0 then ret ()
     else block [
       emitStatus ''Check drill clearances...'',
       bind (lift (drillItems K (mBoard s) (drillExpansion clearance)))
         (\<lambda>items. forEachPair items (checkDrillPair K clearance)),
       emitProgress progressEnd])"

subsection \<open>Drill to board edge clearance\<close>

definition drillOutline :: "Kernel \<Rightarrow> Path \<Rightarrow> Length \<Rightarrow> error + ClipperPaths" where
  "drillOutline K path diameter =
     Inr (convertPaths K (toOutlineStrokes K path diameter) maxArcTolerance)"

definition checkDrillBoardClearances :: "Kernel \<Rightarrow> int \<Rightarrow> unit M" where
  "checkDrillBoardClearances K progressEnd = withState (\<lambda>s.
     let clearance = getMinDrillBoardClearance (mSettings s); board = mBoard s in
     if clearance = 0 then ret ()
     else seq (emitStatus ''Check drill to board edge clearances...'')
       (bind (lift (getBoardClearanceArea K board clearance)) (\<lambda>restrictedArea. block [
         forEach (getNetSegments board) (\<lambda>netSegment.
           forEach (netSegmentVias netSegment) (\<lambda>via.
             reportIntersection K restrictedArea
               (drillOutline K (makeNonEmptyPath (viaPosition via)) (viaDrillDiameter via))
               (mkMsg DrillBoardClearanceViolation [ArgVia (viaUuid via), ArgLength clearance]))),
         forEach (getHoles board) (\<lambda>hole.
           reportIntersection K restrictedArea
             (drillOutline K (holePath hole) (holeDiameter hole))
             (mkMsg DrillBoardClearanceViolation
                [ArgDevicePtr None, ArgHole (holeUuid hole), ArgLength clearance])),
         forEach (getDeviceInstances board) (\<lambda>device. block [
           forEach (devicePads device) (\<lambda>pad.
             forEach (padHoles pad) (\<lambda>hole.
               reportIntersection K restrictedArea
                 (drillOutline K
                    (mapPath K (deviceTransform device)
                       (mapPath K (libPadTransform pad) (holePath hole)))
                    (holeDiameter hole))
                 (mkMsg DrillBoardClearanceViolation
                    [ArgPad (padUuid pad), ArgHole (holeUuid hole), ArgLength clearance]))),
           forEach (footprintHoles (deviceLibFootprint device)) (\<lambda>hole.
             reportIntersection K restrictedArea
               (drillOutline K (mapPath K (deviceTransform device) (holePath hole))
                  (holeDiameter hole))
               (mkMsg DrillBoardClearanceViolation
                  [ArgDevicePtr (Some (componentUuid (deviceComponent device))),
                   ArgHole (holeUuid hole), ArgLength clearance]))]),
         emitProgress progressEnd])))"

subsection \<open>Minimum annular ring of plated holes\<close>

text \<open>The diameter of a drill including the minimum annular ring.\<close>

definition annularDiameter :: "Length \<Rightarrow> Length \<Rightarrow> Length" where
  "annularDiameter drill annularWidth = lenSub (lenAdd drill (lenMul annularWidth 2)) 1"

text \<open>What the check does with an area: report the part not covered by copper.\<close>

definition reportUncovered ::
  "Kernel \<Rightarrow> ClipperPaths \<Rightarrow> ClipperPaths \<Rightarrow> (Path list \<Rightarrow> DrcMsg) \<Rightarrow> unit M" where
  "reportUncovered K areas thtCopperAreaPaths msg =
     bind (lift (clipSubtractToTree K areas thtCopperAreaPaths)) (\<lambda>remainingAreasTree.
       let remainingAreas = flattenTree K remainingAreasTree in
       whenM (remainingAreas \<noteq> []) (emitMessage K (msg (convertToPaths K remainingAreas))))"

definition checkViaAnnularRing :: "Kernel \<Rightarrow> Length \<Rightarrow> ClipperPaths \<Rightarrow> Via \<Rightarrow> unit M" where
  "checkViaAnnularRing K annularWidth thtCopperAreaPaths via =
     (let diameter = annularDiameter (viaDrillDiameter via) annularWidth in
      if diameter \<le> 0 then ret ()
      else reportUncovered K
             (convertPaths K [translated K (circlePath K diameter) (viaPosition via)]
                maxArcTolerance)
             thtCopperAreaPaths
             (mkMsg MinimumAnnularRingViolation [ArgVia (viaUuid via), ArgLength annularWidth]))"

definition padHoleAreas ::
  "Kernel \<Rightarrow> Length \<Rightarrow> FootprintPad \<Rightarrow> ClipperPaths \<Rightarrow> Hole \<Rightarrow> error + ClipperPaths" where
  "padHoleAreas K annularWidth pad areas hole =
     (let diameter = annularDiameter (holeDiameter hole) annularWidth in
      if diameter \<le> 0 then Inr areas
      else foldE (\<lambda>areas area.
             clipUnite K areas
               (convertPaths K [mapPath K (padTransform pad) area] maxArcTolerance))
           areas (toOutlineStrokes K (holePath hole) diameter))"

definition checkPadAnnularRing ::
  "Kernel \<Rightarrow> Length \<Rightarrow> ClipperPaths \<Rightarrow> FootprintPad \<Rightarrow> unit M" where
  "checkPadAnnularRing K annularWidth thtCopperAreaPaths pad =
     bind (lift (foldE (padHoleAreas K annularWidth pad) [] (padHoles pad))) (\<lambda>areas.
       reportUncovered K areas thtCopperAreaPaths
         (mkMsg MinimumAnnularRingViolation [ArgPad (padUuid pad), ArgLength annularWidth]))"

definition checkMinimumPthAnnularRing :: "Kernel \<Rightarrow> int \<Rightarrow> unit M" where
  "checkMinimumPthAnnularRing K progressEnd = withState (\<lambda>s.
     let annularWidth = getMinPthAnnularRing (mSettings s); board = mBoard s in
     if annularWidth = 0 then ret ()
     else seq (emitStatus ''Check PTH annular rings...'')
       (bind (foldM (\<lambda>thtCopperAreas layer.
                bind (getCopperPaths K layer {}) (\<lambda>paths. ret (thtCopperAreas @ [paths])))
              [] (getCopperLayers board)) (\<lambda>thtCopperAreas.
        bind (lift (clipIntersectAll K thtCopperAreas)) (\<lambda>thtCopperAreaIntersections.
        let thtCopperAreaPaths = treeToPaths K thtCopperAreaIntersections in
        block [
          forEach (getNetSegments board) (\<lambda>netsegment.
            forEach (netSegmentVias netsegment)
              (checkViaAnnularRing K annularWidth thtCopperAreaPaths)),
          forEach (getDeviceInstances board) (\<lambda>device.
            forEach (devicePads device)
              (checkPadAnnularRing K annularWidth thtCopperAreaPaths)),
          emitProgress progressEnd]))))"

subsection \<open>Drill diameters, slot widths and allowed slots\<close>

text \<open>
  Modelled from the spec: \<open>isSlot\<close>, \<open>isMultiSegmentSlot\<close> and \<open>isCurvedSlot\<close> of
  \<open>Hole\<close> and \<open>PadHole\<close> are not among the files at hand. By the specification
  a hole with a path of one vertex is a round drill, a path of at least three
  vertices is a multi-segment slot, and a curved slot has an arc vertex: a vertex
  whose edge to the next vertex has a sweep other than 0.
\<close>

definition isSlot :: "Hole \<Rightarrow> bool" where
  "isSlot hole \<longleftrightarrow> length (holePath hole) > 1"

definition isMultiSegmentSlot :: "Hole \<Rightarrow> bool" where
  "isMultiSegmentSlot hole \<longleftrightarrow> length (holePath hole) > 2"

definition isCurvedSlot :: "Hole \<Rightarrow> bool" where
  "isCurvedSlot hole \<longleftrightarrow> list_ex (\<lambda>v. getAngle v \<noteq> 0) (butlast (holePath hole))"

definition requiresHoleSlotWarning :: "Hole \<Rightarrow> AllowedSlots \<Rightarrow> bool" where
  "requiresHoleSlotWarning hole allowed =
     (if isCurvedSlot hole \<and> allowedSlotsRank allowed < allowedSlotsRank SlotsAny then True
      else if isMultiSegmentSlot hole \<and>
              allowedSlotsRank allowed < allowedSlotsRank MultiSegmentStraight then True
      else if isSlot hole \<and>
              allowedSlotsRank allowed < allowedSlotsRank SingleSegmentStraight then True
      else False)"

definition getHoleLocation :: "Kernel \<Rightarrow> Hole \<Rightarrow> Transform \<Rightarrow> Transform \<Rightarrow> Path list" where
  "getHoleLocation K hole transform1 transform2 =
     map (mapPath K transform2)
       (toOutlineStrokes K (mapPath K transform1 (holePath hole)) (holeDiameter hole))"

definition checkMinimumNpthDrillDiameter :: "Kernel \<Rightarrow> int \<Rightarrow> unit M" where
  "checkMinimumNpthDrillDiameter K progressEnd = withState (\<lambda>s.
     let minDiameter = getMinNpthDrillDiameter (mSettings s); board = mBoard s in
     if minDiameter = 0 then ret ()
     else block [
       emitStatus ''Check NPTH drill diameters...'',
       forEach (getHoles board) (\<lambda>hole.
         whenM (\<not> isSlot hole \<and> holeDiameter hole < minDiameter)
           (emitMessage K (mkMsg MinimumDrillDiameterViolation
              [ArgDevicePtr None, ArgHole (holeUuid hole), ArgLength minDiameter]
              (getHoleLocation K hole identityTransform identityTransform)))),
       forEach (getDeviceInstances board) (\<lambda>device.
         forEach (footprintHoles (deviceLibFootprint device)) (\<lambda>hole.
           whenM (\<not> isSlot hole \<and> holeDiameter hole < minDiameter)
             (emitMessage K (mkMsg MinimumDrillDiameterViolation
                [ArgDevicePtr (Some (componentUuid (deviceComponent device))),
                 ArgHole (holeUuid hole), ArgLength minDiameter]
                (getHoleLocation K hole (deviceTransform device) identityTransform))))),
       emitProgress progressEnd])"

definition checkMinimumNpthSlotWidth :: "Kernel \<Rightarrow> int \<Rightarrow> unit M" where
  "checkMinimumNpthSlotWidth K progressEnd = withState (\<lambda>s.
     let minWidth = getMinNpthSlotWidth (mSettings s); board = mBoard s in
     if minWidth = 0 then ret ()
     else block [
       emitStatus ''Check NPTH slot widths...'',
       forEach (getHoles board) (\<lambda>hole.
         whenM (isSlot hole \<and> holeDiameter hole < minWidth)
           (emitMessage K (mkMsg MinimumSlotWidthViolation
              [ArgDevicePtr None, ArgHole (holeUuid hole), ArgLength minWidth]
              (getHoleLocation K hole identityTransform identityTransform)))),
       forEach (getDeviceInstances board) (\<lambda>device.
         forEach (footprintHoles (deviceLibFootprint device)) (\<lambda>hole.
           whenM (isSlot hole \<and> holeDiameter hole < minWidth)
             (emitMessage K (mkMsg MinimumSlotWidthViolation
                [ArgDevicePtr (Some (componentUuid (deviceComponent device))),
                 ArgHole (holeUuid hole), ArgLength minWidth]
                (getHoleLocation K hole (deviceTransform device) identityTransform))))),
       emitProgress progressEnd])"

definition checkMinimumPthDrillDiameter :: "Kernel \<Rightarrow> int \<Rightarrow> unit M" where
  "checkMinimumPthDrillDiameter K progressEnd = withState (\<lambda>s.
     let minDiameter = getMinPthDrillDiameter (mSettings s); board = mBoard s in
     if minDiameter = 0 then ret ()
     else block [
       emitStatus ''Check PTH drill diameters...'',
       forEach (getNetSegments board) (\<lambda>netsegment.
         forEach (netSegmentVias netsegment) (\<lambda>via.
           whenM (viaDrillDiameter via < minDiameter)
             (emitMessage K (mkMsg MinimumDrillDiameterViolation
                [ArgVia (viaUuid via), ArgLength minDiameter]
                [translated K (circlePath K (viaDrillDiameter via)) (viaPosition via)])))),
       forEach (getDeviceInstances board) (\<lambda>device.
         forEach (devicePads device) (\<lambda>pad.
           forEach (padHoles pad) (\<lambda>hole.
             whenM (holeDiameter hole < minDiameter)
               (emitMessage K (mkMsg MinimumDrillDiameterViolation
                  [ArgPad (padUuid pad), ArgHole (holeUuid hole), ArgLength minDiameter]
                  [translated K (circlePath K (max (holeDiameter hole) 50000))
                     (padPosition pad)]))))),
       emitProgress progressEnd])"

definition checkMinimumPthSlotWidth :: "Kernel \<Rightarrow> int \<Rightarrow> unit M" where
  "checkMinimumPthSlotWidth K progressEnd = withState (\<lambda>s.
     let minWidth = getMinPthSlotWidth (mSettings s); board = mBoard s in
     if minWidth = 0 then ret ()
     else block [
       emitStatus ''Check PTH slot widths...'',
       forEach (getDeviceInstances board) (\<lambda>device.
         forEach (devicePads device) (\<lambda>pad.
           forEach (padHoles pad) (\<lambda>hole.
             whenM (isSlot hole \<and> holeDiameter hole < minWidth)
               (emitMessage K (mkMsg MinimumSlotWidthViolation
                  [ArgPad (padUuid pad), ArgHole (holeUuid hole), ArgLength minWidth]
                  (getHoleLocation K hole (libPadTransform pad) (deviceTransform device))))))),
       emitProgress progressEnd])"

definition checkAllowedNpthSlots :: "Kernel \<Rightarrow> int \<Rightarrow> unit M" where
  "checkAllowedNpthSlots K progressEnd = withState (\<lambda>s.
     let allowed = getAllowedNpthSlots (mSettings s); board = mBoard s in
     if allowed = SlotsAny then ret ()
     else block [
       emitStatus ''Check for disallowed NPTH slots...'',
       forEach (getHoles board) (\<lambda>hole.
         whenM (requiresHoleSlotWarning hole allowed)
           (emitMessage K (mkMsg ForbiddenSlot [ArgBoardHole (holeUuid hole)]
              (getHoleLocation K hole identityTransform identityTransform)))),
       forEach (getDeviceInstances board) (\<lambda>device.
         forEach (footprintHoles (deviceLibFootprint device)) (\<lambda>hole.
           whenM (requiresHoleSlotWarning hole allowed)
             (emitMessage K (mkMsg ForbiddenSlot
                [ArgDevice (componentUuid (deviceComponent device)), ArgHole (holeUuid hole)]
                (getHoleLocation K hole (deviceTransform device) identityTransform))))),
       emitProgress progressEnd])"

definition checkAllowedPthSlots :: "Kernel \<Rightarrow> int \<Rightarrow> unit M" where
  "checkAllowedPthSlots K progressEnd = withState (\<lambda>s.
     let allowed = getAllowedPthSlots (mSettings s); board = mBoard s in
     if allowed = SlotsAny then ret ()
     else block [
       emitStatus ''Check for disallowed PTH slots...'',
       forEach (getDeviceInstances board) (\<lambda>device.
         forEach (devicePads device) (\<lambda>pad.
           forEach (padHoles pad) (\<lambda>hole.
             whenM (requiresHoleSlotWarning hole allowed)
               (emitMessage K (mkMsg ForbiddenSlot
                  [ArgPad (padUuid pad), ArgHole (holeUuid hole)]
                  (getHoleLocation K hole (libPadTransform pad) (deviceTransform device))))))),
       emitProgress progressEnd])"

subsection \<open>Pad connections\<close>

text \<open>
  The layers of the net lines attached to a pad are gathered in a set; the model
  visits them in the order of their first occurrence.
\<close>

definition geometriesOnLayer :: "FootprintPad \<Rightarrow> Layer \<Rightarrow> PadGeometry list" where
  "geometriesOnLayer pad layer =
     (case map_of (padGeometries pad) layer of None \<Rightarrow> [] | Some gs \<Rightarrow> gs)"

definition checkInvalidPadConnections :: "Kernel \<Rightarrow> int \<Rightarrow> unit M" where
  "checkInvalidPadConnections K progressEnd = withState (\<lambda>s.
     block [
       emitStatus ''Check pad connections...'',
       forEach (getDeviceInstances (mBoard s)) (\<lambda>device.
         forEach (devicePads device) (\<lambda>pad.
           forEach (remdups (map netLineLayer (padNetLines pad))) (\<lambda>layer.
             let isOriginInCopper = list_ex (containsOrigin K) (geometriesOnLayer pad layer) in
             whenM (\<not> isOriginInCopper)
               (emitMessage K (mkMsg InvalidPadConnection [ArgPad (padUuid pad), ArgLayer layer]
                  [translated K (circlePath K 500000) (padPosition pad)]))))),
       emitProgress progressEnd])"

subsection \<open>Courtyard clearances\<close>

definition getDeviceCourtyardPaths :: "Kernel \<Rightarrow> Device \<Rightarrow> Layer \<Rightarrow> error + ClipperPaths" where
  "getDeviceCourtyardPaths K device layer =
     (let transform = deviceTransform device in
      bindE (foldE (\<lambda>paths polygon.
               if mapLayer K transform (polygonLayer polygon) \<noteq> layer then Inr paths
               else clipUnite K paths
                      (convertPaths K [mapPath K transform (polygonPath polygon)] maxArcTolerance))
             [] (footprintPolygons (deviceLibFootprint device))) (\<lambda>paths.
      foldE (\<lambda>paths circle.
               if mapLayer K transform (circleLayer circle) \<noteq> layer then Inr paths
               else clipUnite K paths
                      (convertPaths K [circlePath K (circleDiameter circle)] maxArcTolerance))
            paths (footprintCircles (deviceLibFootprint device))))"

text \<open>
  The courtyards are kept in a map from the device to its paths, which is then
  visited by pairs of keys; the model visits the devices in the board's order.
\<close>

definition checkCourtyardPair ::
  "Kernel \<Rightarrow> Device \<times> ClipperPaths \<Rightarrow> Device \<times> ClipperPaths \<Rightarrow> unit M" where
  "checkCourtyardPair K d1 d2 =
     reportIntersection K (snd d1) (Inr (snd d2))
       (mkMsg CourtyardOverlap
          [ArgDevice (componentUuid (deviceComponent (fst d1))),
           ArgDevice (componentUuid (deviceComponent (fst d2)))])"

definition checkCourtyardClearances :: "Kernel \<Rightarrow> int \<Rightarrow> unit M" where
  "checkCourtyardClearances K progressEnd = withState (\<lambda>s.
     block [
       emitStatus ''Check courtyard clearances...'',
       forEach [TopCourtyard, BotCourtyard] (\<lambda>layer.
         bind (lift (mapE (\<lambda>device.
                  bindE (getDeviceCourtyardPaths K device layer) (\<lambda>paths. Inr (device, paths)))
                (getDeviceInstances (mBoard s)))) (\<lambda>deviceCourtyards.
           forEachPair deviceCourtyards (checkCourtyardPair K))),
       emitProgress progressEnd])"

subsection \<open>Board outline\<close>

definition deviceOutlines :: "Kernel \<Rightarrow> Path list \<Rightarrow> Device \<Rightarrow> (Path list) M" where
  "deviceOutlines K outlines device =
     (let transform = deviceTransform device in
      bind (foldM (\<lambda>outlines polygon.
              if polygonLayer polygon = BoardOutlines
              then (let path = mapPath K transform (polygonPath polygon) in
                    seq (whenM (\<not> isClosed path)
                           (emitMessage K (mkMsg OpenBoardOutlinePolygon
                              [ArgDevicePtr (Some (componentUuid (deviceComponent device))),
                               ArgPolygon (polygonUuid polygon)]
                              (toOutlineStrokes K path (max (polygonLineWidth polygon) 100000)))))
                        (ret (outlines @ [path])))
              else ret outlines)
            outlines (footprintPolygons (deviceLibFootprint device))) (\<lambda>outlines.
      ret (outlines @
           concat (map (\<lambda>circle.
               if circleLayer circle = BoardOutlines
               then [translated K (circlePath K (circleDiameter circle))
                       (mapPoint K transform (circleCenter circle))]
               else [])
             (footprintCircles (deviceLibFootprint device))))))"

definition checkOutlineRadius :: "Kernel \<Rightarrow> Length \<Rightarrow> PolyTree \<Rightarrow> unit M" where
  "checkOutlineRadius K minEdgeRadius drawnBoardAreaTree =
     (let offset1 = max (lenSub minEdgeRadius 10000) 0;
          offset2 = lenNeg minEdgeRadius;
          drawnBoardArea = treeToPaths K drawnBoardAreaTree in
      bind (lift (clipOffset K drawnBoardArea offset1 maxArcTolerance)) (\<lambda>nonManufacturableAreas.
      bind (lift (clipOffset K nonManufacturableAreas offset2 maxArcTolerance))
        (\<lambda>nonManufacturableAreas.
      bind (lift (clipSubtractToTree K nonManufacturableAreas drawnBoardArea)) (\<lambda>difference.
        let nonManufacturableAreas = flattenTree K difference in
        whenM (nonManufacturableAreas \<noteq> [])
          (emitMessage K (mkMsg MinimumBoardOutlineInnerRadiusViolation [ArgLength minEdgeRadius]
             (convertToPaths K nonManufacturableAreas)))))))"

definition checkBoardOutline :: "Kernel \<Rightarrow> int \<Rightarrow> unit M" where
  "checkBoardOutline K progressEnd = withState (\<lambda>s.
     let board = mBoard s in
     seq (emitStatus ''Check board outline...'')
       (bind (foldM (deviceOutlines K)
                (concat (map (\<lambda>polygon.
                    if polygonLayer polygon = BoardOutlines then [polygonPath polygon] else [])
                  (getPolygons board)))
                (getDeviceInstances board)) (\<lambda>outlines.
        seq (whenM (outlines = []) (emitMessage K (mkMsg MissingBoardOutline [] [])))
       (bind (lift (clipUniteToTree K (convertPaths K outlines maxArcTolerance)))
          (\<lambda>drawnBoardAreaTree.
        let flattenedBoardArea = flattenTree K drawnBoardAreaTree;
            minEdgeRadius = lenDiv (getMinOutlineToolDiameter (mSettings s)) 2 in
        block [
          whenM (length flattenedBoardArea > 1)
            (emitMessage K (mkMsg MultipleBoardOutlines []
               (convertToPaths K flattenedBoardArea))),
          whenM (minEdgeRadius > 0) (checkOutlineRadius K minEdgeRadius drawnBoardAreaTree),
          emitProgress progressEnd])))))"

subsection \<open>Components, devices, connections and stale objects\<close>

definition checkForUnplacedComponents :: "Kernel \<Rightarrow> int \<Rightarrow> unit M" where
  "checkForUnplacedComponents K progressEnd = withState (\<lambda>s.
     block [
       emitStatus ''Check for unplaced components...'',
       forEach (getComponentInstances (mBoard s)) (\<lambda>cmp.
         let dev = getDeviceInstanceByComponentUuid (mBoard s) (componentUuid cmp) in
         whenM (dev = None \<and> \<not> componentIsSchematicOnly cmp)
           (emitMessage K (mkMsg MissingDevice [ArgComponent (componentUuid cmp)] []))),
       emitProgress progressEnd])"

definition getDeviceLocation :: "Kernel \<Rightarrow> Device \<Rightarrow> Path list" where
  "getDeviceLocation K device =
     (let addPath = (\<lambda>path lineWidth fill.
            let path = mapPath K (deviceTransform device) path in
            (if lineWidth > 0 then toOutlineStrokes K path lineWidth else []) @
            (if isClosed path \<and> fill then [path] else []));
          addDrawing = (\<lambda>layer.
            concat (map (\<lambda>polygon.
                if polygonLayer polygon = layer
                then addPath (polygonPath polygon) (polygonLineWidth polygon)
                       (polygonIsFilled polygon)
                else [])
              (footprintPolygons (deviceLibFootprint device))) @
            concat (map (\<lambda>circle.
                if circleLayer circle = layer
                then addPath (translated K (circlePath K (circleDiameter circle))
                                (circleCenter circle))
                       (circleLineWidth circle) (circleIsFilled circle)
                else [])
              (footprintCircles (deviceLibFootprint device))));
          documentation = addDrawing TopDocumentation @ addDrawing BotDocumentation;
          locations = (if documentation = []
                       then addDrawing TopPlacement @ addDrawing BotPlacement
                       else documentation);
          originLine = [\<lparr>getPos = (- 500000, 0), getAngle = 0\<rparr>,
                        \<lparr>getPos = (500000, 0), getAngle = 0\<rparr>]
      in locations @
         toOutlineStrokes K (translated K originLine (devicePosition device)) 50000 @
         toOutlineStrokes K (translated K (rotated K originLine 90000) (devicePosition device))
           50000)"

definition checkCircuitDefaultDevices :: "Kernel \<Rightarrow> int \<Rightarrow> unit M" where
  "checkCircuitDefaultDevices K progressEnd = withState (\<lambda>s.
     block [
       emitStatus ''Check configured default devices...'',
       forEach (getDeviceInstances (mBoard s)) (\<lambda>device.
         case componentDefaultDeviceUuid (deviceComponent device) of
           None \<Rightarrow> ret ()
         | Some defaultDevice \<Rightarrow>
             whenM (defaultDevice \<noteq> deviceLibDeviceUuid device)
               (emitMessage K (mkMsg DefaultDeviceMismatch
                  [ArgComponent (componentUuid (deviceComponent device))]
                  (getDeviceLocation K device)))),
       emitProgress progressEnd])"

definition checkForMissingConnections :: "Kernel \<Rightarrow> int \<Rightarrow> unit M" where
  "checkForMissingConnections K progressEnd =
     block [
       emitStatus ''Check for missing connections...'',
       withState (\<lambda>s. setBoard (forceAirWiresRebuild K (mBoard s))),
       withState (\<lambda>s.
         forEach (getAirWires (mBoard s)) (\<lambda>airWire.
           emitMessage K (mkMsg MissingConnection
             [ArgAnchor (fst (airWireP1 airWire)), ArgAnchor (fst (airWireP2 airWire)),
              ArgNetSignal (Some (airWireNetSignal airWire))]
             [obround K (snd (airWireP1 airWire)) (snd (airWireP2 airWire)) 50000]))),
       emitProgress progressEnd]"

definition checkForStaleObjects :: "Kernel \<Rightarrow> int \<Rightarrow> unit M" where
  "checkForStaleObjects K progressEnd = withState (\<lambda>s.
     block [
       emitStatus ''Check for stale objects...'',
       forEach (getNetSegments (mBoard s)) (\<lambda>netSegment. block [
         whenM (\<not> netSegmentIsUsed netSegment)
           (emitMessage K (mkMsg EmptyNetSegment [ArgNetSegment (netSegmentUuid netSegment)] [])),
         forEach (netSegmentNetPoints netSegment) (\<lambda>netPoint.
           whenM (\<not> netPointIsUsed netPoint)
             (emitMessage K (mkMsg UnconnectedJunction [ArgNetPoint (netPointUuid netPoint)]
                [translated K (circlePath K 300000) (netPointPosition netPoint)])))]),
       emitProgress progressEnd])"

section \<open>The run\<close>

fun digitsOf :: "nat \<Rightarrow> string" where
  "digitsOf n =
     (if n < 10 then [char_of (48 + n)] else digitsOf (n div 10) @ [char_of (48 + n mod 10)])"

definition finishedStatus :: "nat \<Rightarrow> string" where
  "finishedStatus n = ''Finished with '' @ digitsOf n @ '' message(s)!''"

definition setIgnorePlanes :: "bool \<Rightarrow> unit M" where
  "setIgnorePlanes b = (\<lambda>s. (Inr (), s\<lparr>mIgnorePlanes := b\<rparr>))"

definition clearProgressStatus :: "unit M" where
  "clearProgressStatus = (\<lambda>s. (Inr (), s\<lparr>mProgressStatus := []\<rparr>))"

definition clearMessages :: "unit M" where
  "clearMessages = (\<lambda>s. (Inr (), s\<lparr>mMessages := []\<rparr>))"

definition execute :: "Kernel \<Rightarrow> bool \<Rightarrow> unit M" where
  "execute K quick =
     block [
       emitStarted,
       emitProgress 2,
       setIgnorePlanes quick,
       clearProgressStatus,
       clearMessages,
       whenM (\<not> quick) (rebuildPlanes K 12),
       checkMinimumCopperWidth K 14,
       checkCopperCopperClearances K 24,
       checkCopperBoardClearances K 34,
       checkCopperHoleClearances K 44,
       whenM (\<not> quick) (block [
         checkDrillDrillClearances K 49,
         checkDrillBoardClearances K 54,
         checkMinimumPthAnnularRing K 64,
         checkMinimumNpthDrillDiameter K 66,
         checkMinimumNpthSlotWidth K 68,
         checkMinimumPthDrillDiameter K 70,
         checkMinimumPthSlotWidth K 72,
         checkAllowedNpthSlots K 74,
         checkAllowedPthSlots K 76,
         checkInvalidPadConnections K 78,
         checkCourtyardClearances K 88,
         checkBoardOutline K 91,
         checkForUnplacedComponents K 92,
         checkCircuitDefaultDevices K 93,
         checkForMissingConnections K 95,
         checkForStaleObjects K 97]),
       withState (\<lambda>s. emitStatus (finishedStatus (length (mMessages s)))),
       emitProgress 100,
       emitFinished]"

section \<open>What a member function may do to the state\<close>

definition isOK :: "error + 'x \<Rightarrow> bool" where
  "isOK r = (case r of Inl _ \<Rightarrow> False | Inr _ \<Rightarrow> True)"

definition messageSignals :: "Kernel \<Rightarrow> DrcMsg list \<Rightarrow> Signal list" where
  "messageSignals K ms = map (\<lambda>m. ProgressMessage (messageText K m)) ms"

text \<open>
  \<open>eff K P po m\<close>: whatever its outcome, \<open>m\<close> only appends messages that satisfy
  \<open>P\<close>, emits \<open>progressMessage\<close> for each of them and nothing else, apart from
  \<open>progressPercent p\<close> at its very end when \<open>po = Some p\<close> and it returns. It leaves
  the status log, the settings and \<open>mIgnorePlanes\<close> alone.
\<close>

definition eff :: "Kernel \<Rightarrow> (DrcMsg \<Rightarrow> bool) \<Rightarrow> int option \<Rightarrow> 'x M \<Rightarrow> bool" where
  "eff K P po m \<longleftrightarrow>
     (\<forall>s r s'. m s = (r, s') \<longrightarrow>
        (\<exists>ms. mMessages s' = mMessages s @ ms \<and> list_all P ms \<and>
              emitted s' = emitted s @ messageSignals K ms @
                 (case po of None \<Rightarrow> []
                  | Some p \<Rightarrow> if isOK r then [ProgressPercent p] else []) \<and>
              mProgressStatus s' = mProgressStatus s \<and>
              mSettings s' = mSettings s \<and> mIgnorePlanes s' = mIgnorePlanes s))"

text \<open>
  \<open>checkEffect K en txt P p m\<close>: the shape of a check. When it is enabled by the
  settings it emits its status text, messages that satisfy \<open>P\<close> and, when it
  returns, its progress value; when it is not enabled it does nothing at all.
\<close>

definition checkEffect ::
  "Kernel \<Rightarrow> (Settings \<Rightarrow> bool) \<Rightarrow> string \<Rightarrow> (DrcMsg \<Rightarrow> bool) \<Rightarrow> int \<Rightarrow> unit M \<Rightarrow> bool" where
  "checkEffect K en txt P p m \<longleftrightarrow>
     (\<forall>s r s'. m s = (r, s') \<longrightarrow>
        (if en (mSettings s)
         then (\<exists>ms. mMessages s' = mMessages s @ ms \<and> list_all P ms \<and>
                 emitted s' = emitted s @ [ProgressStatus txt] @ messageSignals K ms @
                    (if isOK r then [ProgressPercent p] else []) \<and>
                 mProgressStatus s' = mProgressStatus s @ [txt] \<and>
                 mSettings s' = mSettings s \<and> mIgnorePlanes s' = mIgnorePlanes s)
         else r = Inr () \<and> s' = s))"

text \<open>The values carried by the signals of a trace, in their order.\<close>

fun percentsOf :: "Signal list \<Rightarrow> int list" where
  "percentsOf [] = []"
| "percentsOf (ProgressPercent p # tr) = p # percentsOf tr"
| "percentsOf (_ # tr) = percentsOf tr"

fun statusesOf :: "Signal list \<Rightarrow> string list" where
  "statusesOf [] = []"
| "statusesOf (ProgressStatus t # tr) = t # statusesOf tr"
| "statusesOf (_ # tr) = statusesOf tr"

fun messageTextsOf :: "Signal list \<Rightarrow> string list" where
  "messageTextsOf [] = []"
| "messageTextsOf (ProgressMessage t # tr) = t # messageTextsOf tr"
| "messageTextsOf (_ # tr) = messageTextsOf tr"

subsection \<open>The table of the run\<close>

text \<open>
  Each step of a run with the condition on the settings under which it is
  enabled, its status text, the kinds of message it emits and its progress value.
\<close>

type_synonym CheckRow = "(Settings \<Rightarrow> bool) \<times> string \<times> MsgKind list \<times> int"

definition rowEnabled :: "CheckRow \<Rightarrow> Settings \<Rightarrow> bool" where
  "rowEnabled row = fst row"

definition rowStatus :: "CheckRow \<Rightarrow> string" where
  "rowStatus row = fst (snd row)"

definition rowKinds :: "CheckRow \<Rightarrow> MsgKind list" where
  "rowKinds row = fst (snd (snd row))"

definition rowPercent :: "CheckRow \<Rightarrow> int" where
  "rowPercent row = snd (snd (snd row))"

definition quickRows :: "CheckRow list" where
  "quickRows =
    [(\<lambda>S. getMinCopperWidth S \<noteq> 0, ''Check copper widths...'', [MinimumWidthViolation], 14),
     (\<lambda>S. getMinCopperCopperClearance S \<noteq> 0, ''Check copper clearances...'',
        [CopperCopperClearanceViolation], 24),
     (\<lambda>S. getMinCopperBoardClearance S \<noteq> 0, ''Check board clearances...'',
        [CopperBoardClearanceViolation], 34),
     (\<lambda>S. getMinCopperNpthClearance S \<noteq> 0, ''Check hole clearances...'',
        [CopperHoleClearanceViolation], 44)]"

definition slowRows :: "CheckRow list" where
  "slowRows =
    [(\<lambda>S. getMinDrillDrillClearance S \<noteq> 0, ''Check drill clearances...'',
        [DrillDrillClearanceViolation], 49),
     (\<lambda>S. getMinDrillBoardClearance S \<noteq> 0, ''Check drill to board edge clearances...'',
        [DrillBoardClearanceViolation], 54),
     (\<lambda>S. getMinPthAnnularRing S \<noteq> 0, ''Check PTH annular rings...'',
        [MinimumAnnularRingViolation], 64),
     (\<lambda>S. getMinNpthDrillDiameter S \<noteq> 0, ''Check NPTH drill diameters...'',
        [MinimumDrillDiameterViolation], 66),
     (\<lambda>S. getMinNpthSlotWidth S \<noteq> 0, ''Check NPTH slot widths...'',
        [MinimumSlotWidthViolation], 68),
     (\<lambda>S. getMinPthDrillDiameter S \<noteq> 0, ''Check PTH drill diameters...'',
        [MinimumDrillDiameterViolation], 70),
     (\<lambda>S. getMinPthSlotWidth S \<noteq> 0, ''Check PTH slot widths...'',
        [MinimumSlotWidthViolation], 72),
     (\<lambda>S. getAllowedNpthSlots S \<noteq> SlotsAny, ''Check for disallowed NPTH slots...'',
        [ForbiddenSlot], 74),
     (\<lambda>S. getAllowedPthSlots S \<noteq> SlotsAny, ''Check for disallowed PTH slots...'',
        [ForbiddenSlot], 76),
     (\<lambda>S. True, ''Check pad connections...'', [InvalidPadConnection], 78),
     (\<lambda>S. True, ''Check courtyard clearances...'', [CourtyardOverlap], 88),
     (\<lambda>S. True, ''Check board outline...'',
        [OpenBoardOutlinePolygon, MissingBoardOutline, MultipleBoardOutlines,
         MinimumBoardOutlineInnerRadiusViolation], 91),
     (\<lambda>S. True, ''Check for unplaced components...'', [MissingDevice], 92),
     (\<lambda>S. True, ''Check configured default devices...'', [DefaultDeviceMismatch], 93),
     (\<lambda>S. True, ''Check for missing connections...'', [MissingConnection], 95),
     (\<lambda>S. True, ''Check for stale objects...'', [EmptyNetSegment, UnconnectedJunction], 97)]"

definition rebuildRow :: CheckRow where
  "rebuildRow = (\<lambda>S. True, ''Rebuild planes...'', [], 12)"

definition runRows :: "bool \<Rightarrow> CheckRow list" where
  "runRows quick = (if quick then quickRows else rebuildRow # quickRows @ slowRows)"

text \<open>The status texts of the enabled rows.\<close>

definition rowsStatus :: "CheckRow list \<Rightarrow> Settings \<Rightarrow> string list" where
  "rowsStatus rows S = concat (map (\<lambda>row. if rowEnabled row S then [rowStatus row] else []) rows)"

text \<open>A message of a kind that an enabled row emits.\<close>

definition rowsAllow :: "CheckRow list \<Rightarrow> Settings \<Rightarrow> DrcMsg \<Rightarrow> bool" where
  "rowsAllow rows S msg =
     list_ex (\<lambda>row. rowEnabled row S \<and> msgKind msg \<in> set (rowKinds row)) rows"

text \<open>
  \<open>rowsEffect K rows m\<close>: \<open>m\<close> runs the steps of the rows. It appends messages
  that the rows allow and emits a signal for each; the status log grows by the
  status texts emitted; the progress values emitted are taken, in order, from
  those of the rows. When \<open>m\<close> returns, the status texts and the progress
  values are exactly those of the enabled rows.
\<close>

definition rowsEffect :: "Kernel \<Rightarrow> CheckRow list \<Rightarrow> unit M \<Rightarrow> bool" where
  "rowsEffect K rows m \<longleftrightarrow>
     (\<forall>s r s'. m s = (r, s') \<longrightarrow>
        (\<exists>ms tr. mMessages s' = mMessages s @ ms \<and>
              list_all (rowsAllow rows (mSettings s)) ms \<and>
              emitted s' = emitted s @ tr \<and>
              messageTextsOf tr = map (messageText K) ms \<and>
              mProgressStatus s' = mProgressStatus s @ statusesOf tr \<and>
              (isOK r \<longrightarrow> statusesOf tr = rowsStatus rows (mSettings s) \<and>
                 percentsOf tr =
                   map rowPercent (filter (\<lambda>row. rowEnabled row (mSettings s)) rows)) \<and>
              subseq (percentsOf tr) (map rowPercent rows) \<and>
              Started \<notin> set tr \<and> Finished \<notin> set tr \<and>
              mSettings s' = mSettings s \<and> mIgnorePlanes s' = mIgnorePlanes s))"

text \<open>A step that has the shape its row describes.\<close>

definition rowCheck :: "Kernel \<Rightarrow> CheckRow \<Rightarrow> unit M \<Rightarrow> bool" where
  "rowCheck K row m =
     checkEffect K (rowEnabled row) (rowStatus row) (\<lambda>x. msgKind x \<in> set (rowKinds row))
       (rowPercent row) m"

text \<open>The steps of a run between its first and its last three statements.\<close>

definition quickChecks :: "Kernel \<Rightarrow> unit M list" where
  "quickChecks K =
    [checkMinimumCopperWidth K 14,
     checkCopperCopperClearances K 24,
     checkCopperBoardClearances K 34,
     checkCopperHoleClearances K 44]"

definition slowChecks :: "Kernel \<Rightarrow> unit M list" where
  "slowChecks K =
    [checkDrillDrillClearances K 49,
     checkDrillBoardClearances K 54,
     checkMinimumPthAnnularRing K 64,
     checkMinimumNpthDrillDiameter K 66,
     checkMinimumNpthSlotWidth K 68,
     checkMinimumPthDrillDiameter K 70,
     checkMinimumPthSlotWidth K 72,
     checkAllowedNpthSlots K 74,
     checkAllowedPthSlots K 76,
     checkInvalidPadConnections K 78,
     checkCourtyardClearances K 88,
     checkBoardOutline K 91,
     checkForUnplacedComponents K 92,
     checkCircuitDefaultDevices K 93,
     checkForMissingConnections K 95,
     checkForStaleObjects K 97]"

definition runChecks :: "Kernel \<Rightarrow> bool \<Rightarrow> unit M list" where
  "runChecks K quick =
     (if quick then quickChecks K else rebuildPlanes K 12 # quickChecks K @ slowChecks K)"

text \<open>The state after the first five statements of \<open>execute\<close>.\<close>

definition runStart :: "bool \<Rightarrow> State \<Rightarrow> State" where
  "runStart quick s =
     s\<lparr>mProgressPercent := 2, mIgnorePlanes := quick, mProgressStatus := [], mMessages := [],
       emitted := emitted s @ [Started, ProgressPercent 2]\<rparr>"

text \<open>The last three statements of \<open>execute\<close>.\<close>

definition runEnd :: "State \<Rightarrow> State" where
  "runEnd s =
     s\<lparr>mProgressPercent := 100,
       mProgressStatus := mProgressStatus s @ [finishedStatus (length (mMessages s))],
       emitted := emitted s @ [ProgressStatus (finishedStatus (length (mMessages s))),
                               ProgressPercent 100, Finished]\<rparr>"

section \<open>What the checks are expected to report\<close>

text \<open>The state after the messages \<open>ms\<close> have been emitted.\<close>

definition appendMsgs :: "Kernel \<Rightarrow> DrcMsg list \<Rightarrow> State \<Rightarrow> State" where
  "appendMsgs K ms s =
     s\<lparr>mMessages := mMessages s @ ms, emitted := emitted s @ messageSignals K ms\<rparr>"

definition emitAll :: "Kernel \<Rightarrow> DrcMsg list \<Rightarrow> unit M" where
  "emitAll K ms = forEach ms (emitMessage K)"

text \<open>The pairs that \<open>forEachPair\<close> visits, in its order.\<close>

fun pairsOf :: "'a list \<Rightarrow> ('a \<times> 'a) list" where
  "pairsOf [] = []"
| "pairsOf (x # xs) = map (Pair x) xs @ pairsOf xs"

subsection \<open>Copper to copper clearance\<close>

definition netsDiffer :: "Item \<Rightarrow> Item \<Rightarrow> bool" where
  "netsDiffer it1 it2 \<longleftrightarrow>
     itemNetSignal it1 \<noteq> itemNetSignal it2 \<or> itemNetSignal it1 = None \<or> itemNetSignal it2 = None"

definition layersShared :: "Item \<Rightarrow> Item \<Rightarrow> bool" where
  "layersShared it1 it2 \<longleftrightarrow>
     itemLayer it1 = None \<or> itemLayer it2 = None \<or> itemLayer it1 = itemLayer it2"

text \<open>
  What one pair of copper items gives rise to: nothing when the nets are equal
  or no layer is shared, otherwise the intersection of the two areas and, when
  it is not empty, one message located at its flattened rings.
\<close>

definition copperPairMsgs :: "Kernel \<Rightarrow> Length \<Rightarrow> Item \<times> Item \<Rightarrow> error + DrcMsg list" where
  "copperPairMsgs K clearance pair =
     (case pair of (it1, it2) \<Rightarrow>
        if netsDiffer it1 it2 \<and> layersShared it1 it2
        then bindE (clipIntersect K (itemAreas it1) (itemAreas it2)) (\<lambda>intersections.
               Inr (if flattenTree K intersections \<noteq> []
                    then [copperCopperMsg K clearance it1 it2 (flattenTree K intersections)]
                    else []))
        else Inr [])"

text \<open>The messages of a list of results, those of an exception being none.\<close>

definition resultMsgs :: "error + DrcMsg list \<Rightarrow> DrcMsg list" where
  "resultMsgs r = (case r of Inl e \<Rightarrow> [] | Inr ms \<Rightarrow> ms)"

definition copperCopperViolations :: "Kernel \<Rightarrow> Length \<Rightarrow> Item list \<Rightarrow> DrcMsg list" where
  "copperCopperViolations K clearance items =
     concat (map (\<lambda>pair. resultMsgs (copperPairMsgs K clearance pair)) (pairsOf items))"

subsection \<open>The copper objects of a board and their inflated areas\<close>

text \<open>
  The copper objects the clearance check is about, of nine kinds: the vias and
  the net lines of the net segments, the planes, the polygons and the stroke
  texts of the board, and for each device its pads (once for each copper layer a
  pad is on), the polygons and the circles of its footprint and its stroke
  texts.
\<close>

datatype CopperObject =
    CopperVia NetSegment Via
  | CopperNetLine NetSegment NetLine
  | CopperPlane Plane
  | CopperBoardPolygon Polygon
  | CopperBoardStrokeText StrokeText
  | CopperPad Device FootprintPad Layer
  | CopperDevicePolygon Device Polygon
  | CopperDeviceCircle Device Circle
  | CopperDeviceStrokeText Device StrokeText

fun isCopperPlane :: "CopperObject \<Rightarrow> bool" where
  "isCopperPlane (CopperPlane plane) = True"
| "isCopperPlane _ = False"

definition onCopper :: "Board \<Rightarrow> Layer \<Rightarrow> bool" where
  "onCopper board layer \<longleftrightarrow> layer \<in> set (getCopperLayers board)"

definition deviceCopperObjects :: "Board \<Rightarrow> Device \<Rightarrow> CopperObject list" where
  "deviceCopperObjects board device =
     concat (map (\<lambda>pad. map (CopperPad device pad)
                          (filter (\<lambda>layer. layer \<in> set (padLayers pad)) (getCopperLayers board)))
                 (devicePads device)) @
     map (CopperDevicePolygon device)
       (filter (\<lambda>polygon. onCopper board (polygonLayer polygon))
          (footprintPolygons (deviceLibFootprint device))) @
     map (CopperDeviceCircle device)
       (filter (\<lambda>circle. onCopper board (circleLayer circle))
          (footprintCircles (deviceLibFootprint device))) @
     map (CopperDeviceStrokeText device)
       (filter (\<lambda>text. onCopper board (textLayer text)) (deviceStrokeTexts device))"

text \<open>
  The copper objects of a board in the order of the check: every via, and
  every other object that is on a copper layer of the board; the planes only
  when planes are not ignored.
\<close>

definition copperObjects :: "Board \<Rightarrow> bool \<Rightarrow> CopperObject list" where
  "copperObjects board ignorePlanes =
     concat (map (\<lambda>netSegment.
        map (CopperVia netSegment) (netSegmentVias netSegment) @
        map (CopperNetLine netSegment)
          (filter (\<lambda>netLine. onCopper board (netLineLayer netLine))
             (netSegmentNetLines netSegment)))
       (getNetSegments board)) @
     (if ignorePlanes then []
      else map CopperPlane (filter (\<lambda>plane. onCopper board (planeLayer plane)) (getPlanes board))) @
     map CopperBoardPolygon
       (filter (\<lambda>polygon. onCopper board (polygonLayer polygon)) (getPolygons board)) @
     map CopperBoardStrokeText
       (filter (\<lambda>text. onCopper board (textLayer text)) (getStrokeTexts board)) @
     concat (map (deviceCopperObjects board) (getDeviceInstances board))"

text \<open>
  The area of a copper object inflated by an offset. The path generator
  inflates a via, a net line, a stroke text, a pad and a circle itself, by the
  offset it is given; the area of a plane and of a polygon is generated as it
  is and then inflated by \<open>ClipperHelpers::offset\<close>.
\<close>

definition inflate :: "Kernel \<Rightarrow> Length \<Rightarrow> error + ClipperPaths \<Rightarrow> error + ClipperPaths" where
  "inflate K offset area = bindE area (\<lambda>paths. clipOffset K paths offset maxArcTolerance)"

fun inflatedArea :: "Kernel \<Rightarrow> Board \<Rightarrow> Length \<Rightarrow> CopperObject \<Rightarrow> error + ClipperPaths" where
  "inflatedArea K board offset (CopperVia netSegment via) = addVia K board via offset"
| "inflatedArea K board offset (CopperNetLine netSegment netLine) =
     addNetLine K board netLine offset"
| "inflatedArea K board offset (CopperPlane plane) = inflate K offset (addPlane K board plane)"
| "inflatedArea K board offset (CopperBoardPolygon polygon) =
     inflate K offset (addBoardPolygon K board polygon)"
| "inflatedArea K board offset (CopperBoardStrokeText text) = addStrokeText K board text offset"
| "inflatedArea K board offset (CopperPad device pad layer) =
     addPad K board pad (deviceTransform device) layer offset"
| "inflatedArea K board offset (CopperDevicePolygon device polygon) =
     inflate K offset (addPolygon K board polygon (deviceTransform device))"
| "inflatedArea K board offset (CopperDeviceCircle device circle) =
     addCircle K board circle (deviceTransform device) offset"
| "inflatedArea K board offset (CopperDeviceStrokeText device text) =
     addStrokeText K board text offset"

text \<open>
  The layer of a copper object (a via is on every layer), its net signal (a
  polygon, a circle and a stroke text have none) and the board item, the
  polygon and the circle a message about it names.
\<close>

fun objectLayer :: "CopperObject \<Rightarrow> Layer option" where
  "objectLayer (CopperVia netSegment via) = None"
| "objectLayer (CopperNetLine netSegment netLine) = Some (netLineLayer netLine)"
| "objectLayer (CopperPlane plane) = Some (planeLayer plane)"
| "objectLayer (CopperBoardPolygon polygon) = Some (polygonLayer polygon)"
| "objectLayer (CopperBoardStrokeText text) = Some (textLayer text)"
| "objectLayer (CopperPad device pad layer) = Some layer"
| "objectLayer (CopperDevicePolygon device polygon) = Some (polygonLayer polygon)"
| "objectLayer (CopperDeviceCircle device circle) = Some (circleLayer circle)"
| "objectLayer (CopperDeviceStrokeText device text) = Some (textLayer text)"

fun objectNetSignal :: "CopperObject \<Rightarrow> Uuid option" where
  "objectNetSignal (CopperVia netSegment via) = netSegmentNetSignal netSegment"
| "objectNetSignal (CopperNetLine netSegment netLine) = netSegmentNetSignal netSegment"
| "objectNetSignal (CopperPlane plane) = Some (planeNetSignal plane)"
| "objectNetSignal (CopperPad device pad layer) = padNetSignal pad"
| "objectNetSignal _ = None"

fun objectItem :: "CopperObject \<Rightarrow> MsgArg" where
  "objectItem (CopperVia netSegment via) = ArgVia (viaUuid via)"
| "objectItem (CopperNetLine netSegment netLine) = ArgNetLine (netLineUuid netLine)"
| "objectItem (CopperPlane plane) = ArgPlane (planeUuid plane)"
| "objectItem (CopperBoardPolygon polygon) = ArgBoardPolygon (polygonUuid polygon)"
| "objectItem (CopperBoardStrokeText text) = ArgBoardStrokeText (textUuid text)"
| "objectItem (CopperPad device pad layer) = ArgPad (padUuid pad)"
| "objectItem (CopperDevicePolygon device polygon) =
     ArgDevice (componentUuid (deviceComponent device))"
| "objectItem (CopperDeviceCircle device circle) =
     ArgDevice (componentUuid (deviceComponent device))"
| "objectItem (CopperDeviceStrokeText device text) = ArgBoardStrokeText (textUuid text)"

fun objectPolygon :: "CopperObject \<Rightarrow> Uuid option" where
  "objectPolygon (CopperDevicePolygon device polygon) = Some (polygonUuid polygon)"
| "objectPolygon _ = None"

fun objectCircle :: "CopperObject \<Rightarrow> Uuid option" where
  "objectCircle (CopperDeviceCircle device circle) = Some (circleUuid circle)"
| "objectCircle _ = None"

definition copperItem :: "CopperObject \<Rightarrow> ClipperPaths \<Rightarrow> Item" where
  "copperItem obj areas =
     \<lparr>itemObj = objectItem obj, itemPolygon = objectPolygon obj, itemCircle = objectCircle obj,
      itemLayer = objectLayer obj, itemNetSignal = objectNetSignal obj, itemAreas = areas\<rparr>"

text \<open>The copper objects, each with its inflated area.\<close>

definition inflatedItems :: "CopperObject list \<Rightarrow> ClipperPaths list \<Rightarrow> Item list" where
  "inflatedItems objs areas = map (\<lambda>(obj, area). copperItem obj area) (zip objs areas)"

definition itemOf :: "Kernel \<Rightarrow> Board \<Rightarrow> Length \<Rightarrow> CopperObject \<Rightarrow> error + Item" where
  "itemOf K board offset obj =
     bindE (inflatedArea K board offset obj) (\<lambda>areas. Inr (copperItem obj areas))"

subsection \<open>Drill to drill clearance\<close>

definition drillPairMsgs ::
  "Kernel \<Rightarrow> Length \<Rightarrow> DrillItem \<times> DrillItem \<Rightarrow> error + DrcMsg list" where
  "drillPairMsgs K clearance pair =
     (case pair of (it1, it2) \<Rightarrow>
        bindE (clipIntersect K (drillAreas it1) (drillAreas it2)) (\<lambda>intersections.
          Inr (case (drillHole it1, drillHole it2) of
                 (Some hole1, Some hole2) \<Rightarrow>
                   if flattenTree K intersections \<noteq> []
                   then [drillDrillMsg K clearance it1 hole1 it2 hole2
                           (flattenTree K intersections)]
                   else []
               | _ \<Rightarrow> [])))"

definition drillDrillViolations :: "Kernel \<Rightarrow> Length \<Rightarrow> DrillItem list \<Rightarrow> DrcMsg list" where
  "drillDrillViolations K clearance items =
     concat (map (\<lambda>pair. resultMsgs (drillPairMsgs K clearance pair)) (pairsOf items))"

text \<open>
  The drills of a board, each with the outline of its path for the diameter
  \<open>diameter + max 0 (clearance - maxArcTolerance - 1)\<close>, computed in the
  integers.
\<close>

definition expandedDrill ::
  "Kernel \<Rightarrow> Length \<Rightarrow> MsgArg \<Rightarrow> Uuid \<Rightarrow> Path \<Rightarrow> Length \<Rightarrow> DrillItem" where
  "expandedDrill K clearance item hole path diameter =
     \<lparr>drillObj = item, drillHole = Some hole,
      drillAreas = convertPaths K
        (toOutlineStrokes K path (diameter + max 0 (clearance - maxArcTolerance - 1)))
        maxArcTolerance\<rparr>"

definition expandedDrills :: "Kernel \<Rightarrow> Board \<Rightarrow> Length \<Rightarrow> DrillItem list" where
  "expandedDrills K board clearance =
     concat (map (\<lambda>netSegment.
        map (\<lambda>via. expandedDrill K clearance (ArgVia (viaUuid via)) (viaUuid via)
                      (makeNonEmptyPath (viaPosition via)) (viaDrillDiameter via))
          (netSegmentVias netSegment))
       (getNetSegments board)) @
     map (\<lambda>hole. expandedDrill K clearance (ArgBoardHole (holeUuid hole)) (holeUuid hole)
                    (holePath hole) (holeDiameter hole))
       (getHoles board) @
     concat (map (\<lambda>device.
        concat (map (\<lambda>pad.
           map (\<lambda>hole. expandedDrill K clearance (ArgPad (padUuid pad)) (holeUuid hole)
                          (mapPath K (deviceTransform device)
                             (mapPath K (libPadTransform pad) (holePath hole)))
                          (holeDiameter hole))
             (padHoles pad))
          (devicePads device)) @
        map (\<lambda>hole. expandedDrill K clearance
                       (ArgDevice (componentUuid (deviceComponent device))) (holeUuid hole)
                       (mapPath K (deviceTransform device) (holePath hole))
                       (holeDiameter hole))
          (footprintHoles (deviceLibFootprint device)))
       (getDeviceInstances board))"

text \<open>The drill diameters of a board are positive lengths.\<close>

definition drillsValid :: "Board \<Rightarrow> bool" where
  "drillsValid board \<longleftrightarrow>
     list_all (\<lambda>netSegment.
        list_all (\<lambda>via. isPositiveLength (viaDrillDiameter via)) (netSegmentVias netSegment))
       (getNetSegments board) \<and>
     list_all (\<lambda>hole. isPositiveLength (holeDiameter hole)) (getHoles board) \<and>
     list_all (\<lambda>device.
        list_all (\<lambda>pad. list_all (\<lambda>hole. isPositiveLength (holeDiameter hole)) (padHoles pad))
          (devicePads device) \<and>
        list_all (\<lambda>hole. isPositiveLength (holeDiameter hole))
          (footprintHoles (deviceLibFootprint device)))
       (getDeviceInstances board)"

subsection \<open>Allowed slots\<close>

text \<open>\<open>emits K ms m\<close>: \<open>m\<close> always returns, having emitted just the messages \<open>ms\<close>.\<close>

definition emits :: "Kernel \<Rightarrow> DrcMsg list \<Rightarrow> unit M \<Rightarrow> bool" where
  "emits K ms m \<longleftrightarrow> (\<forall>s. m s = (Inr (), appendMsgs K ms s))"

text \<open>
  The messages about forbidden slots: one for each hole that requires a
  warning, the board holes first, then the holes of each device (for the
  non-plated check) or of the pads of each device (for the plated check).
\<close>

definition forbiddenNpthSlots :: "Kernel \<Rightarrow> Board \<Rightarrow> AllowedSlots \<Rightarrow> DrcMsg list" where
  "forbiddenNpthSlots K board allowed =
     map (\<lambda>hole. mkMsg ForbiddenSlot [ArgBoardHole (holeUuid hole)]
                    (getHoleLocation K hole identityTransform identityTransform))
       (filter (\<lambda>hole. requiresHoleSlotWarning hole allowed) (getHoles board)) @
     concat (map (\<lambda>device.
        map (\<lambda>hole. mkMsg ForbiddenSlot
                       [ArgDevice (componentUuid (deviceComponent device)), ArgHole (holeUuid hole)]
                       (getHoleLocation K hole (deviceTransform device) identityTransform))
          (filter (\<lambda>hole. requiresHoleSlotWarning hole allowed)
             (footprintHoles (deviceLibFootprint device))))
       (getDeviceInstances board))"

definition forbiddenPthSlots :: "Kernel \<Rightarrow> Board \<Rightarrow> AllowedSlots \<Rightarrow> DrcMsg list" where
  "forbiddenPthSlots K board allowed =
     concat (map (\<lambda>device.
        concat (map (\<lambda>pad.
           map (\<lambda>hole. mkMsg ForbiddenSlot [ArgPad (padUuid pad), ArgHole (holeUuid hole)]
                          (getHoleLocation K hole (libPadTransform pad) (deviceTransform device)))
             (filter (\<lambda>hole. requiresHoleSlotWarning hole allowed) (padHoles pad)))
          (devicePads device)))
       (getDeviceInstances board))"

subsection \<open>The run\<close>

text \<open>The four kinds of message a quick run can emit.\<close>

definition quickKinds :: "MsgKind set" where
  "quickKinds = {MinimumWidthViolation, CopperCopperClearanceViolation,
                 CopperBoardClearanceViolation, CopperHoleClearanceViolation}"

text \<open>The kinds of message of the clearance checks, and their settings.\<close>

definition clearanceKinds :: "MsgKind set" where
  "clearanceKinds = {CopperCopperClearanceViolation, CopperBoardClearanceViolation,
                     CopperHoleClearanceViolation, DrillDrillClearanceViolation,
                     DrillBoardClearanceViolation}"

definition clearancesZero :: "Settings \<Rightarrow> bool" where
  "clearancesZero S \<longleftrightarrow>
     getMinCopperCopperClearance S = 0 \<and> getMinCopperBoardClearance S = 0 \<and>
     getMinCopperNpthClearance S = 0 \<and> getMinDrillDrillClearance S = 0 \<and>
     getMinDrillBoardClearance S = 0"

text \<open>A message that names a plane, and a message of the copper to copper check.\<close>

fun isPlaneArg :: "MsgArg \<Rightarrow> bool" where
  "isPlaneArg (ArgPlane u) = True"
| "isPlaneArg _ = False"

definition namesPlane :: "DrcMsg \<Rightarrow> bool" where
  "namesPlane m = list_ex isPlaneArg (msgArgs m)"

definition isCopperCopper :: "DrcMsg \<Rightarrow> bool" where
  "isCopperCopper m \<longleftrightarrow> msgKind m = CopperCopperClearanceViolation"

text \<open>A member function that leaves the board as it is.\<close>

definition keepsBoard :: "'x M \<Rightarrow> bool" where
  "keepsBoard m \<longleftrightarrow> (\<forall>s r s'. m s = (r, s') \<longrightarrow> mBoard s' = mBoard s)"

text \<open>
  A step that, when planes are ignored, leaves them ignored and appends no
  message of the copper to copper check that names a plane.
\<close>

definition planesIgnored :: "unit M \<Rightarrow> bool" where
  "planesIgnored m \<longleftrightarrow>
     (\<forall>s r s'. m s = (r, s') \<longrightarrow> mIgnorePlanes s \<longrightarrow>
        mIgnorePlanes s' \<and>
        (\<exists>ms. mMessages s' = mMessages s @ ms \<and>
              list_all (\<lambda>m. \<not> namesPlane m) (filter isCopperCopper ms)))"

text \<open>An item that is not a plane.\<close>

definition notPlane :: "Item \<Rightarrow> bool" where
  "notPlane it \<longleftrightarrow> (\<forall>u. itemObj it \<noteq> ArgPlane u)"

text \<open>The signals emitted since the state \<open>s\<close>, in the state \<open>s'\<close>.\<close>

definition emittedSince :: "State \<Rightarrow> State \<Rightarrow> Signal list" where
  "emittedSince s s' = drop (length (emitted s)) (emitted s')"

text \<open>
  The status log with exactly one entry for each check that ran: the status
  texts of the checks of the run that their settings enable.
\<close>

definition statusPerCheck :: "bool \<Rightarrow> Settings \<Rightarrow> string list" where
  "statusPerCheck quick S =
     rowsStatus (if quick then quickRows else quickRows @ slowRows) S"

section \<open>A geometry on a line, for concrete runs\<close>

text \<open>
  A small implementation of the geometry: every area is a list of intervals on
  the x axis, written as rings of two points. A via is the interval of its outer
  diameter around its position, grown by the offset; a drill is the interval of
  its diameter around the first vertex of its path. Two areas intersect in the
  overlaps of their intervals.
\<close>

definition interval :: "int \<Rightarrow> int \<Rightarrow> (int \<times> int) list" where
  "interval lo hi = [(lo, 0), (hi, 0)]"

fun overlap :: "(int \<times> int) list \<Rightarrow> (int \<times> int) list \<Rightarrow> ClipperPaths" where
  "overlap [(a, _), (b, _)] [(c, _), (d, _)] =
     (if max a c < min b d then [interval (max a c) (min b d)] else [])"
| "overlap _ _ = []"

definition lineIntersect :: "ClipperPaths \<Rightarrow> ClipperPaths \<Rightarrow> ClipperPaths" where
  "lineIntersect A B = concat (map (\<lambda>r1. concat (map (overlap r1) B)) A)"

fun grow :: "Length \<Rightarrow> (int \<times> int) list \<Rightarrow> ClipperPaths" where
  "grow off [(a, _), (b, _)] = (if a - off < b + off then [interval (a - off) (b + off)] else [])"
| "grow off _ = []"

fun contour :: "PolyNode \<Rightarrow> (int \<times> int) list" where
  "contour (PolyNode c children) = c"

definition vertexAt :: "Point \<Rightarrow> Vertex" where
  "vertexAt p = \<lparr>getPos = p, getAngle = 0\<rparr>"

fun lineStrokes :: "Path \<Rightarrow> Length \<Rightarrow> Path list" where
  "lineStrokes [] w = []"
| "lineStrokes (v # vs) w =
     [[vertexAt (fst (getPos v) - w div 2, 0), vertexAt (fst (getPos v) + w div 2, 0)]]"

definition lineKernel :: Kernel where
  "lineKernel = \<lparr>
     addVia = (\<lambda>board via off.
        Inr (grow off (interval (fst (viaPosition via) - viaSize via div 2)
                                (fst (viaPosition via) + viaSize via div 2)))),
     addNetLine = (\<lambda>board netLine off. Inr []),
     addPlane = (\<lambda>board plane. Inr []),
     addBoardPolygon = (\<lambda>board polygon. Inr []),
     addPolygon = (\<lambda>board polygon transform. Inr []),
     addStrokeText = (\<lambda>board text off. Inr []),
     addPad = (\<lambda>board pad transform layer off. Inr []),
     addCircle = (\<lambda>board circle transform off. Inr []),
     addHole = (\<lambda>board hole transform off. Inr []),
     addCopper = (\<lambda>board layer nets ignorePlanes. Inr []),
     clipOffset = (\<lambda>paths off tol. Inr (concat (map (grow off) paths))),
     clipIntersect = (\<lambda>A B. Inr (map (\<lambda>c. PolyNode c []) (lineIntersect A B))),
     clipIntersectAll = (\<lambda>As. Inr []),
     clipUnite = (\<lambda>A B. Inr (A @ B)),
     clipUniteSelf = (\<lambda>A. Inr A),
     clipUniteToTree = (\<lambda>A. Inr (map (\<lambda>c. PolyNode c []) A)),
     clipSubtractToTree = (\<lambda>A B. Inr []),
     flattenTree = map contour,
     treeToPaths = map contour,
     convertToPaths = map (map vertexAt),
     convertPaths = (\<lambda>paths tol. map (map getPos) paths),
     toOutlineStrokes = lineStrokes,
     toClosedPath = (\<lambda>path. path),
     obround = (\<lambda>p1 p2 w. [vertexAt p1, vertexAt p2]),
     circlePath = (\<lambda>d. [vertexAt (- (d div 2), 0), vertexAt (d div 2, 0)]),
     translated = (\<lambda>path p. map (\<lambda>v. vertexAt (fst (getPos v) + fst p, snd (getPos v) + snd p)) path),
     rotated = (\<lambda>path a. path),
     mapPath = (\<lambda>transform path. path),
     mapPoint = (\<lambda>transform p. p),
     mapLayer = (\<lambda>transform layer. layer),
     containsOrigin = (\<lambda>geometry. True),
     rebuildAllPlanes = Inr,
     forceAirWiresRebuild = (\<lambda>board. board),
     messageText = (\<lambda>msg. ''DRC message'')\<rparr>"

text \<open>The same geometry with an intersection that raises.\<close>

definition failingKernel :: Kernel where
  "failingKernel = lineKernel\<lparr>clipIntersect := (\<lambda>A B. Inl (LogicError ''Clipper error''))\<rparr>"

text \<open>
  A board with two layers of copper and one net segment for each of two nets,
  each with one via: outer diameter 500 \<mu>m, drill 300 \<mu>m, their centres 499 \<mu>m
  apart, so that the two vias overlap by 1 \<mu>m.
\<close>

definition exampleBoard :: Board where
  "exampleBoard = \<lparr>
     getCopperLayers = [TopCopper, BotCopper],
     getNetSegments =
       [\<lparr>netSegmentUuid = 1, netSegmentNetSignal = Some 10,
         netSegmentVias = [\<lparr>viaUuid = 100, viaPosition = (0, 0), viaDrillDiameter = 300000,
                            viaSize = 500000\<rparr>],
         netSegmentNetLines = [], netSegmentNetPoints = [], netSegmentIsUsed = True\<rparr>,
        \<lparr>netSegmentUuid = 2, netSegmentNetSignal = Some 20,
         netSegmentVias = [\<lparr>viaUuid = 200, viaPosition = (499000, 0), viaDrillDiameter = 300000,
                            viaSize = 500000\<rparr>],
         netSegmentNetLines = [], netSegmentNetPoints = [], netSegmentIsUsed = True\<rparr>],
     getPlanes = [],
     getPolygons = [],
     getStrokeTexts = [],
     getHoles = [],
     getDeviceInstances = [],
     getAirWires = [],
     getComponentInstances = []\<rparr>"

text \<open>Settings with every check switched off, and the settings of a clearance run.\<close>

definition noSettings :: Settings where
  "noSettings = \<lparr>
     getMinCopperWidth = 0, getMinCopperCopperClearance = 0, getMinCopperBoardClearance = 0,
     getMinCopperNpthClearance = 0, getMinDrillDrillClearance = 0,
     getMinDrillBoardClearance = 0, getMinPthAnnularRing = 0, getMinNpthDrillDiameter = 0,
     getMinPthDrillDiameter = 0, getMinNpthSlotWidth = 0, getMinPthSlotWidth = 0,
     getAllowedNpthSlots = SlotsAny, getAllowedPthSlots = SlotsAny,
     getMinOutlineToolDiameter = 0\<rparr>"

definition clearanceSettings :: Settings where
  "clearanceSettings =
     noSettings\<lparr>getMinCopperCopperClearance := 200000, getMinDrillDrillClearance := 400000\<rparr>"

definition initialState :: "Board \<Rightarrow> Settings \<Rightarrow> State" where
  "initialState board settings = \<lparr>
     mBoard = board, mSettings = settings, mIgnorePlanes = False, mProgressPercent = 0,
     mProgressStatus = [], mMessages = [], mCachedPaths = Map.empty, emitted = []\<rparr>"

definition exampleState :: State where
  "exampleState = initialState exampleBoard clearanceSettings"

text \<open>A copper clearance of 1 \<mu>m, which is below the arc tolerance.\<close>

definition smallClearanceState :: State where
  "smallClearanceState =
     initialState exampleBoard (noSettings\<lparr>getMinCopperCopperClearance := 1000\<rparr>)"

text \<open>A board with a round drill and with a straight, a bent and a curved slot.\<close>

definition slotBoard :: Board where
  "slotBoard = exampleBoard\<lparr>getHoles :=
     [\<lparr>holeUuid = 11, holeDiameter = 800000, holePath = [vertexAt (0, 0)]\<rparr>,
      \<lparr>holeUuid = 12, holeDiameter = 800000, holePath = [vertexAt (0, 0), vertexAt (5000000, 0)]\<rparr>,
      \<lparr>holeUuid = 13, holeDiameter = 800000,
       holePath = [vertexAt (0, 0), vertexAt (5000000, 0), vertexAt (5000000, 5000000)]\<rparr>,
      \<lparr>holeUuid = 14, holeDiameter = 800000,
       holePath = [\<lparr>getPos = (0, 0), getAngle = 90000\<rparr>, vertexAt (5000000, 0)]\<rparr>]\<rparr>"

definition slotState :: State where
  "slotState =
     initialState slotBoard (noSettings\<lparr>getAllowedNpthSlots := SingleSegmentStraight\<rparr>)"

text \<open>The example board with every check switched off.\<close>

definition quietState :: State where
  "quietState = initialState exampleBoard noSettings"

text \<open>A via with the smallest drill, and an annular ring of 2^62 nm.\<close>

definition tinyVia :: Via where
  "tinyVia = \<lparr>viaUuid = 300, viaPosition = (0, 0), viaDrillDiameter = 1, viaSize = 2\<rparr>"

definition hugeRing :: Length where
  "hugeRing = 2 ^ 62"

text \<open>A via and a hole as in the scenarios of the specification.\<close>

definition exampleVia :: Via where
  "exampleVia = \<lparr>viaUuid = 100, viaPosition = (0, 0), viaDrillDiameter = 300000,
                  viaSize = 500000\<rparr>"

definition exampleHole :: Hole where
  "exampleHole = \<lparr>holeUuid = 11, holeDiameter = 800000, holePath = [vertexAt (0, 0)]\<rparr>"

text \<open>
  The geometry on a line with the other copper objects: a net line is the
  interval from its start to its end, widened by half its width; a plane is the
  intervals of its fragments; a polygon, and each path of a stroke text, is the
  interval from the first to the last vertex of its path; a pad is the interval
  of 100 \<mu>m around its position; a circle is the interval of its diameter around
  its centre. The objects of a footprint are moved by the position of the device.
\<close>

definition pathInterval :: "Path \<Rightarrow> ClipperPaths" where
  "pathInterval path =
     (case path of [] \<Rightarrow> []
      | v # vs \<Rightarrow> [interval (fst (getPos v)) (fst (getPos (last (v # vs))))])"

definition moved :: "Transform \<Rightarrow> ClipperPaths \<Rightarrow> ClipperPaths" where
  "moved transform paths =
     map (map (\<lambda>p. (fst p + fst (tPosition transform), snd p + snd (tPosition transform)))) paths"

definition copperKernel :: Kernel where
  "copperKernel = lineKernel\<lparr>
     addNetLine := (\<lambda>board netLine off.
        Inr (grow (netLineWidth netLine div 2 + off)
               (interval (fst (netLineStartPos netLine)) (fst (netLineEndPos netLine))))),
     addPlane := (\<lambda>board plane. Inr (concat (map pathInterval (planeFragments plane)))),
     addBoardPolygon := (\<lambda>board polygon. Inr (pathInterval (polygonPath polygon))),
     addPolygon := (\<lambda>board polygon transform.
        Inr (moved transform (pathInterval (polygonPath polygon)))),
     addStrokeText := (\<lambda>board text off.
        Inr (concat (map (grow off) (concat (map pathInterval (textPaths text)))))),
     addPad := (\<lambda>board pad transform layer off.
        Inr (grow off (interval (fst (padPosition pad) - 50000) (fst (padPosition pad) + 50000)))),
     addCircle := (\<lambda>board circle transform off.
        Inr (concat (map (grow off)
          (moved transform
             [interval (fst (circleCenter circle) - circleDiameter circle div 2)
                       (fst (circleCenter circle) + circleDiameter circle div 2)]))))\<rparr>"

text \<open>
  A board with copper objects of each kind on the top layer, each 100 \<mu>m
  long, in a row with gaps of 150 \<mu>m: a via, two net lines of one net at the
  same place, a plane, a polygon, a stroke text and a device with a pad on both
  layers, a polygon, a circle and a stroke text. A net line, a plane, a polygon
  and a footprint polygon that are not on a copper layer of the board lie
  across all of them.
\<close>

definition segmentAt :: "Length \<Rightarrow> Length \<Rightarrow> Path" where
  "segmentAt a b = [vertexAt (a, 0), vertexAt (b, 0)]"

definition copperDevice :: Device where
  "copperDevice = \<lparr>
     deviceComponent = \<lparr>componentUuid = 50, componentDefaultDeviceUuid = None,
                        componentIsSchematicOnly = False\<rparr>,
     deviceLibDeviceUuid = 51, devicePosition = (0, 0), deviceRotation = 0,
     deviceMirrored = False,
     devicePads =
       [\<lparr>padUuid = 52, padPosition = (1300000, 0), padRotation = 0, padMirrored = False,
         padLibPosition = (1300000, 0), padLibRotation = 0, padHoles = [],
         padLayers = [TopCopper, BotCopper], padGeometries = [], padNetSignal = Some 40,
         padNetLines = []\<rparr>],
     deviceLibFootprint = \<lparr>
       footprintPolygons =
         [\<lparr>polygonUuid = 53, polygonLayer = TopCopper, polygonLineWidth = 0,
           polygonIsFilled = True, polygonPath = segmentAt 1500000 1600000\<rparr>,
          \<lparr>polygonUuid = 54, polygonLayer = TopPlacement, polygonLineWidth = 0,
           polygonIsFilled = True, polygonPath = segmentAt 0 2100000\<rparr>],
       footprintCircles =
         [\<lparr>circleUuid = 55, circleLayer = TopCopper, circleLineWidth = 0,
           circleIsFilled = True, circleCenter = (1800000, 0), circleDiameter = 100000\<rparr>],
       footprintHoles = []\<rparr>,
     deviceStrokeTexts =
       [\<lparr>textUuid = 56, textLayer = TopCopper, textStrokeWidth = 200000,
         textPosition = (2000000, 0), textRotation = 0, textMirrored = False,
         textPaths = [segmentAt 2000000 2100000]\<rparr>]\<rparr>"

definition copperBoard :: Board where
  "copperBoard = \<lparr>
     getCopperLayers = [TopCopper, BotCopper],
     getNetSegments =
       [\<lparr>netSegmentUuid = 1, netSegmentNetSignal = Some 10,
         netSegmentVias = [\<lparr>viaUuid = 100, viaPosition = (50000, 0), viaDrillDiameter = 50000,
                            viaSize = 100000\<rparr>],
         netSegmentNetLines = [], netSegmentNetPoints = [], netSegmentIsUsed = True\<rparr>,
        \<lparr>netSegmentUuid = 2, netSegmentNetSignal = Some 20,
         netSegmentVias = [],
         netSegmentNetLines =
           [\<lparr>netLineUuid = 21, netLineLayer = TopCopper, netLineWidth = 20000,
             netLineStartPos = (260000, 0), netLineEndPos = (340000, 0)\<rparr>,
            \<lparr>netLineUuid = 23, netLineLayer = TopCopper, netLineWidth = 20000,
             netLineStartPos = (260000, 0), netLineEndPos = (340000, 0)\<rparr>,
            \<lparr>netLineUuid = 22, netLineLayer = TopPlacement, netLineWidth = 20000,
             netLineStartPos = (0, 0), netLineEndPos = (2100000, 0)\<rparr>],
         netSegmentNetPoints = [], netSegmentIsUsed = True\<rparr>],
     getPlanes =
       [\<lparr>planeUuid = 30, planeLayer = TopCopper, planeMinWidth = 200000, planeNetSignal = 30,
         planeOutline = segmentAt 500000 600000, planeFragments = [segmentAt 500000 600000]\<rparr>,
        \<lparr>planeUuid = 31, planeLayer = InnerCopper 1, planeMinWidth = 200000,
         planeNetSignal = 31, planeOutline = segmentAt 0 2100000,
         planeFragments = [segmentAt 0 2100000]\<rparr>],
     getPolygons =
       [\<lparr>polygonUuid = 40, polygonLayer = TopCopper, polygonLineWidth = 0,
         polygonIsFilled = True, polygonPath = segmentAt 750000 850000\<rparr>,
        \<lparr>polygonUuid = 41, polygonLayer = TopDocumentation, polygonLineWidth = 0,
         polygonIsFilled = True, polygonPath = segmentAt 0 2100000\<rparr>],
     getStrokeTexts =
       [\<lparr>textUuid = 45, textLayer = TopCopper, textStrokeWidth = 200000,
         textPosition = (1000000, 0), textRotation = 0, textMirrored = False,
         textPaths = [segmentAt 1000000 1100000]\<rparr>],
     getHoles = [],
     getDeviceInstances = [copperDevice],
     getAirWires = [],
     getComponentInstances = []\<rparr>"

definition copperState :: State where
  "copperState = initialState copperBoard (noSettings\<lparr>getMinCopperCopperClearance := 200000\<rparr>)"

text \<open>The areas of the copper objects of that board, inflated by 97499 nm.\<close>

definition copperAreas :: "ClipperPaths list" where
  "copperAreas =
     [[interval (- 97499) 197499], [interval 152501 447499], [interval 152501 447499],
      [interval 402501 697499], [interval 652501 947499], [interval 902501 1197499],
      [interval 1152501 1447499], [interval 1152501 1447499], [interval 1402501 1697499],
      [interval 1652501 1947499], [interval 1902501 2197499]]"

text \<open>
  The board of the two vias with a plane on the top layer, 51 \<mu>m from the
  second via, and a plane on a layer that is not a copper layer of the board.
\<close>

definition planeBoard :: Board where
  "planeBoard = exampleBoard\<lparr>getPlanes :=
     [\<lparr>planeUuid = 30, planeLayer = TopCopper, planeMinWidth = 200000, planeNetSignal = 30,
       planeOutline = segmentAt 800000 900000, planeFragments = [segmentAt 800000 900000]\<rparr>,
      \<lparr>planeUuid = 31, planeLayer = InnerCopper 1, planeMinWidth = 200000, planeNetSignal = 31,
       planeOutline = segmentAt 0 900000, planeFragments = [segmentAt 0 900000]\<rparr>]\<rparr>"

definition planeState :: State where
  "planeState = initialState planeBoard (noSettings\<lparr>getMinCopperCopperClearance := 200000\<rparr>)"

definition quickAreas :: "ClipperPaths list" where
  "quickAreas = [[interval (- 347499) 347499], [interval 151501 846499]]"

section \<open>Properties of approval resolution\<close>

lemma countAndPrint_eq:
  "countAndPrint up ap ms (p, c) =
     (p @ map (formatMessage up) (filter (\<lambda>m. getApproval m \<notin> ap) ms),
      c + length (filter (\<lambda>m. getApproval m \<in> ap) ms))"
  by (induction ms arbitrary: p c) simp_all

lemma length_filter_mset:
  "mset ys = mset xs \<Longrightarrow> length (filter P ys) = length (filter P xs)"
  by (metis mset_filter size_mset)

lemma not_compareMessages_iff:
  "\<not> compareMessages cmp b a \<longleftrightarrow>
     severityRank (getSeverity b) \<le> severityRank (getSeverity a) \<and>
     (getSeverity a = getSeverity b \<longrightarrow> \<not> cmp (getMessage b) (getMessage a))"
  by (cases "getSeverity a"; cases "getSeverity b") (auto simp: compareMessages_def)

text \<open>
  Claim C8. For every admissible result of the sort, \<open>prepareRuleCheckMessages\<close>
  returns the number of messages whose approval key is in the set of approvals,
  together with the other messages (in their printed form \<open>[SEVERITY] message\<close>).
  The messages that remain are ordered by severity, highest first, and among
  equal severities no message comes before one that the collator orders in front
  of it.
\<close>

theorem prepareRuleCheckMessages_spec:
  assumes "sortResult (compareMessages cmp) messages (stdSort (compareMessages cmp) messages)"
  shows "\<exists>remaining.
           prepareRuleCheckMessages stdSort cmp toUpper messages approvals =
             (map (formatMessage toUpper) remaining,
              length (filter (\<lambda>m. getApproval m \<in> approvals) messages)) \<and>
           mset remaining = mset (filter (\<lambda>m. getApproval m \<notin> approvals) messages) \<and>
           sorted_wrt (\<lambda>a b. severityRank (getSeverity b) \<le> severityRank (getSeverity a) \<and>
               (getSeverity a = getSeverity b \<longrightarrow> \<not> cmp (getMessage b) (getMessage a)))
             remaining"
proof -
  let ?s = "stdSort (compareMessages cmp) messages"
  let ?r = "filter (\<lambda>m. getApproval m \<notin> approvals) ?s"
  from assms have m: "mset ?s = mset messages"
    and s: "sorted_wrt (\<lambda>a b. \<not> compareMessages cmp b a) ?s"
    by (simp_all add: sortResult_def)
  have "prepareRuleCheckMessages stdSort cmp toUpper messages approvals =
          (map (formatMessage toUpper) ?r,
           length (filter (\<lambda>m. getApproval m \<in> approvals) messages))"
    using length_filter_mset [OF m]
    by (simp add: prepareRuleCheckMessages_def countAndPrint_eq)
  moreover have "mset ?r = mset (filter (\<lambda>m. getApproval m \<notin> approvals) messages)"
    using m by (metis mset_filter)
  moreover have "sorted_wrt (\<lambda>a b. \<not> compareMessages cmp b a) ?r"
    using s by (rule sorted_wrt_filter)
  ultimately show ?thesis
    unfolding not_compareMessages_iff by blast
qed

lemma exampleMessages_sorted:
  "sortResult (compareMessages collateAscii) exampleMessages
     (insertionSort (compareMessages collateAscii) exampleMessages)"
  by (simp add: sortResult_def exampleMessages_def compareMessages_def)

theorem prepareRuleCheckMessages_spec_witness:
  "sortResult (compareMessages collateAscii) exampleMessages
     (insertionSort (compareMessages collateAscii) exampleMessages) \<and>
   prepareRuleCheckMessages insertionSort collateAscii id exampleMessages {4}
     = ([''[Error] z'', ''[Warning] a'', ''[Warning] b''], 1)"
  using prepareRuleCheckMessages_spec
          [of collateAscii exampleMessages insertionSort id "{4}", OF exampleMessages_sorted]
        exampleMessages_sorted
  by (simp add: prepareRuleCheckMessages_def exampleMessages_def compareMessages_def
        formatMessage_def)

section \<open>The effects of the checks\<close>

named_theorems eff_intros

lemma eff_ret [eff_intros]: "eff K P None (ret x)"
  by (simp add: eff_def ret_def messageSignals_def)

lemma eff_lift [eff_intros]: "eff K P None (lift r)"
  by (simp add: eff_def lift_def messageSignals_def)

lemma eff_emitMessage [eff_intros]: "P msg \<Longrightarrow> eff K P None (emitMessage K msg)"
  by (simp add: eff_def emitMessage_def messageSignals_def)

lemma eff_emitProgress [eff_intros]: "eff K P (Some p) (emitProgress p)"
  by (simp add: eff_def emitProgress_def messageSignals_def isOK_def)

lemma eff_setBoard [eff_intros]: "eff K P None (setBoard b)"
  by (simp add: eff_def setBoard_def messageSignals_def)

lemma eff_setCachedPaths [eff_intros]: "eff K P None (setCachedPaths k v)"
  by (simp add: eff_def setCachedPaths_def messageSignals_def)

lemma eff_bind [eff_intros]:
  assumes a: "eff K P None m" and f: "\<And>x. eff K P po (f x)"
  shows "eff K P po (bind m f)"
  unfolding eff_def
proof (intro allI impI)
  fix s r s'
  assume h: "bind m f s = (r, s')"
  obtain r1 s1 where m: "m s = (r1, s1)" by (cases "m s")
  from a m obtain ms1 where 1: "mMessages s1 = mMessages s @ ms1" "list_all P ms1"
      "emitted s1 = emitted s @ messageSignals K ms1"
      "mProgressStatus s1 = mProgressStatus s" "mSettings s1 = mSettings s"
      "mIgnorePlanes s1 = mIgnorePlanes s"
    unfolding eff_def by fastforce
  show "\<exists>ms. mMessages s' = mMessages s @ ms \<and> list_all P ms \<and>
              emitted s' = emitted s @ messageSignals K ms @
                 (case po of None \<Rightarrow> []
                  | Some p \<Rightarrow> if isOK r then [ProgressPercent p] else []) \<and>
              mProgressStatus s' = mProgressStatus s \<and>
              mSettings s' = mSettings s \<and> mIgnorePlanes s' = mIgnorePlanes s"
  proof (cases r1)
    case (Inl e)
    with h m have "r = Inl e" "s' = s1" by (simp_all add: bind_def)
    with 1 show ?thesis
      by (intro exI [of _ ms1]) (simp add: isOK_def split: option.split)
  next
    case (Inr x)
    with h m have "f x s1 = (r, s')" by (simp add: bind_def)
    with f [of x] obtain ms2 where 2: "mMessages s' = mMessages s1 @ ms2" "list_all P ms2"
      "emitted s' = emitted s1 @ messageSignals K ms2 @
         (case po of None \<Rightarrow> [] | Some p \<Rightarrow> if isOK r then [ProgressPercent p] else [])"
      "mProgressStatus s' = mProgressStatus s1" "mSettings s' = mSettings s1"
      "mIgnorePlanes s' = mIgnorePlanes s1"
      unfolding eff_def by blast
    with 1 show ?thesis
      by (intro exI [of _ "ms1 @ ms2"]) (simp add: messageSignals_def)
  qed
qed

lemma eff_seq [eff_intros]: "eff K P None a \<Longrightarrow> eff K P po b \<Longrightarrow> eff K P po (seq a b)"
  unfolding seq_def by (rule eff_bind)

lemma eff_block_Nil [eff_intros]: "eff K P None (block [])"
  by (simp add: eff_ret)

lemma block_single: "block [a] = a"
  by (auto simp: fun_eq_iff seq_def bind_def ret_def split: prod.splits sum.splits)

lemma eff_block_single [eff_intros]: "eff K P po a \<Longrightarrow> eff K P po (block [a])"
  by (simp only: block_single)

lemma eff_block_Cons [eff_intros]:
  "eff K P None a \<Longrightarrow> eff K P po (block (b # bs)) \<Longrightarrow> eff K P po (block (a # b # bs))"
  by (simp add: eff_seq)

lemma eff_whenM [eff_intros]: "(c \<Longrightarrow> eff K P None a) \<Longrightarrow> eff K P None (whenM c a)"
  by (simp add: whenM_def eff_ret)

lemma eff_if [eff_intros]:
  "(c \<Longrightarrow> eff K P po a) \<Longrightarrow> (\<not> c \<Longrightarrow> eff K P po b) \<Longrightarrow> eff K P po (if c then a else b)"
  by simp

lemma eff_withState [eff_intros]: "(\<And>s. eff K P po (f s)) \<Longrightarrow> eff K P po (withState f)"
  unfolding eff_def withState_def by blast

lemma eff_forEach [eff_intros]: "(\<And>x. eff K P None (f x)) \<Longrightarrow> eff K P None (forEach xs f)"
  by (induction xs) (simp_all add: eff_ret eff_seq)

lemma eff_forEachPair [eff_intros]:
  "(\<And>x y. eff K P None (f x y)) \<Longrightarrow> eff K P None (forEachPair xs f)"
  by (induction xs) (simp_all add: eff_ret eff_seq eff_forEach)

lemma eff_foldM [eff_intros]:
  "(\<And>a x. eff K P None (f a x)) \<Longrightarrow> eff K P None (foldM f acc xs)"
  by (induction xs arbitrary: acc) (simp_all add: eff_ret eff_bind)

lemma eff_case_option [eff_intros]:
  "(x = None \<Longrightarrow> eff K P po a) \<Longrightarrow> (\<And>y. x = Some y \<Longrightarrow> eff K P po (f y))
   \<Longrightarrow> eff K P po (case x of None \<Rightarrow> a | Some y \<Rightarrow> f y)"
  by (cases x) simp_all

lemma eff_case_prod [eff_intros]:
  "(\<And>a b. eff K P po (f a b)) \<Longrightarrow> eff K P po (case x of (a, b) \<Rightarrow> f a b)"
  by (cases x) simp

lemma eff_reportIntersection [eff_intros]:
  "(\<And>l. P (msg l)) \<Longrightarrow> eff K P None (reportIntersection K area paths msg)"
  unfolding reportIntersection_def Let_def by (intro eff_intros) simp

lemma eff_getCopperPaths [eff_intros]: "eff K P None (getCopperPaths K layer nets)"
  unfolding getCopperPaths_def by (intro eff_intros)

lemma checkEffectI:
  assumes "\<And>s. \<not> en (mSettings s) \<Longrightarrow> f s = ret ()"
    and "\<And>s. en (mSettings s) \<Longrightarrow> \<exists>body. f s = seq (emitStatus txt) body \<and> eff K P (Some p) body"
  shows "checkEffect K en txt P p (withState f)"
  unfolding checkEffect_def
proof (intro allI impI)
  fix s r s'
  assume h: "withState f s = (r, s')"
  show "if en (mSettings s)
         then (\<exists>ms. mMessages s' = mMessages s @ ms \<and> list_all P ms \<and>
                 emitted s' = emitted s @ [ProgressStatus txt] @ messageSignals K ms @
                    (if isOK r then [ProgressPercent p] else []) \<and>
                 mProgressStatus s' = mProgressStatus s @ [txt] \<and>
                 mSettings s' = mSettings s \<and> mIgnorePlanes s' = mIgnorePlanes s)
         else r = Inr () \<and> s' = s"
  proof (cases "en (mSettings s)")
    case False
    with assms(1) [of s] h show ?thesis by (simp add: withState_def ret_def)
  next
    case True
    with assms(2) [of s] obtain body where b: "f s = seq (emitStatus txt) body"
      and e: "eff K P (Some p) body" by blast
    let ?s1 = "s\<lparr>mProgressStatus := mProgressStatus s @ [txt],
                   emitted := emitted s @ [ProgressStatus txt]\<rparr>"
    from h b have "body ?s1 = (r, s')"
      by (simp add: withState_def seq_def bind_def emitStatus_def)
    with e obtain ms where "mMessages s' = mMessages ?s1 @ ms" "list_all P ms"
      "emitted s' = emitted ?s1 @ messageSignals K ms @
          (if isOK r then [ProgressPercent p] else [])"
      "mProgressStatus s' = mProgressStatus ?s1" "mSettings s' = mSettings ?s1"
      "mIgnorePlanes s' = mIgnorePlanes ?s1"
      unfolding eff_def by fastforce
    with True show ?thesis by auto
  qed
qed


lemma withState_const: "withState (\<lambda>s. m) = m"
  by (simp add: withState_def)

lemma checkEffect_plainI:
  "eff K P (Some p) body \<Longrightarrow> checkEffect K (\<lambda>S. True) st P p (seq (emitStatus st) body)"
  using checkEffectI [of "\<lambda>S. True" "\<lambda>s. seq (emitStatus st) body" st K P p]
  by (simp add: withState_const) blast

lemma eff_checkCopperPair [eff_intros]:
  "(\<And>l. P (copperCopperMsg K c it1 it2 l)) \<Longrightarrow> eff K P None (checkCopperPair K c it1 it2)"
  unfolding checkCopperPair_def Let_def by (intro eff_intros) simp

lemma eff_checkDrillPair [eff_intros]:
  "(\<And>h1 h2 l. P (drillDrillMsg K c it1 h1 it2 h2 l)) \<Longrightarrow> eff K P None (checkDrillPair K c it1 it2)"
  unfolding checkDrillPair_def Let_def
  by (intro eff_bind eff_lift) (auto split: option.splits intro!: eff_intros)

lemma eff_reportUncovered [eff_intros]:
  "(\<And>l. P (msg l)) \<Longrightarrow> eff K P None (reportUncovered K areas tht msg)"
  unfolding reportUncovered_def Let_def by (intro eff_intros) simp

lemma eff_checkViaAnnularRing [eff_intros]:
  "(\<And>a l. P (mkMsg MinimumAnnularRingViolation a l))
   \<Longrightarrow> eff K P None (checkViaAnnularRing K w tht via)"
  unfolding checkViaAnnularRing_def Let_def by (intro eff_intros) simp

lemma eff_checkPadAnnularRing [eff_intros]:
  "(\<And>a l. P (mkMsg MinimumAnnularRingViolation a l))
   \<Longrightarrow> eff K P None (checkPadAnnularRing K w tht pad)"
  unfolding checkPadAnnularRing_def Let_def by (intro eff_intros) simp

lemma eff_checkCourtyardPair [eff_intros]:
  "(\<And>a l. P (mkMsg CourtyardOverlap a l)) \<Longrightarrow> eff K P None (checkCourtyardPair K d1 d2)"
  unfolding checkCourtyardPair_def by (intro eff_intros) simp

lemma eff_deviceOutlines [eff_intros]:
  "(\<And>a l. P (mkMsg OpenBoardOutlinePolygon a l)) \<Longrightarrow> eff K P None (deviceOutlines K outlines device)"
  unfolding deviceOutlines_def Let_def by (intro eff_intros) simp

lemma eff_checkOutlineRadius [eff_intros]:
  "(\<And>a l. P (mkMsg MinimumBoardOutlineInnerRadiusViolation a l))
   \<Longrightarrow> eff K P None (checkOutlineRadius K r tree)"
  unfolding checkOutlineRadius_def Let_def by (intro eff_intros) simp

lemma msgKind_mkMsg [simp]: "msgKind (mkMsg k a l) = k"
  by (simp add: mkMsg_def)

lemma msgKind_copperCopperMsg [simp]:
  "msgKind (copperCopperMsg K c it1 it2 l) = CopperCopperClearanceViolation"
  by (simp add: copperCopperMsg_def)

lemma msgKind_drillDrillMsg [simp]:
  "msgKind (drillDrillMsg K c it1 h1 it2 h2 l) = DrillDrillClearanceViolation"
  by (simp add: drillDrillMsg_def)

lemma checkMinimumCopperWidth_effect:
  "checkEffect K (\<lambda>S. getMinCopperWidth S \<noteq> 0) ''Check copper widths...''
     (\<lambda>m. msgKind m \<in> set [MinimumWidthViolation]) p (checkMinimumCopperWidth K p)"
  unfolding checkMinimumCopperWidth_def Let_def
  apply (rule checkEffectI)
   apply simp
  apply ((simp only: if_False if_True simp_thms)?)
  apply (rule exI, rule conjI, (rule block.simps(2) | rule refl))
  apply (intro eff_intros)
  apply (simp_all)?
  done

lemma checkCopperCopperClearances_effect:
  "checkEffect K (\<lambda>S. getMinCopperCopperClearance S \<noteq> 0) ''Check copper clearances...''
     (\<lambda>m. msgKind m \<in> set [CopperCopperClearanceViolation]) p (checkCopperCopperClearances K p)"
  unfolding checkCopperCopperClearances_def Let_def
  apply (rule checkEffectI)
   apply simp
  apply ((simp only: if_False if_True simp_thms)?)
  apply (rule exI, rule conjI, (rule block.simps(2) | rule refl))
  apply (intro eff_intros)
  apply (simp_all)?
  done

lemma checkCopperBoardClearances_effect:
  "checkEffect K (\<lambda>S. getMinCopperBoardClearance S \<noteq> 0) ''Check board clearances...''
     (\<lambda>m. msgKind m \<in> set [CopperBoardClearanceViolation]) p (checkCopperBoardClearances K p)"
  unfolding checkCopperBoardClearances_def Let_def
  apply (rule checkEffectI)
   apply simp
  apply ((simp only: if_False if_True simp_thms)?)
  apply (rule exI, rule conjI, (rule block.simps(2) | rule refl))
  apply (intro eff_intros)
  apply (simp_all)?
  done

lemma checkCopperHoleClearances_effect:
  "checkEffect K (\<lambda>S. getMinCopperNpthClearance S \<noteq> 0) ''Check hole clearances...''
     (\<lambda>m. msgKind m \<in> set [CopperHoleClearanceViolation]) p (checkCopperHoleClearances K p)"
  unfolding checkCopperHoleClearances_def Let_def
  apply (rule checkEffectI)
   apply simp
  apply ((simp only: if_False if_True simp_thms)?)
  apply (rule exI, rule conjI, (rule block.simps(2) | rule refl))
  apply (intro eff_intros)
  apply (simp_all)?
  done

lemma checkDrillDrillClearances_effect:
  "checkEffect K (\<lambda>S. getMinDrillDrillClearance S \<noteq> 0) ''Check drill clearances...''
     (\<lambda>m. msgKind m \<in> set [DrillDrillClearanceViolation]) p (checkDrillDrillClearances K p)"
  unfolding checkDrillDrillClearances_def Let_def
  apply (rule checkEffectI)
   apply simp
  apply ((simp only: if_False if_True simp_thms)?)
  apply (rule exI, rule conjI, (rule block.simps(2) | rule refl))
  apply (intro eff_intros)
  apply (simp_all)?
  done

lemma checkDrillBoardClearances_effect:
  "checkEffect K (\<lambda>S. getMinDrillBoardClearance S \<noteq> 0) ''Check drill to board edge clearances...''
     (\<lambda>m. msgKind m \<in> set [DrillBoardClearanceViolation]) p (checkDrillBoardClearances K p)"
  unfolding checkDrillBoardClearances_def Let_def
  apply (rule checkEffectI)
   apply simp
  apply ((simp only: if_False if_True simp_thms)?)
  apply (rule exI, rule conjI, (rule block.simps(2) | rule refl))
  apply (intro eff_intros)
  apply (simp_all)?
  done

lemma checkMinimumPthAnnularRing_effect:
  "checkEffect K (\<lambda>S. getMinPthAnnularRing S \<noteq> 0) ''Check PTH annular rings...''
     (\<lambda>m. msgKind m \<in> set [MinimumAnnularRingViolation]) p (checkMinimumPthAnnularRing K p)"
  unfolding checkMinimumPthAnnularRing_def Let_def
  apply (rule checkEffectI)
   apply simp
  apply ((simp only: if_False if_True simp_thms)?)
  apply (rule exI, rule conjI, (rule block.simps(2) | rule refl))
  apply (intro eff_intros)
  apply (simp_all)?
  done

lemma checkMinimumNpthDrillDiameter_effect:
  "checkEffect K (\<lambda>S. getMinNpthDrillDiameter S \<noteq> 0) ''Check NPTH drill diameters...''
     (\<lambda>m. msgKind m \<in> set [MinimumDrillDiameterViolation]) p (checkMinimumNpthDrillDiameter K p)"
  unfolding checkMinimumNpthDrillDiameter_def Let_def
  apply (rule checkEffectI)
   apply simp
  apply ((simp only: if_False if_True simp_thms)?)
  apply (rule exI, rule conjI, (rule block.simps(2) | rule refl))
  apply (intro eff_intros)
  apply (simp_all)?
  done

lemma checkMinimumNpthSlotWidth_effect:
  "checkEffect K (\<lambda>S. getMinNpthSlotWidth S \<noteq> 0) ''Check NPTH slot widths...''
     (\<lambda>m. msgKind m \<in> set [MinimumSlotWidthViolation]) p (checkMinimumNpthSlotWidth K p)"
  unfolding checkMinimumNpthSlotWidth_def Let_def
  apply (rule checkEffectI)
   apply simp
  apply ((simp only: if_False if_True simp_thms)?)
  apply (rule exI, rule conjI, (rule block.simps(2) | rule refl))
  apply (intro eff_intros)
  apply (simp_all)?
  done

lemma checkMinimumPthDrillDiameter_effect:
  "checkEffect K (\<lambda>S. getMinPthDrillDiameter S \<noteq> 0) ''Check PTH drill diameters...''
     (\<lambda>m. msgKind m \<in> set [MinimumDrillDiameterViolation]) p (checkMinimumPthDrillDiameter K p)"
  unfolding checkMinimumPthDrillDiameter_def Let_def
  apply (rule checkEffectI)
   apply simp
  apply ((simp only: if_False if_True simp_thms)?)
  apply (rule exI, rule conjI, (rule block.simps(2) | rule refl))
  apply (intro eff_intros)
  apply (simp_all)?
  done

lemma checkMinimumPthSlotWidth_effect:
  "checkEffect K (\<lambda>S. getMinPthSlotWidth S \<noteq> 0) ''Check PTH slot widths...''
     (\<lambda>m. msgKind m \<in> set [MinimumSlotWidthViolation]) p (checkMinimumPthSlotWidth K p)"
  unfolding checkMinimumPthSlotWidth_def Let_def
  apply (rule checkEffectI)
   apply simp
  apply ((simp only: if_False if_True simp_thms)?)
  apply (rule exI, rule conjI, (rule block.simps(2) | rule refl))
  apply (intro eff_intros)
  apply (simp_all)?
  done

lemma checkAllowedNpthSlots_effect:
  "checkEffect K (\<lambda>S. getAllowedNpthSlots S \<noteq> SlotsAny) ''Check for disallowed NPTH slots...''
     (\<lambda>m. msgKind m \<in> set [ForbiddenSlot]) p (checkAllowedNpthSlots K p)"
  unfolding checkAllowedNpthSlots_def Let_def
  apply (rule checkEffectI)
   apply simp
  apply ((simp only: if_False if_True simp_thms)?)
  apply (rule exI, rule conjI, (rule block.simps(2) | rule refl))
  apply (intro eff_intros)
  apply (simp_all)?
  done

lemma checkAllowedPthSlots_effect:
  "checkEffect K (\<lambda>S. getAllowedPthSlots S \<noteq> SlotsAny) ''Check for disallowed PTH slots...''
     (\<lambda>m. msgKind m \<in> set [ForbiddenSlot]) p (checkAllowedPthSlots K p)"
  unfolding checkAllowedPthSlots_def Let_def
  apply (rule checkEffectI)
   apply simp
  apply ((simp only: if_False if_True simp_thms)?)
  apply (rule exI, rule conjI, (rule block.simps(2) | rule refl))
  apply (intro eff_intros)
  apply (simp_all)?
  done

lemma checkInvalidPadConnections_effect:
  "checkEffect K (\<lambda>S. True) ''Check pad connections...''
     (\<lambda>m. msgKind m \<in> set [InvalidPadConnection]) p (checkInvalidPadConnections K p)"
  unfolding checkInvalidPadConnections_def Let_def
  apply (rule checkEffectI)
   apply simp
  apply ((simp only: if_False if_True simp_thms)?)
  apply (rule exI, rule conjI, (rule block.simps(2) | rule refl))
  apply (intro eff_intros)
  apply (simp_all)?
  done

lemma checkCourtyardClearances_effect:
  "checkEffect K (\<lambda>S. True) ''Check courtyard clearances...''
     (\<lambda>m. msgKind m \<in> set [CourtyardOverlap]) p (checkCourtyardClearances K p)"
  unfolding checkCourtyardClearances_def Let_def
  apply (rule checkEffectI)
   apply simp
  apply ((simp only: if_False if_True simp_thms)?)
  apply (rule exI, rule conjI, (rule block.simps(2) | rule refl))
  apply (intro eff_intros)
  apply (simp_all)?
  done

lemma checkBoardOutline_effect:
  "checkEffect K (\<lambda>S. True) ''Check board outline...''
     (\<lambda>m. msgKind m \<in> set [OpenBoardOutlinePolygon, MissingBoardOutline, MultipleBoardOutlines,
         MinimumBoardOutlineInnerRadiusViolation]) p (checkBoardOutline K p)"
  unfolding checkBoardOutline_def Let_def
  apply (rule checkEffectI)
   apply simp
  apply ((simp only: if_False if_True simp_thms)?)
  apply (rule exI, rule conjI, (rule block.simps(2) | rule refl))
  apply (intro eff_intros)
  apply (simp_all)?
  done

lemma checkForUnplacedComponents_effect:
  "checkEffect K (\<lambda>S. True) ''Check for unplaced components...''
     (\<lambda>m. msgKind m \<in> set [MissingDevice]) p (checkForUnplacedComponents K p)"
  unfolding checkForUnplacedComponents_def Let_def
  apply (rule checkEffectI)
   apply simp
  apply ((simp only: if_False if_True simp_thms)?)
  apply (rule exI, rule conjI, (rule block.simps(2) | rule refl))
  apply (intro eff_intros)
  apply (simp_all)?
  done

lemma checkCircuitDefaultDevices_effect:
  "checkEffect K (\<lambda>S. True) ''Check configured default devices...''
     (\<lambda>m. msgKind m \<in> set [DefaultDeviceMismatch]) p (checkCircuitDefaultDevices K p)"
  unfolding checkCircuitDefaultDevices_def Let_def
  apply (rule checkEffectI)
   apply simp
  apply ((simp only: if_False if_True simp_thms)?)
  apply (rule exI, rule conjI, (rule block.simps(2) | rule refl))
  apply (intro eff_intros)
  apply (simp_all)?
  done

lemma checkForMissingConnections_effect:
  "checkEffect K (\<lambda>S. True) ''Check for missing connections...''
     (\<lambda>m. msgKind m \<in> set [MissingConnection]) p (checkForMissingConnections K p)"
  unfolding checkForMissingConnections_def Let_def
  apply (simp only: block.simps(2) [of "emitStatus _"])
  apply (rule checkEffect_plainI)
  apply (intro eff_intros)
  apply (simp_all)?
  done

lemma checkForStaleObjects_effect:
  "checkEffect K (\<lambda>S. True) ''Check for stale objects...''
     (\<lambda>m. msgKind m \<in> set [EmptyNetSegment, UnconnectedJunction]) p (checkForStaleObjects K p)"
  unfolding checkForStaleObjects_def Let_def
  apply (rule checkEffectI)
   apply simp
  apply ((simp only: if_False if_True simp_thms)?)
  apply (rule exI, rule conjI, (rule block.simps(2) | rule refl))
  apply (intro eff_intros)
  apply (simp_all)?
  done

lemma rebuildPlanes_effect:
  "checkEffect K (\<lambda>S. True) ''Rebuild planes...''
     (\<lambda>m. msgKind m \<in> set []) p (rebuildPlanes K p)"
  unfolding rebuildPlanes_def Let_def
  apply (simp only: block.simps(2) [of "emitStatus _"])
  apply (rule checkEffect_plainI)
  apply (intro eff_intros)
  apply (simp_all)?
  done
section \<open>Sequences of checks\<close>

lemma percentsOf_append [simp]: "percentsOf (a @ b) = percentsOf a @ percentsOf b"
  by (induction a rule: percentsOf.induct) simp_all

lemma statusesOf_append [simp]: "statusesOf (a @ b) = statusesOf a @ statusesOf b"
  by (induction a rule: statusesOf.induct) simp_all

lemma messageTextsOf_append [simp]:
  "messageTextsOf (a @ b) = messageTextsOf a @ messageTextsOf b"
  by (induction a rule: messageTextsOf.induct) simp_all

lemma percentsOf_messageSignals [simp]: "percentsOf (messageSignals K ms) = []"
  by (induction ms) (simp_all add: messageSignals_def)

lemma statusesOf_messageSignals [simp]: "statusesOf (messageSignals K ms) = []"
  by (induction ms) (simp_all add: messageSignals_def)

lemma messageTextsOf_messageSignals [simp]:
  "messageTextsOf (messageSignals K ms) = map (messageText K) ms"
  by (induction ms) (simp_all add: messageSignals_def)

lemma Started_messageSignals [simp]: "Started \<notin> set (messageSignals K ms)"
  by (auto simp: messageSignals_def)

lemma Finished_messageSignals [simp]: "Finished \<notin> set (messageSignals K ms)"
  by (auto simp: messageSignals_def)

lemma rowsAllow_Cons:
  "rowsAllow (row # rows) S x \<longleftrightarrow>
     (rowEnabled row S \<and> msgKind x \<in> set (rowKinds row)) \<or> rowsAllow rows S x"
  by (simp add: rowsAllow_def)

lemma rowsStatus_Cons:
  "rowsStatus (row # rows) S = (if rowEnabled row S then [rowStatus row] else []) @ rowsStatus rows S"
  by (simp add: rowsStatus_def)

lemma rowsEffect_Nil: "rowsEffect K [] (block [])"
  by (simp add: rowsEffect_def ret_def rowsStatus_def)

lemma rowsEffect_Cons:
  assumes h: "rowCheck K row a" and t: "rowsEffect K rows (block as)"
  shows "rowsEffect K (row # rows) (block (a # as))"
  unfolding rowsEffect_def
proof (intro allI impI)
  fix s r s'
  assume run: "block (a # as) s = (r, s')"
  obtain r1 s1 where a: "a s = (r1, s1)" by (cases "a s")
  let ?S = "mSettings s"
  let ?goal = "\<exists>ms tr. mMessages s' = mMessages s @ ms \<and>
              list_all (rowsAllow (row # rows) ?S) ms \<and>
              emitted s' = emitted s @ tr \<and>
              messageTextsOf tr = map (messageText K) ms \<and>
              mProgressStatus s' = mProgressStatus s @ statusesOf tr \<and>
              (isOK r \<longrightarrow> statusesOf tr = rowsStatus (row # rows) ?S \<and>
                 percentsOf tr =
                   map rowPercent (filter (\<lambda>row. rowEnabled row ?S) (row # rows))) \<and>
              subseq (percentsOf tr) (map rowPercent (row # rows)) \<and>
              Started \<notin> set tr \<and> Finished \<notin> set tr \<and>
              mSettings s' = mSettings s \<and> mIgnorePlanes s' = mIgnorePlanes s"
  have head: "\<exists>ms1 tr1. mMessages s1 = mMessages s @ ms1 \<and>
      list_all (\<lambda>x. rowEnabled row ?S \<and> msgKind x \<in> set (rowKinds row)) ms1 \<and>
      emitted s1 = emitted s @ tr1 \<and> messageTextsOf tr1 = map (messageText K) ms1 \<and>
      mProgressStatus s1 = mProgressStatus s @ statusesOf tr1 \<and>
      statusesOf tr1 = (if rowEnabled row ?S then [rowStatus row] else []) \<and>
      percentsOf tr1 = (if rowEnabled row ?S \<and> isOK r1 then [rowPercent row] else []) \<and>
      Started \<notin> set tr1 \<and> Finished \<notin> set tr1 \<and>
      mSettings s1 = mSettings s \<and> mIgnorePlanes s1 = mIgnorePlanes s \<and>
      (\<not> rowEnabled row ?S \<longrightarrow> isOK r1)"
  proof (cases "rowEnabled row ?S")
    case True
    with h a obtain ms1 where "mMessages s1 = mMessages s @ ms1"
      "list_all (\<lambda>x. msgKind x \<in> set (rowKinds row)) ms1"
      "emitted s1 = emitted s @ [ProgressStatus (rowStatus row)] @ messageSignals K ms1 @
                    (if isOK r1 then [ProgressPercent (rowPercent row)] else [])"
      "mProgressStatus s1 = mProgressStatus s @ [rowStatus row]"
      "mSettings s1 = mSettings s" "mIgnorePlanes s1 = mIgnorePlanes s"
      unfolding rowCheck_def checkEffect_def by fastforce
    with True show ?thesis
      by (intro exI [of _ ms1]
            exI [of _ "[ProgressStatus (rowStatus row)] @ messageSignals K ms1 @
                    (if isOK r1 then [ProgressPercent (rowPercent row)] else [])"])
         simp
  next
    case False
    with h a have "r1 = Inr ()" "s1 = s"
      unfolding rowCheck_def checkEffect_def by fastforce+
    with False show ?thesis
      by (intro exI [of _ "[]"]) (simp add: isOK_def)
  qed
  then obtain ms1 tr1 where 1: "mMessages s1 = mMessages s @ ms1"
      "list_all (\<lambda>x. rowEnabled row ?S \<and> msgKind x \<in> set (rowKinds row)) ms1"
      "emitted s1 = emitted s @ tr1" "messageTextsOf tr1 = map (messageText K) ms1"
      "mProgressStatus s1 = mProgressStatus s @ statusesOf tr1"
      "statusesOf tr1 = (if rowEnabled row ?S then [rowStatus row] else [])"
      "percentsOf tr1 = (if rowEnabled row ?S \<and> isOK r1 then [rowPercent row] else [])"
      "Started \<notin> set tr1" "Finished \<notin> set tr1"
      "mSettings s1 = mSettings s" "mIgnorePlanes s1 = mIgnorePlanes s"
      "\<not> rowEnabled row ?S \<longrightarrow> isOK r1"
    by blast
  have allow1: "list_all (rowsAllow (row # rows) ?S) ms1"
    using 1(2) by (simp add: list_all_iff rowsAllow_Cons)
  have sub1: "subseq (percentsOf tr1) (map rowPercent (row # rows))"
    using 1(7) by (auto split: if_splits)
  show ?goal
  proof (cases r1)
    case (Inl e)
    with run a have "r = Inl e" "s' = s1" by (simp_all add: seq_def bind_def)
    with 1 allow1 sub1 show ?thesis
      by (intro exI [of _ ms1] exI [of _ tr1]) (simp add: isOK_def)
  next
    case (Inr u)
    with run a have "block as s1 = (r, s')" by (simp add: seq_def bind_def)
    with t obtain ms2 tr2 where 2: "mMessages s' = mMessages s1 @ ms2"
        "list_all (rowsAllow rows (mSettings s1)) ms2"
        "emitted s' = emitted s1 @ tr2" "messageTextsOf tr2 = map (messageText K) ms2"
        "mProgressStatus s' = mProgressStatus s1 @ statusesOf tr2"
        "isOK r \<longrightarrow> statusesOf tr2 = rowsStatus rows (mSettings s1) \<and>
           percentsOf tr2 = map rowPercent (filter (\<lambda>row. rowEnabled row (mSettings s1)) rows)"
        "subseq (percentsOf tr2) (map rowPercent rows)"
        "Started \<notin> set tr2" "Finished \<notin> set tr2"
        "mSettings s' = mSettings s1" "mIgnorePlanes s' = mIgnorePlanes s1"
      unfolding rowsEffect_def by blast
    have ok1: "isOK r1" using Inr by (simp add: isOK_def)
    have allow2: "list_all (rowsAllow (row # rows) ?S) ms2"
      using 2(2) 1(10) by (simp add: list_all_iff rowsAllow_Cons)
    have sub: "subseq (percentsOf (tr1 @ tr2)) (map rowPercent (row # rows))"
      using 1(7) 2(7) by (auto split: if_splits)
    from 1 2 ok1 allow1 allow2 sub show ?thesis
      by (intro exI [of _ "ms1 @ ms2"] exI [of _ "tr1 @ tr2"])
         (simp add: rowsStatus_Cons)
  qed
qed

lemma rowsEffect_block:
  "list_all2 (rowCheck K) rows ms \<Longrightarrow> rowsEffect K rows (block ms)"
  by (induction rule: list_all2_induct) (simp_all only: rowsEffect_Nil rowsEffect_Cons)

lemma runChecks_rows: "list_all2 (rowCheck K) (runRows quick) (runChecks K quick)"
  by (cases quick)
    (simp_all only: runRows_def runChecks_def quickRows_def slowRows_def rebuildRow_def
      quickChecks_def slowChecks_def rowCheck_def rowEnabled_def rowStatus_def rowKinds_def
      rowPercent_def list_all2_Cons list_all2_Nil append.simps if_True if_False fst_conv
      snd_conv simp_thms
      checkMinimumCopperWidth_effect checkCopperCopperClearances_effect
      checkCopperBoardClearances_effect checkCopperHoleClearances_effect
      checkDrillDrillClearances_effect checkDrillBoardClearances_effect
      checkMinimumPthAnnularRing_effect checkMinimumNpthDrillDiameter_effect
      checkMinimumNpthSlotWidth_effect checkMinimumPthDrillDiameter_effect
      checkMinimumPthSlotWidth_effect checkAllowedNpthSlots_effect
      checkAllowedPthSlots_effect checkInvalidPadConnections_effect
      checkCourtyardClearances_effect checkBoardOutline_effect
      checkForUnplacedComponents_effect checkCircuitDefaultDevices_effect
      checkForMissingConnections_effect checkForStaleObjects_effect rebuildPlanes_effect)

lemma runChecks_effect: "rowsEffect K (runRows quick) (block (runChecks K quick))"
  by (rule rowsEffect_block [OF runChecks_rows])

section \<open>The run as a whole\<close>

lemma seq_ret_left: "seq (ret ()) b = b"
  by (simp add: seq_def bind_def ret_def)

lemma seq_assoc: "seq (seq a b) c = seq a (seq b c)"
  by (auto simp: seq_def bind_def fun_eq_iff split: prod.splits sum.splits)

lemma execute_seq:
  "execute K quick =
     seq (block [emitStarted, emitProgress 2, setIgnorePlanes quick, clearProgressStatus,
                 clearMessages])
       (seq (block (runChecks K quick))
          (block [withState (\<lambda>s. emitStatus (finishedStatus (length (mMessages s)))),
                  emitProgress 100, emitFinished]))"
  by (cases quick)
     (simp_all add: execute_def runChecks_def quickChecks_def slowChecks_def seq_assoc
        whenM_def seq_ret_left)

lemma runStart_eq:
  "block [emitStarted, emitProgress 2, setIgnorePlanes quick, clearProgressStatus, clearMessages] s
     = (Inr (), runStart quick s)"
  by (simp add: seq_def bind_def ret_def emitStarted_def emitProgress_def setIgnorePlanes_def
      clearProgressStatus_def clearMessages_def runStart_def)

lemma runEnd_eq:
  "block [withState (\<lambda>s. emitStatus (finishedStatus (length (mMessages s)))),
          emitProgress 100, emitFinished] s = (Inr (), runEnd s)"
  by (simp add: seq_def bind_def ret_def withState_def emitStatus_def emitProgress_def
      emitFinished_def runEnd_def)

lemma seq_Inr: "a s = (Inr (), s1) \<Longrightarrow> seq a b s = b s1"
  by (simp add: seq_def bind_def)

lemma seq_cases:
  "(\<And>s2. b s2 = (Inr (), g s2)) \<Longrightarrow>
   seq a b s = (case a s of (Inl e, s2) \<Rightarrow> (Inl e, s2) | (Inr u, s2) \<Rightarrow> (Inr (), g s2))"
  by (simp add: seq_def bind_def split: prod.splits sum.splits)

lemma execute_eq:
  "execute K quick s =
     (case block (runChecks K quick) (runStart quick s) of
        (Inl e, s2) \<Rightarrow> (Inl e, s2)
      | (Inr u, s2) \<Rightarrow> (Inr (), runEnd s2))"
  unfolding execute_seq
  by (simp only: seq_Inr [OF runStart_eq] seq_cases [of _ runEnd, OF runEnd_eq])

text \<open>Everything the claims about a run rest on.\<close>

lemma execute_run:
  assumes "execute K quick s = (r, s')"
  shows "\<exists>tr. emitted s' = emitted s @ [Started, ProgressPercent 2] @ tr @
                 (if isOK r
                  then [ProgressStatus (finishedStatus (length (mMessages s'))),
                        ProgressPercent 100, Finished]
                  else []) \<and>
              list_all (rowsAllow (runRows quick) (mSettings s)) (mMessages s') \<and>
              messageTextsOf tr = map (messageText K) (mMessages s') \<and>
              mProgressStatus s' = statusesOf tr @
                 (if isOK r then [finishedStatus (length (mMessages s'))] else []) \<and>
              (isOK r \<longrightarrow> statusesOf tr = rowsStatus (runRows quick) (mSettings s) \<and>
                 percentsOf tr =
                   map rowPercent (filter (\<lambda>row. rowEnabled row (mSettings s)) (runRows quick))) \<and>
              subseq (percentsOf tr) (map rowPercent (runRows quick)) \<and>
              Started \<notin> set tr \<and> Finished \<notin> set tr \<and>
              mSettings s' = mSettings s \<and> mIgnorePlanes s' = quick"
proof -
  obtain r2 s2 where m: "block (runChecks K quick) (runStart quick s) = (r2, s2)"
    by (cases "block (runChecks K quick) (runStart quick s)")
  with runChecks_effect [of K quick] obtain ms tr where
    2: "mMessages s2 = mMessages (runStart quick s) @ ms"
      "list_all (rowsAllow (runRows quick) (mSettings (runStart quick s))) ms"
      "emitted s2 = emitted (runStart quick s) @ tr"
      "messageTextsOf tr = map (messageText K) ms"
      "mProgressStatus s2 = mProgressStatus (runStart quick s) @ statusesOf tr"
      "isOK r2 \<longrightarrow> statusesOf tr = rowsStatus (runRows quick) (mSettings (runStart quick s)) \<and>
         percentsOf tr = map rowPercent
           (filter (\<lambda>row. rowEnabled row (mSettings (runStart quick s))) (runRows quick))"
      "subseq (percentsOf tr) (map rowPercent (runRows quick))"
      "Started \<notin> set tr" "Finished \<notin> set tr"
      "mSettings s2 = mSettings (runStart quick s)"
      "mIgnorePlanes s2 = mIgnorePlanes (runStart quick s)"
    unfolding rowsEffect_def by blast
  show ?thesis
  proof (cases r2)
    case (Inl e)
    with assms m have "r = Inl e" "s' = s2" by (simp_all add: execute_eq)
    with 2 show ?thesis
      by (intro exI [of _ tr]) (simp add: isOK_def runStart_def)
  next
    case (Inr u)
    with assms m have "r = Inr ()" "s' = runEnd s2" by (simp_all add: execute_eq)
    with 2 Inr show ?thesis
      by (intro exI [of _ tr]) (simp add: isOK_def runStart_def runEnd_def)
  qed
qed

section \<open>Loops that compute and emit messages\<close>

lemma appendMsgs_Nil [simp]: "appendMsgs K [] s = s"
  by (simp add: appendMsgs_def messageSignals_def)

lemma appendMsgs_append: "appendMsgs K (a @ b) s = appendMsgs K b (appendMsgs K a s)"
  by (simp add: appendMsgs_def messageSignals_def)

lemma emitMessage_eq: "emitMessage K m s = (Inr (), appendMsgs K [m] s)"
  by (simp add: emitMessage_def appendMsgs_def messageSignals_def)

lemma forEach_Cons_apply:
  "forEach (x # xs) F s =
     (case F x s of (Inl e, s') \<Rightarrow> (Inl e, s') | (Inr u, s') \<Rightarrow> forEach xs F s')"
  by (simp only: forEach.simps seq_def bind_def)

lemma emitAll_eq: "emitAll K ms s = (Inr (), appendMsgs K ms s)"
  unfolding emitAll_def
proof (induction ms arbitrary: s)
  case Nil
  show ?case by (simp add: ret_def)
next
  case (Cons m ms)
  have "forEach (m # ms) (emitMessage K) s = forEach ms (emitMessage K) (appendMsgs K [m] s)"
    by (simp only: forEach_Cons_apply emitMessage_eq prod.case sum.case)
  also have "\<dots> = (Inr (), appendMsgs K ms (appendMsgs K [m] s))"
    by (rule Cons.IH)
  finally show ?case
    using appendMsgs_append [of K "[m]" ms s] by simp
qed

lemma bind_lift_emitAll:
  "bind (lift r) (emitAll K) s =
     (case r of Inl e \<Rightarrow> (Inl e, s) | Inr ms \<Rightarrow> (Inr (), appendMsgs K ms s))"
  by (cases r) (simp_all add: bind_def lift_def emitAll_eq)

text \<open>Loops whose body computes some messages and emits them.\<close>

lemma forEach_emit:
  "forEach xs (\<lambda>x. bind (lift (g x)) (emitAll K)) s = (Inr (), s')
   \<Longrightarrow> \<exists>mss. mapE g xs = Inr mss \<and> s' = appendMsgs K (concat mss) s"
proof (induction xs arbitrary: s)
  case Nil
  then show ?case by (simp add: ret_def)
next
  case (Cons x xs)
  let ?F = "\<lambda>x. bind (lift (g x)) (emitAll K)"
  from Cons.prems have
    step: "(case ?F x s of (Inl e, s') \<Rightarrow> (Inl e, s') | (Inr u, s') \<Rightarrow> forEach xs ?F s')
             = (Inr (), s')"
    by (simp only: forEach_Cons_apply)
  show ?case
  proof (cases "g x")
    case (Inl e)
    with step show ?thesis by (simp add: bind_lift_emitAll)
  next
    case (Inr ms)
    with step have rest: "forEach xs ?F (appendMsgs K ms s) = (Inr (), s')"
      by (simp add: bind_lift_emitAll)
    from Cons.IH [OF rest] obtain mss where "mapE g xs = Inr mss"
      "s' = appendMsgs K (concat mss) (appendMsgs K ms s)" by blast
    with Inr show ?thesis
      by (intro exI [of _ "ms # mss"]) (simp add: bindE_def appendMsgs_append)
  qed
qed

lemma mapE_append:
  "mapE g xs = Inr as \<Longrightarrow> mapE g ys = Inr bs \<Longrightarrow> mapE g (xs @ ys) = Inr (as @ bs)"
  by (induction xs arbitrary: as) (auto simp: bindE_def split: sum.splits)

lemma mapE_map: "mapE g (map f xs) = mapE (\<lambda>x. g (f x)) xs"
  by (induction xs) simp_all

lemma forEachPair_emit:
  "forEachPair xs (\<lambda>a b. bind (lift (g (a, b))) (emitAll K)) s = (Inr (), s')
   \<Longrightarrow> \<exists>mss. mapE g (pairsOf xs) = Inr mss \<and> s' = appendMsgs K (concat mss) s"
proof (induction xs arbitrary: s)
  case Nil
  then show ?case by (simp add: ret_def)
next
  case (Cons x xs)
  let ?F = "\<lambda>a b. bind (lift (g (a, b))) (emitAll K)"
  from Cons.prems have
    "(case forEach xs (?F x) s of (Inl e, s1) \<Rightarrow> (Inl e, s1)
      | (Inr u, s1) \<Rightarrow> forEachPair xs ?F s1) = (Inr (), s')"
    by (simp only: forEachPair.simps seq_def bind_def)
  then obtain s1 where
    1: "forEach xs (\<lambda>b. bind (lift (g (x, b))) (emitAll K)) s = (Inr (), s1)"
    and 2: "forEachPair xs (\<lambda>a b. bind (lift (g (a, b))) (emitAll K)) s1 = (Inr (), s')"
    by (cases "forEach xs (?F x) s") (auto split: sum.splits)
  from forEach_emit [OF 1] obtain as where a: "mapE (\<lambda>b. g (x, b)) xs = Inr as"
    "s1 = appendMsgs K (concat as) s" by blast
  from Cons.IH [OF 2] obtain bs where b: "mapE g (pairsOf xs) = Inr bs"
    "s' = appendMsgs K (concat bs) s1" by blast
  from a(1) have "mapE g (map (Pair x) xs) = Inr as" by (simp add: mapE_map)
  from mapE_append [OF this b(1)] a(2) b(2) show ?case
    by (intro exI [of _ "as @ bs"]) (simp add: appendMsgs_append)
qed

lemma mapE_results:
  "mapE g xs = Inr mss
   \<Longrightarrow> concat mss = concat (map (\<lambda>x. resultMsgs (g x)) xs) \<and> list_all (\<lambda>x. isOK (g x)) xs"
  by (induction xs arbitrary: mss)
     (auto simp: bindE_def resultMsgs_def isOK_def split: sum.splits)

lemma checkCopperPair_eq:
  "checkCopperPair K c it1 it2 = bind (lift (copperPairMsgs K c (it1, it2))) (emitAll K)"
  by (cases "clipIntersect K (itemAreas it1) (itemAreas it2)")
     (auto simp: checkCopperPair_def copperPairMsgs_def netsDiffer_def layersShared_def
        whenM_def bind_def lift_def ret_def bindE_def emitAll_eq emitMessage_eq fun_eq_iff Let_def)

lemma checkDrillPair_eq:
  "checkDrillPair K c it1 it2 = bind (lift (drillPairMsgs K c (it1, it2))) (emitAll K)"
  by (cases "clipIntersect K (drillAreas it1) (drillAreas it2)")
     (auto simp: checkDrillPair_def drillPairMsgs_def
        whenM_def bind_def lift_def ret_def bindE_def emitAll_eq emitMessage_eq fun_eq_iff Let_def
        split: option.splits)

section \<open>Lengths that do not wrap around\<close>

lemma wrap64_id: "isLength x \<Longrightarrow> wrap64 x = x"
  by (simp add: wrap64_def isLength_def)

lemma mod_shift_down: "(m::int) \<le> y \<Longrightarrow> y < 2 * m \<Longrightarrow> y mod m = y - m"
proof -
  assume a: "m \<le> y" "y < 2 * m"
  have "(y - m) mod m = y mod m" by (rule minus_mod_self2)
  moreover have "(y - m) mod m = y - m" using a by (intro mod_pos_pos_trivial) simp_all
  ultimately show ?thesis by simp
qed

lemma mod_shift_up: "- (m::int) \<le> y \<Longrightarrow> y < 0 \<Longrightarrow> y mod m = y + m"
proof -
  assume a: "- m \<le> y" "y < 0"
  have "(y + m) mod m = y mod m" by (rule mod_add_self2)
  moreover have "(y + m) mod m = y + m" using a by (intro mod_pos_pos_trivial) simp_all
  ultimately show ?thesis by simp
qed

lemma wrap64_high: "2 ^ 63 \<le> x \<Longrightarrow> x < 2 ^ 64 \<Longrightarrow> wrap64 x = x - 2 ^ 64"
  using mod_shift_down [of "2 ^ 64" "x + 2 ^ 63"] by (simp add: wrap64_def)

lemma wrap64_low: "- (2 ^ 64) \<le> x \<Longrightarrow> x < - (2 ^ 63) \<Longrightarrow> wrap64 x = x + 2 ^ 64"
  using mod_shift_up [of "2 ^ 64" "x + 2 ^ 63"] by (simp add: wrap64_def)

lemma copperCopperOffset_eq:
  assumes "isUnsignedLength c"
  shows "copperCopperOffset c = max (((c - maxArcTolerance) sdiv 2) - 1) 0"
proof -
  have 1: "lenSub c maxArcTolerance = c - maxArcTolerance"
    using assms by (simp add: lenSub_def wrap64_id isLength_def isUnsignedLength_def maxArcTolerance_def)
  have b: "- (2 ^ 62) \<le> (c - maxArcTolerance) sdiv 2 \<and> (c - maxArcTolerance) sdiv 2 < 2 ^ 62"
    using assms
    by (auto simp: isUnsignedLength_def maxArcTolerance_def signed_divide_int_def sgn_if)
  then have 2: "lenDiv (c - maxArcTolerance) 2 = (c - maxArcTolerance) sdiv 2"
    by (simp add: lenDiv_def wrap64_id isLength_def)
  from b have 3: "lenSub ((c - maxArcTolerance) sdiv 2) 1 = (c - maxArcTolerance) sdiv 2 - 1"
    by (simp add: lenSub_def wrap64_id isLength_def)
  show ?thesis by (simp add: copperCopperOffset_def 1 2 3)
qed

section \<open>The drills of a board and their expansion\<close>

lemma drillExpansion_eq:
  assumes "isUnsignedLength c"
  shows "drillExpansion c = max 0 (c - maxArcTolerance - 1)"
  using assms
  by (simp add: drillExpansion_def lenSub_def wrap64_id isLength_def isUnsignedLength_def
      maxArcTolerance_def max.commute)

lemma posAdd_exact:
  assumes "isPositiveLength d" "isUnsignedLength e" "posAdd d e = Inr x"
  shows "x = d + e"
proof (cases "d + e < 2 ^ 63")
  case True
  with assms show ?thesis
    by (auto simp: posAdd_def mkPositiveLength_def lenAdd_def wrap64_id isLength_def
        isPositiveLength_def isUnsignedLength_def split: if_splits)
next
  case False
  with assms(1,2) have "wrap64 (d + e) = d + e - 2 ^ 64"
    by (intro wrap64_high) (simp_all add: isPositiveLength_def isUnsignedLength_def)
  with assms False show ?thesis
    by (auto simp: posAdd_def mkPositiveLength_def lenAdd_def
        isPositiveLength_def isUnsignedLength_def split: if_splits)
qed

lemma drillItem_exact:
  assumes "isUnsignedLength c" "isPositiveLength d"
    and "drillItem K (drillExpansion c) obj h path d = Inr it"
  shows "it = expandedDrill K c obj h path d"
proof -
  have e: "isUnsignedLength (drillExpansion c)"
    using assms(1) unfolding drillExpansion_eq [OF assms(1)]
    by (auto simp: isUnsignedLength_def maxArcTolerance_def)
  from assms(3) obtain x where x: "posAdd d (drillExpansion c) = Inr x"
    and it: "it = \<lparr>drillObj = obj, drillHole = Some h,
            drillAreas = convertPaths K (toOutlineStrokes K path x) maxArcTolerance\<rparr>"
    by (auto simp: drillItem_def bindE_def split: sum.splits)
  from posAdd_exact [OF assms(2) e x] it show ?thesis
    by (simp add: expandedDrill_def drillExpansion_eq [OF assms(1)])
qed

lemma mapE_exact:
  "mapE f xs = Inr ys \<Longrightarrow> (\<And>x y. x \<in> set xs \<Longrightarrow> f x = Inr y \<Longrightarrow> y = f' x)
   \<Longrightarrow> ys = map f' xs"
  by (induction xs arbitrary: ys) (auto simp: bindE_def split: sum.splits)

lemma concatE_exact:
  "concatE f xs = Inr ys \<Longrightarrow> (\<And>x y. x \<in> set xs \<Longrightarrow> f x = Inr y \<Longrightarrow> y = f' x)
   \<Longrightarrow> ys = concat (map f' xs)"
  unfolding concatE_def
  by (auto simp: bindE_def split: sum.splits dest!: mapE_exact [where f' = f'])

lemma drillItems_exact:
  assumes c: "isUnsignedLength c" and v: "drillsValid board"
    and it: "drillItems K board (drillExpansion c) = Inr items"
  shows "items = expandedDrills K board c"
proof -
  let ?e = "drillExpansion c"
  let ?viaF = "\<lambda>netSegment.
              mapE (\<lambda>via. drillItem K ?e (ArgVia (viaUuid via)) (viaUuid via)
                             (makeNonEmptyPath (viaPosition via)) (viaDrillDiameter via))
                (netSegmentVias netSegment)"
  let ?holeF = "\<lambda>hole. drillItem K ?e (ArgBoardHole (holeUuid hole))
                            (holeUuid hole) (holePath hole) (holeDiameter hole)"
  let ?devF = "\<lambda>device.
              bindE (concatE (\<lambda>pad.
                       mapE (\<lambda>hole. drillItem K ?e (ArgPad (padUuid pad))
                                      (holeUuid hole)
                                      (mapPath K (deviceTransform device)
                                         (mapPath K (libPadTransform pad) (holePath hole)))
                                      (holeDiameter hole))
                         (padHoles pad))
                     (devicePads device)) (\<lambda>padHoles.
              bindE (mapE (\<lambda>hole. drillItem K ?e
                                     (ArgDevice (componentUuid (deviceComponent device)))
                                     (holeUuid hole)
                                     (mapPath K (deviceTransform device) (holePath hole))
                                     (holeDiameter hole))
                     (footprintHoles (deviceLibFootprint device))) (\<lambda>holes.
              Inr (padHoles @ holes)))"
  from it obtain vias holes devices where
    1: "concatE ?viaF (getNetSegments board) = Inr vias"
    and 2: "mapE ?holeF (getHoles board) = Inr holes"
    and 3: "concatE ?devF (getDeviceInstances board) = Inr devices"
    and items: "items = vias @ holes @ devices"
    by (auto simp: drillItems_def bindE_def split: sum.splits)
  have a: "vias = concat (map (\<lambda>netSegment.
        map (\<lambda>via. expandedDrill K c (ArgVia (viaUuid via)) (viaUuid via)
                      (makeNonEmptyPath (viaPosition via)) (viaDrillDiameter via))
          (netSegmentVias netSegment)) (getNetSegments board))"
  proof (rule concatE_exact [OF 1])
    fix seg y assume seg: "seg \<in> set (getNetSegments board)" and y: "?viaF seg = Inr y"
    show "y = map (\<lambda>via. expandedDrill K c (ArgVia (viaUuid via)) (viaUuid via)
                      (makeNonEmptyPath (viaPosition via)) (viaDrillDiameter via))
                (netSegmentVias seg)"
    proof (rule mapE_exact [OF y])
      fix via z assume "via \<in> set (netSegmentVias seg)"
        and z: "drillItem K ?e (ArgVia (viaUuid via)) (viaUuid via)
                  (makeNonEmptyPath (viaPosition via)) (viaDrillDiameter via) = Inr z"
      with v seg have "isPositiveLength (viaDrillDiameter via)"
        by (auto simp: drillsValid_def list_all_iff)
      from drillItem_exact [OF c this z]
      show "z = expandedDrill K c (ArgVia (viaUuid via)) (viaUuid via)
                  (makeNonEmptyPath (viaPosition via)) (viaDrillDiameter via)" .
    qed
  qed
  have b: "holes = map (\<lambda>hole. expandedDrill K c (ArgBoardHole (holeUuid hole)) (holeUuid hole)
                    (holePath hole) (holeDiameter hole)) (getHoles board)"
  proof (rule mapE_exact [OF 2])
    fix hole z assume "hole \<in> set (getHoles board)" and z: "?holeF hole = Inr z"
    with v have "isPositiveLength (holeDiameter hole)"
      by (auto simp: drillsValid_def list_all_iff)
    from drillItem_exact [OF c this z]
    show "z = expandedDrill K c (ArgBoardHole (holeUuid hole)) (holeUuid hole)
                    (holePath hole) (holeDiameter hole)" .
  qed
  have d: "devices = concat (map (\<lambda>device.
        concat (map (\<lambda>pad.
           map (\<lambda>hole. expandedDrill K c (ArgPad (padUuid pad)) (holeUuid hole)
                          (mapPath K (deviceTransform device)
                             (mapPath K (libPadTransform pad) (holePath hole)))
                          (holeDiameter hole))
             (padHoles pad))
          (devicePads device)) @
        map (\<lambda>hole. expandedDrill K c
                       (ArgDevice (componentUuid (deviceComponent device))) (holeUuid hole)
                       (mapPath K (deviceTransform device) (holePath hole))
                       (holeDiameter hole))
          (footprintHoles (deviceLibFootprint device)))
       (getDeviceInstances board))"
  proof (rule concatE_exact [OF 3])
    fix device y assume dev: "device \<in> set (getDeviceInstances board)" and y: "?devF device = Inr y"
    from y obtain ph hs where
      ph: "concatE (\<lambda>pad.
                       mapE (\<lambda>hole. drillItem K ?e (ArgPad (padUuid pad))
                                      (holeUuid hole)
                                      (mapPath K (deviceTransform device)
                                         (mapPath K (libPadTransform pad) (holePath hole)))
                                      (holeDiameter hole))
                         (padHoles pad))
                     (devicePads device) = Inr ph"
      and hs: "mapE (\<lambda>hole. drillItem K ?e
                                     (ArgDevice (componentUuid (deviceComponent device)))
                                     (holeUuid hole)
                                     (mapPath K (deviceTransform device) (holePath hole))
                                     (holeDiameter hole))
                     (footprintHoles (deviceLibFootprint device)) = Inr hs"
      and yy: "y = ph @ hs"
      by (auto simp: bindE_def split: sum.splits)
    have 1: "ph = concat (map (\<lambda>pad.
           map (\<lambda>hole. expandedDrill K c (ArgPad (padUuid pad)) (holeUuid hole)
                          (mapPath K (deviceTransform device)
                             (mapPath K (libPadTransform pad) (holePath hole)))
                          (holeDiameter hole))
             (padHoles pad))
          (devicePads device))"
    proof (rule concatE_exact [OF ph])
      fix pad w assume pad: "pad \<in> set (devicePads device)"
        and w: "mapE (\<lambda>hole. drillItem K ?e (ArgPad (padUuid pad))
                                      (holeUuid hole)
                                      (mapPath K (deviceTransform device)
                                         (mapPath K (libPadTransform pad) (holePath hole)))
                                      (holeDiameter hole))
                         (padHoles pad) = Inr w"
      show "w = map (\<lambda>hole. expandedDrill K c (ArgPad (padUuid pad)) (holeUuid hole)
                          (mapPath K (deviceTransform device)
                             (mapPath K (libPadTransform pad) (holePath hole)))
                          (holeDiameter hole))
             (padHoles pad)"
      proof (rule mapE_exact [OF w])
        fix hole z assume "hole \<in> set (padHoles pad)"
          and z: "drillItem K ?e (ArgPad (padUuid pad)) (holeUuid hole)
                    (mapPath K (deviceTransform device)
                       (mapPath K (libPadTransform pad) (holePath hole)))
                    (holeDiameter hole) = Inr z"
        with v dev pad have "isPositiveLength (holeDiameter hole)"
          by (auto simp: drillsValid_def list_all_iff)
        from drillItem_exact [OF c this z]
        show "z = expandedDrill K c (ArgPad (padUuid pad)) (holeUuid hole)
                    (mapPath K (deviceTransform device)
                       (mapPath K (libPadTransform pad) (holePath hole)))
                    (holeDiameter hole)" .
      qed
    qed
    have 2: "hs = map (\<lambda>hole. expandedDrill K c
                       (ArgDevice (componentUuid (deviceComponent device))) (holeUuid hole)
                       (mapPath K (deviceTransform device) (holePath hole))
                       (holeDiameter hole))
          (footprintHoles (deviceLibFootprint device))"
    proof (rule mapE_exact [OF hs])
      fix hole z assume "hole \<in> set (footprintHoles (deviceLibFootprint device))"
        and z: "drillItem K ?e (ArgDevice (componentUuid (deviceComponent device)))
                  (holeUuid hole) (mapPath K (deviceTransform device) (holePath hole))
                  (holeDiameter hole) = Inr z"
      with v dev have "isPositiveLength (holeDiameter hole)"
        by (auto simp: drillsValid_def list_all_iff)
      from drillItem_exact [OF c this z]
      show "z = expandedDrill K c (ArgDevice (componentUuid (deviceComponent device)))
                  (holeUuid hole) (mapPath K (deviceTransform device) (holePath hole))
                  (holeDiameter hole)" .
    qed
    from yy 1 2 show "y = concat (map (\<lambda>pad.
           map (\<lambda>hole. expandedDrill K c (ArgPad (padUuid pad)) (holeUuid hole)
                          (mapPath K (deviceTransform device)
                             (mapPath K (libPadTransform pad) (holePath hole)))
                          (holeDiameter hole))
             (padHoles pad))
          (devicePads device)) @
        map (\<lambda>hole. expandedDrill K c
                       (ArgDevice (componentUuid (deviceComponent device))) (holeUuid hole)
                       (mapPath K (deviceTransform device) (holePath hole))
                       (holeDiameter hole))
          (footprintHoles (deviceLibFootprint device))" by simp
  qed
  from items a b d show ?thesis by (simp only: expandedDrills_def)
qed

section \<open>Facts about the table of the run\<close>

lemma subseq_set_mono: "subseq xs ys \<Longrightarrow> set xs \<subseteq> set ys"
  by (induction rule: list_emb.induct) auto

lemma sorted_subseq:
  "subseq xs ys \<Longrightarrow> sorted ys \<Longrightarrow> sorted (xs :: int list)"
proof (induction rule: list_emb.induct)
  case (list_emb_Nil ys)
  show ?case by simp
next
  case (list_emb_Cons xs ys y)
  then show ?case by simp
next
  case (list_emb_Cons2 x y xs ys)
  from list_emb_Cons2(2) have "set xs \<subseteq> set ys" by (rule subseq_set_mono)
  with list_emb_Cons2 show ?case by auto
qed

lemma runRows_sorted: "sorted (map rowPercent (runRows quick))"
  by (simp add: runRows_def quickRows_def slowRows_def rebuildRow_def rowPercent_def)

lemma runRows_range:
  "x \<in> set (map rowPercent (runRows quick)) \<Longrightarrow> 12 \<le> x \<and> x \<le> 97"
  by (auto simp: runRows_def quickRows_def slowRows_def rebuildRow_def rowPercent_def
      split: if_splits)

lemma subseq_range:
  assumes "subseq xs (map rowPercent (runRows quick))" "x \<in> set xs"
  shows "12 \<le> x \<and> x \<le> 97"
  using assms runRows_range [of x quick] subseq_set_mono [OF assms(1)] by blast

lemma percentsOf_notin:
  "ProgressPercent x \<in> set tr \<Longrightarrow> x \<in> set (percentsOf tr)"
  by (induction tr rule: percentsOf.induct) auto

lemma rowsAllow_clearance:
  "clearancesZero S \<Longrightarrow> rowsAllow (runRows quick) S m \<Longrightarrow> msgKind m \<notin> clearanceKinds"
  by (auto simp: clearancesZero_def rowsAllow_def runRows_def quickRows_def slowRows_def
      rebuildRow_def rowEnabled_def rowKinds_def clearanceKinds_def split: if_splits)

named_theorems rebuild_free

lemma emitMessage_rebuild_free [rebuild_free]:
  "emitMessage (K\<lparr>rebuildAllPlanes := f\<rparr>) = emitMessage K"
  by (intro ext) (simp add: emitMessage_def rebuild_free Let_def cong: if_cong)

lemma textLocations_rebuild_free [rebuild_free]:
  "textLocations (K\<lparr>rebuildAllPlanes := f\<rparr>) = textLocations K"
  by (intro ext) (simp add: textLocations_def rebuild_free Let_def cong: if_cong)

lemma netSegmentItems_rebuild_free [rebuild_free]:
  "netSegmentItems (K\<lparr>rebuildAllPlanes := f\<rparr>) = netSegmentItems K"
  by (intro ext) (simp add: netSegmentItems_def rebuild_free Let_def cong: if_cong)

lemma planeItems_rebuild_free [rebuild_free]:
  "planeItems (K\<lparr>rebuildAllPlanes := f\<rparr>) = planeItems K"
  by (intro ext) (simp add: planeItems_def rebuild_free Let_def cong: if_cong)

lemma boardPolygonItems_rebuild_free [rebuild_free]:
  "boardPolygonItems (K\<lparr>rebuildAllPlanes := f\<rparr>) = boardPolygonItems K"
  by (intro ext) (simp add: boardPolygonItems_def rebuild_free Let_def cong: if_cong)

lemma strokeTextItems_rebuild_free [rebuild_free]:
  "strokeTextItems (K\<lparr>rebuildAllPlanes := f\<rparr>) = strokeTextItems K"
  by (intro ext) (simp add: strokeTextItems_def rebuild_free Let_def cong: if_cong)

lemma deviceItems_rebuild_free [rebuild_free]:
  "deviceItems (K\<lparr>rebuildAllPlanes := f\<rparr>) = deviceItems K"
  by (intro ext) (simp add: deviceItems_def rebuild_free Let_def cong: if_cong)

lemma copperItems_rebuild_free [rebuild_free]:
  "copperItems (K\<lparr>rebuildAllPlanes := f\<rparr>) = copperItems K"
  by (intro ext) (simp add: copperItems_def rebuild_free Let_def cong: if_cong)

lemma copperCopperMsg_rebuild_free [rebuild_free]:
  "copperCopperMsg (K\<lparr>rebuildAllPlanes := f\<rparr>) = copperCopperMsg K"
  by (intro ext) (simp add: copperCopperMsg_def rebuild_free Let_def cong: if_cong)

lemma checkCopperPair_rebuild_free [rebuild_free]:
  "checkCopperPair (K\<lparr>rebuildAllPlanes := f\<rparr>) = checkCopperPair K"
  by (intro ext) (simp add: checkCopperPair_def rebuild_free Let_def cong: if_cong)

lemma getBoardClearanceArea_rebuild_free [rebuild_free]:
  "getBoardClearanceArea (K\<lparr>rebuildAllPlanes := f\<rparr>) = getBoardClearanceArea K"
  by (intro ext) (simp add: getBoardClearanceArea_def rebuild_free Let_def cong: if_cong)

lemma reportIntersection_rebuild_free [rebuild_free]:
  "reportIntersection (K\<lparr>rebuildAllPlanes := f\<rparr>) = reportIntersection K"
  by (intro ext) (simp add: reportIntersection_def rebuild_free Let_def cong: if_cong)

lemma getCopperPaths_rebuild_free [rebuild_free]:
  "getCopperPaths (K\<lparr>rebuildAllPlanes := f\<rparr>) = getCopperPaths K"
  by (intro ext) (simp add: getCopperPaths_def cong: option.case_cong)

lemma checkMinimumCopperWidth_rebuild_free [rebuild_free]:
  "checkMinimumCopperWidth (K\<lparr>rebuildAllPlanes := f\<rparr>) = checkMinimumCopperWidth K"
  by (intro ext) (simp add: checkMinimumCopperWidth_def rebuild_free Let_def cong: if_cong)

lemma checkCopperCopperClearances_rebuild_free [rebuild_free]:
  "checkCopperCopperClearances (K\<lparr>rebuildAllPlanes := f\<rparr>) = checkCopperCopperClearances K"
  by (intro ext) (simp add: checkCopperCopperClearances_def rebuild_free Let_def cong: if_cong)

lemma checkCopperBoardClearances_rebuild_free [rebuild_free]:
  "checkCopperBoardClearances (K\<lparr>rebuildAllPlanes := f\<rparr>) = checkCopperBoardClearances K"
  by (intro ext) (simp add: checkCopperBoardClearances_def rebuild_free Let_def cong: if_cong)

lemma checkCopperHoleClearances_rebuild_free [rebuild_free]:
  "checkCopperHoleClearances (K\<lparr>rebuildAllPlanes := f\<rparr>) = checkCopperHoleClearances K"
  by (intro ext) (simp add: checkCopperHoleClearances_def rebuild_free Let_def cong: if_cong)

lemma execute_quick:
  "execute K True =
     block [emitStarted, emitProgress 2, setIgnorePlanes True, clearProgressStatus,
            clearMessages,
            checkMinimumCopperWidth K 14, checkCopperCopperClearances K 24,
            checkCopperBoardClearances K 34, checkCopperHoleClearances K 44,
            withState (\<lambda>s. emitStatus (finishedStatus (length (mMessages s)))),
            emitProgress 100, emitFinished]"
  by (simp add: execute_def whenM_def seq_ret_left)

lemma rowsAllow_quick: "rowsAllow (runRows True) S m \<Longrightarrow> msgKind m \<in> quickKinds"
  by (auto simp: rowsAllow_def runRows_def quickRows_def rowEnabled_def rowKinds_def
      quickKinds_def)

lemma mapE_all:
  assumes "mapE f xs = Inr ys" and "\<And>x y. x \<in> set xs \<Longrightarrow> f x = Inr y \<Longrightarrow> Q y"
  shows "list_all Q ys"
  using assms
proof (induction xs arbitrary: ys)
  case Nil
  then show ?case by simp
next
  case (Cons a xs)
  from Cons.prems(1) obtain y ys' where 1: "f a = Inr y" and 2: "mapE f xs = Inr ys'"
    and 3: "ys = y # ys'"
    by (auto simp: bindE_def split: sum.splits)
  have "list_all Q ys'"
  proof (rule Cons.IH [OF 2])
    fix x y assume "x \<in> set xs" "f x = Inr y"
    then show "Q y" using Cons.prems(2) [of x y] by simp
  qed
  moreover have "Q y"
    by (rule Cons.prems(2) [of a]) (simp_all add: 1)
  ultimately show ?case by (simp add: 3)
qed

lemma concatE_all:
  "concatE f xs = Inr ys \<Longrightarrow> (\<And>x y. x \<in> set xs \<Longrightarrow> f x = Inr y \<Longrightarrow> list_all Q y)
   \<Longrightarrow> list_all Q ys"
proof -
  assume c: "concatE f xs = Inr ys" and q: "\<And>x y. x \<in> set xs \<Longrightarrow> f x = Inr y \<Longrightarrow> list_all Q y"
  from c obtain yss where m: "mapE f xs = Inr yss" and y: "ys = concat yss"
    by (auto simp: concatE_def bindE_def split: sum.splits)
  from mapE_all [OF m, of "list_all Q"] q have "list_all (list_all Q) yss" by blast
  with y show ?thesis by (auto simp: list_all_iff)
qed

lemma netSegmentItems_noPlane:
  "netSegmentItems K board off seg = Inr items \<Longrightarrow> list_all notPlane items"
  unfolding netSegmentItems_def
  by (auto simp: bindE_def mkItem_def notPlane_def split: sum.splits if_splits
      elim!: mapE_all concatE_all)

lemma boardPolygonItems_noPlane:
  "boardPolygonItems K board off = Inr items \<Longrightarrow> list_all notPlane items"
  unfolding boardPolygonItems_def
  by (auto simp: bindE_def mkItem_def notPlane_def split: sum.splits if_splits
      elim!: mapE_all concatE_all)

lemma strokeTextItems_noPlane:
  "strokeTextItems K board off texts = Inr items \<Longrightarrow> list_all notPlane items"
  unfolding strokeTextItems_def
  by (auto simp: bindE_def mkItem_def notPlane_def split: sum.splits if_splits
      elim!: mapE_all concatE_all)

lemma deviceItems_noPlane:
  "deviceItems K board off device = Inr items \<Longrightarrow> list_all notPlane items"
  unfolding deviceItems_def Let_def
  by (auto simp: bindE_def mkItem_def notPlane_def split: sum.splits if_splits
      elim!: mapE_all concatE_all dest!: strokeTextItems_noPlane)

lemma copperItems_noPlane:
  "copperItems K board True off = Inr items \<Longrightarrow> list_all notPlane items"
  unfolding copperItems_def
  by (auto simp: bindE_def split: sum.splits
      dest!: strokeTextItems_noPlane boardPolygonItems_noPlane
      elim!: concatE_all dest: netSegmentItems_noPlane deviceItems_noPlane)

section \<open>Concrete runs\<close>

lemma exampleRun_ok: "fst (execute lineKernel False exampleState) = Inr ()"
  by code_simp

lemma exampleRun_eq:
  "execute lineKernel False exampleState = (Inr (), snd (execute lineKernel False exampleState))"
  using exampleRun_ok by (simp add: prod_eq_iff)

lemma exampleRun_kinds:
  "map msgKind (mMessages (snd (execute lineKernel False exampleState))) =
     [CopperCopperClearanceViolation, DrillDrillClearanceViolation, MissingBoardOutline]"
  by code_simp

lemma exampleRun_percents:
  "percentsOf (emittedSince exampleState (snd (execute lineKernel False exampleState))) =
     [2, 12, 24, 49, 78, 88, 91, 92, 93, 95, 97, 100]"
  by code_simp

lemma exampleRun_status:
  "mProgressStatus (snd (execute lineKernel False exampleState)) =
     [''Rebuild planes...'', ''Check copper clearances...'', ''Check drill clearances...'',
      ''Check pad connections...'', ''Check courtyard clearances...'',
      ''Check board outline...'', ''Check for unplaced components...'',
      ''Check configured default devices...'', ''Check for missing connections...'',
      ''Check for stale objects...'', ''Finished with 3 message(s)!'']"
  by code_simp

lemma quickRun_ok: "fst (execute lineKernel True exampleState) = Inr ()"
  by code_simp

lemma quickRun_eq:
  "execute lineKernel True exampleState = (Inr (), snd (execute lineKernel True exampleState))"
  using quickRun_ok by (simp add: prod_eq_iff)

lemma quickRun_kinds:
  "map msgKind (mMessages (snd (execute lineKernel True exampleState))) =
     [CopperCopperClearanceViolation]"
  by code_simp

lemma failingRun_result:
  "fst (execute failingKernel False exampleState) = Inl (LogicError ''Clipper error'')"
  by code_simp

lemma failingRun_eq:
  "execute failingKernel False exampleState =
     (Inl (LogicError ''Clipper error''), snd (execute failingKernel False exampleState))"
  using failingRun_result by (simp add: prod_eq_iff)

lemma failingRun_signals:
  "emittedSince exampleState (snd (execute failingKernel False exampleState)) =
     [Started, ProgressPercent 2, ProgressStatus ''Rebuild planes...'', ProgressPercent 12,
      ProgressStatus ''Check copper clearances...'']"
  by code_simp

lemma quietRun_kinds:
  "map msgKind (mMessages (snd (execute lineKernel False quietState))) = [MissingBoardOutline]"
  by code_simp

section \<open>The copper objects of the clearance check\<close>

text \<open>
  The items the check collects are the copper objects of the board, each with
  its inflated area.
\<close>

lemma mapE_app:
  "mapE g (xs @ ys) = bindE (mapE g xs) (\<lambda>as. bindE (mapE g ys) (\<lambda>bs. Inr (as @ bs)))"
  by (induction xs) (auto simp: bindE_def split: sum.splits)

lemma concatE_mapE:
  "(\<And>x. x \<in> set xs \<Longrightarrow> f x = mapE g (h x)) \<Longrightarrow> concatE f xs = mapE g (concat (map h xs))"
proof (induction xs)
  case Nil
  show ?case by (simp add: concatE_def bindE_def)
next
  case (Cons x xs)
  then have "concatE f xs = mapE g (concat (map h xs))" and "f x = mapE g (h x)" by simp_all
  then show ?case
    by (auto simp: concatE_def mapE_app bindE_def split: sum.splits)
qed

lemma concatE_filter:
  "(\<And>x. x \<in> set xs \<Longrightarrow> f x = (if p x then bindE (g x) (\<lambda>y. Inr [y]) else Inr []))
   \<Longrightarrow> concatE f xs = mapE g (filter p xs)"
proof (induction xs)
  case Nil
  show ?case by (simp add: concatE_def bindE_def)
next
  case (Cons x xs)
  then have "concatE f xs = mapE g (filter p xs)"
    and "f x = (if p x then bindE (g x) (\<lambda>y. Inr [y]) else Inr [])" by simp_all
  then show ?case
    by (auto simp: concatE_def bindE_def split: sum.splits)
qed

lemma netSegmentItems_objects:
  "netSegmentItems K board offset seg =
     mapE (itemOf K board offset)
       (map (CopperVia seg) (netSegmentVias seg) @
        map (CopperNetLine seg)
          (filter (\<lambda>netLine. onCopper board (netLineLayer netLine)) (netSegmentNetLines seg)))"
proof -
  have 1: "mapE (\<lambda>via. bindE (addVia K board via offset) (\<lambda>paths.
              Inr (mkItem (ArgVia (viaUuid via)) None None None (netSegmentNetSignal seg) paths)))
            (netSegmentVias seg)
          = mapE (itemOf K board offset) (map (CopperVia seg) (netSegmentVias seg))"
    by (simp add: mapE_map itemOf_def copperItem_def mkItem_def)
  have 2: "concatE (\<lambda>netLine.
              if netLineLayer netLine \<in> set (getCopperLayers board)
              then bindE (addNetLine K board netLine offset) (\<lambda>paths.
                Inr [mkItem (ArgNetLine (netLineUuid netLine)) None None
                       (Some (netLineLayer netLine)) (netSegmentNetSignal seg) paths])
              else Inr [])
            (netSegmentNetLines seg)
          = mapE (itemOf K board offset) (map (CopperNetLine seg)
              (filter (\<lambda>netLine. onCopper board (netLineLayer netLine)) (netSegmentNetLines seg)))"
    unfolding mapE_map
    by (rule concatE_filter)
       (auto simp: itemOf_def copperItem_def mkItem_def onCopper_def bindE_def split: sum.splits)
  show ?thesis
    unfolding netSegmentItems_def 1 2 by (simp only: mapE_app)
qed

lemma planeItems_objects:
  "planeItems K board offset =
     mapE (itemOf K board offset)
       (map CopperPlane (filter (\<lambda>plane. onCopper board (planeLayer plane)) (getPlanes board)))"
  unfolding planeItems_def mapE_map
  by (rule concatE_filter)
     (auto simp: itemOf_def copperItem_def mkItem_def onCopper_def bindE_def inflate_def
        split: sum.splits)

lemma boardPolygonItems_objects:
  "boardPolygonItems K board offset =
     mapE (itemOf K board offset)
       (map CopperBoardPolygon
          (filter (\<lambda>polygon. onCopper board (polygonLayer polygon)) (getPolygons board)))"
  unfolding boardPolygonItems_def mapE_map
  by (rule concatE_filter)
     (auto simp: itemOf_def copperItem_def mkItem_def onCopper_def bindE_def inflate_def
        split: sum.splits)

lemma strokeTextItems_board:
  "strokeTextItems K board offset texts =
     mapE (itemOf K board offset)
       (map CopperBoardStrokeText (filter (\<lambda>text. onCopper board (textLayer text)) texts))"
  unfolding strokeTextItems_def mapE_map
  by (rule concatE_filter)
     (auto simp: itemOf_def copperItem_def mkItem_def onCopper_def bindE_def split: sum.splits)

lemma strokeTextItems_device:
  "strokeTextItems K board offset texts =
     mapE (itemOf K board offset)
       (map (CopperDeviceStrokeText device)
          (filter (\<lambda>text. onCopper board (textLayer text)) texts))"
  unfolding strokeTextItems_def mapE_map
  by (rule concatE_filter)
     (auto simp: itemOf_def copperItem_def mkItem_def onCopper_def bindE_def split: sum.splits)

lemma deviceItems_objects:
  "deviceItems K board offset device =
     mapE (itemOf K board offset) (deviceCopperObjects board device)"
proof -
  have pad: "concatE (\<lambda>layer.
                if layer \<in> set (padLayers pad)
                then bindE (addPad K board pad (deviceTransform device) layer offset) (\<lambda>paths.
                       Inr [mkItem (ArgPad (padUuid pad)) None None (Some layer)
                              (padNetSignal pad) paths])
                else Inr [])
              (getCopperLayers board)
           = mapE (itemOf K board offset) (map (CopperPad device pad)
               (filter (\<lambda>layer. layer \<in> set (padLayers pad)) (getCopperLayers board)))" for pad
    unfolding mapE_map
    by (rule concatE_filter)
       (auto simp: itemOf_def copperItem_def mkItem_def bindE_def split: sum.splits)
  have 1: "concatE (\<lambda>pad.
              concatE (\<lambda>layer.
                if layer \<in> set (padLayers pad)
                then bindE (addPad K board pad (deviceTransform device) layer offset) (\<lambda>paths.
                       Inr [mkItem (ArgPad (padUuid pad)) None None (Some layer)
                              (padNetSignal pad) paths])
                else Inr [])
              (getCopperLayers board))
            (devicePads device)
          = mapE (itemOf K board offset)
              (concat (map (\<lambda>pad. map (CopperPad device pad)
                          (filter (\<lambda>layer. layer \<in> set (padLayers pad)) (getCopperLayers board)))
                 (devicePads device)))"
    by (rule concatE_mapE) (rule pad)
  have 2: "concatE (\<lambda>polygon.
              if polygonLayer polygon \<in> set (getCopperLayers board)
              then bindE (addPolygon K board polygon (deviceTransform device)) (\<lambda>paths.
                   bindE (clipOffset K paths offset maxArcTolerance) (\<lambda>paths.
                     Inr [mkItem (ArgDevice (componentUuid (deviceComponent device)))
                            (Some (polygonUuid polygon)) None
                            (Some (polygonLayer polygon)) None paths]))
              else Inr [])
            (footprintPolygons (deviceLibFootprint device))
          = mapE (itemOf K board offset) (map (CopperDevicePolygon device)
              (filter (\<lambda>polygon. onCopper board (polygonLayer polygon))
                 (footprintPolygons (deviceLibFootprint device))))"
    unfolding mapE_map
    by (rule concatE_filter)
       (auto simp: itemOf_def copperItem_def mkItem_def onCopper_def bindE_def inflate_def
          split: sum.splits)
  have 3: "concatE (\<lambda>circle.
              if circleLayer circle \<in> set (getCopperLayers board)
              then bindE (addCircle K board circle (deviceTransform device) offset) (\<lambda>paths.
                     Inr [mkItem (ArgDevice (componentUuid (deviceComponent device))) None
                            (Some (circleUuid circle))
                            (Some (circleLayer circle)) None paths])
              else Inr [])
            (footprintCircles (deviceLibFootprint device))
          = mapE (itemOf K board offset) (map (CopperDeviceCircle device)
              (filter (\<lambda>circle. onCopper board (circleLayer circle))
                 (footprintCircles (deviceLibFootprint device))))"
    unfolding mapE_map
    by (rule concatE_filter)
       (auto simp: itemOf_def copperItem_def mkItem_def onCopper_def bindE_def split: sum.splits)
  show ?thesis
    unfolding deviceItems_def Let_def 1 2 3 strokeTextItems_device [of K board offset _ device]
      deviceCopperObjects_def
    by (simp only: mapE_app)
       (auto simp: bindE_def split: sum.splits)
qed

lemma copperItems_objects:
  "copperItems K board ignorePlanes offset =
     mapE (itemOf K board offset) (copperObjects board ignorePlanes)"
proof -
  have 1: "concatE (netSegmentItems K board offset) (getNetSegments board) =
      mapE (itemOf K board offset)
        (concat (map (\<lambda>netSegment.
           map (CopperVia netSegment) (netSegmentVias netSegment) @
           map (CopperNetLine netSegment)
             (filter (\<lambda>netLine. onCopper board (netLineLayer netLine))
                (netSegmentNetLines netSegment)))
          (getNetSegments board)))"
    by (rule concatE_mapE) (rule netSegmentItems_objects)
  have 2: "concatE (deviceItems K board offset) (getDeviceInstances board) =
      mapE (itemOf K board offset)
        (concat (map (deviceCopperObjects board) (getDeviceInstances board)))"
    by (rule concatE_mapE) (rule deviceItems_objects)
  show ?thesis
    unfolding copperItems_def copperObjects_def 1 2 planeItems_objects boardPolygonItems_objects
      strokeTextItems_board
    by (cases ignorePlanes) (auto simp: mapE_app bindE_def split: sum.splits)
qed

lemma mapE_itemOf:
  "mapE (itemOf K board offset) objs = Inr items
   \<Longrightarrow> \<exists>areas. mapE (inflatedArea K board offset) objs = Inr areas \<and>
         items = inflatedItems objs areas"
proof (induction objs arbitrary: items)
  case Nil
  then show ?case by (simp add: inflatedItems_def)
next
  case (Cons obj objs)
  from Cons.prems obtain it its where o: "itemOf K board offset obj = Inr it"
    and r: "mapE (itemOf K board offset) objs = Inr its" and i0: "items = it # its"
    by (auto simp: bindE_def split: sum.splits)
  from o obtain a where a: "inflatedArea K board offset obj = Inr a" and "it = copperItem obj a"
    by (auto simp: itemOf_def bindE_def split: sum.splits)
  with i0 have i: "items = copperItem obj a # its" by simp
  from Cons.IH [OF r] obtain areas where "mapE (inflatedArea K board offset) objs = Inr areas"
    "its = inflatedItems objs areas" by blast
  with a i show ?case
    by (intro exI [of _ "a # areas"]) (simp add: bindE_def inflatedItems_def)
qed

lemma copperObjects_noPlane: "\<not> list_ex isCopperPlane (copperObjects board True)"
  by (auto simp: copperObjects_def deviceCopperObjects_def list_ex_iff)

subsection \<open>The run of the copper to copper check\<close>

lemma checkCopperCopperClearances_items:
  assumes c: "getMinCopperCopperClearance (mSettings s) \<noteq> 0"
    and run: "checkCopperCopperClearances K p s = (Inr (), s')"
  shows "\<exists>items.
           copperItems K (mBoard s) (mIgnorePlanes s)
             (copperCopperOffset (getMinCopperCopperClearance (mSettings s))) = Inr items \<and>
           list_all (\<lambda>pair. isOK (copperPairMsgs K (getMinCopperCopperClearance (mSettings s)) pair))
             (pairsOf items) \<and>
           mMessages s' = mMessages s @
             copperCopperViolations K (getMinCopperCopperClearance (mSettings s)) items"
proof -
  let ?c = "getMinCopperCopperClearance (mSettings s)"
  let ?s1 = "s\<lparr>mProgressStatus := mProgressStatus s @ [''Check copper clearances...''],
                 emitted := emitted s @ [ProgressStatus ''Check copper clearances...'']\<rparr>"
  from run c obtain items s2 where
    it: "copperItems K (mBoard s) (mIgnorePlanes s) (copperCopperOffset ?c) = Inr items"
    and loop: "forEachPair items (checkCopperPair K ?c) ?s1 = (Inr (), s2)"
    and fin: "emitProgress p s2 = (Inr (), s')"
    by (cases "copperItems K (mBoard s) (mIgnorePlanes s) (copperCopperOffset ?c)")
       (auto simp: checkCopperCopperClearances_def withState_def Let_def seq_def bind_def
          lift_def emitStatus_def ret_def split: prod.splits sum.splits)
  have "checkCopperPair K ?c = (\<lambda>a b. bind (lift (copperPairMsgs K ?c (a, b))) (emitAll K))"
    by (intro ext) (simp only: checkCopperPair_eq)
  with loop forEachPair_emit [of items "copperPairMsgs K ?c" K ?s1 s2]
  obtain mss where m: "mapE (copperPairMsgs K ?c) (pairsOf items) = Inr mss"
    "s2 = appendMsgs K (concat mss) ?s1" by auto
  from fin m(2) have "mMessages s' = mMessages s @ concat mss"
    by (auto simp: emitProgress_def appendMsgs_def)
  with mapE_results [OF m(1)] it show ?thesis
    by (simp add: copperCopperViolations_def)
qed

lemma forEach_emit_run:
  "mapE g xs = Inr mss
   \<Longrightarrow> forEach xs (\<lambda>x. bind (lift (g x)) (emitAll K)) s = (Inr (), appendMsgs K (concat mss) s)"
proof (induction xs arbitrary: s mss)
  case Nil
  then show ?case by (simp add: ret_def)
next
  case (Cons x xs)
  from Cons.prems obtain ms mss' where g: "g x = Inr ms" and r: "mapE g xs = Inr mss'"
    and e: "mss = ms # mss'"
    by (auto simp: bindE_def split: sum.splits)
  have "forEach (x # xs) (\<lambda>x. bind (lift (g x)) (emitAll K)) s
      = forEach xs (\<lambda>x. bind (lift (g x)) (emitAll K)) (appendMsgs K ms s)"
    by (simp only: forEach_Cons_apply bind_lift_emitAll g sum.case prod.case)
  also have "\<dots> = (Inr (), appendMsgs K (concat mss') (appendMsgs K ms s))"
    by (rule Cons.IH [OF r])
  finally show ?case by (simp add: e appendMsgs_append)
qed

lemma forEachPair_emit_run:
  "mapE g (pairsOf xs) = Inr mss
   \<Longrightarrow> forEachPair xs (\<lambda>a b. bind (lift (g (a, b))) (emitAll K)) s
         = (Inr (), appendMsgs K (concat mss) s)"
proof (induction xs arbitrary: s mss)
  case Nil
  then show ?case by (simp add: ret_def)
next
  case (Cons x xs)
  from Cons.prems have "mapE g (map (Pair x) xs @ pairsOf xs) = Inr mss" by simp
  then obtain as bs where a: "mapE g (map (Pair x) xs) = Inr as"
    and b: "mapE g (pairsOf xs) = Inr bs" and e: "mss = as @ bs"
    by (auto simp: mapE_app bindE_def split: sum.splits)
  from a have a': "mapE (\<lambda>b. g (x, b)) xs = Inr as" by (simp add: mapE_map)
  have 1: "forEach xs (\<lambda>b. bind (lift (g (x, b))) (emitAll K)) s
             = (Inr (), appendMsgs K (concat as) s)"
    by (rule forEach_emit_run [OF a'])
  have 2: "forEachPair xs (\<lambda>a b. bind (lift (g (a, b))) (emitAll K)) (appendMsgs K (concat as) s)
             = (Inr (), appendMsgs K (concat bs) (appendMsgs K (concat as) s))"
    by (rule Cons.IH [OF b])
  have 3: "seq (forEach xs (\<lambda>b. bind (lift (g (x, b))) (emitAll K)))
             (forEachPair xs (\<lambda>a b. bind (lift (g (a, b))) (emitAll K))) s
           = forEachPair xs (\<lambda>a b. bind (lift (g (a, b))) (emitAll K))
               (appendMsgs K (concat as) s)"
    by (rule seq_Inr) (rule 1)
  show ?case
    by (simp only: forEachPair.simps 3 2 e concat_append appendMsgs_append)
qed

lemma checkCopperCopperClearances_returns:
  assumes it: "copperItems K (mBoard s) (mIgnorePlanes s)
             (copperCopperOffset (getMinCopperCopperClearance (mSettings s))) = Inr items"
    and ok: "isOK (mapE (copperPairMsgs K (getMinCopperCopperClearance (mSettings s)))
                    (pairsOf items))"
  shows "fst (checkCopperCopperClearances K p s) = Inr ()"
proof (cases "getMinCopperCopperClearance (mSettings s) = 0")
  case True
  then show ?thesis
    by (simp add: checkCopperCopperClearances_def withState_def ret_def)
next
  case False
  let ?c = "getMinCopperCopperClearance (mSettings s)"
  let ?s1 = "s\<lparr>mProgressStatus := mProgressStatus s @ [''Check copper clearances...''],
                 emitted := emitted s @ [ProgressStatus ''Check copper clearances...'']\<rparr>"
  from ok obtain mss where m: "mapE (copperPairMsgs K ?c) (pairsOf items) = Inr mss"
    by (auto simp: isOK_def split: sum.splits)
  have eq: "checkCopperPair K ?c = (\<lambda>a b. bind (lift (copperPairMsgs K ?c (a, b))) (emitAll K))"
    by (intro ext) (simp only: checkCopperPair_eq)
  have "forEachPair items (checkCopperPair K ?c) ?s1 = (Inr (), appendMsgs K (concat mss) ?s1)"
    unfolding eq by (rule forEachPair_emit_run [OF m])
  with False it show ?thesis
    by (simp add: checkCopperCopperClearances_def withState_def Let_def seq_def bind_def
        lift_def emitStatus_def ret_def emitProgress_def)
qed

lemma itemOf_areas:
  "mapE (inflatedArea K board offset) objs = Inr areas
   \<Longrightarrow> mapE (itemOf K board offset) objs = Inr (inflatedItems objs areas)"
proof (induction objs arbitrary: areas)
  case Nil
  then show ?case by (simp add: inflatedItems_def)
next
  case (Cons obj objs)
  from Cons.prems obtain a as where a: "inflatedArea K board offset obj = Inr a"
    and r: "mapE (inflatedArea K board offset) objs = Inr as" and e: "areas = a # as"
    by (auto simp: bindE_def split: sum.splits)
  from Cons.IH [OF r] a e show ?case
    by (simp add: bindE_def itemOf_def inflatedItems_def)
qed

subsection \<open>Checks that keep the board\<close>

named_theorems keeps_intros

lemma keepsBoard_ret [keeps_intros]: "keepsBoard (ret x)"
  by (simp add: keepsBoard_def ret_def)

lemma keepsBoard_emitStatus [keeps_intros]: "keepsBoard (emitStatus t)"
  by (auto simp: keepsBoard_def emitStatus_def)

lemma keepsBoard_emitProgress [keeps_intros]: "keepsBoard (emitProgress p)"
  by (auto simp: keepsBoard_def emitProgress_def)

lemma keepsBoard_emitMessage [keeps_intros]: "keepsBoard (emitMessage K m)"
  by (auto simp: keepsBoard_def emitMessage_def)

lemma keepsBoard_seq [keeps_intros]: "keepsBoard a \<Longrightarrow> keepsBoard b \<Longrightarrow> keepsBoard (seq a b)"
  unfolding keepsBoard_def seq_def bind_def
  by (auto split: prod.splits sum.splits)

lemma keepsBoard_block_Nil [keeps_intros]: "keepsBoard (block [])"
  by (simp add: keepsBoard_ret)

lemma keepsBoard_block_Cons [keeps_intros]:
  "keepsBoard a \<Longrightarrow> keepsBoard (block as) \<Longrightarrow> keepsBoard (block (a # as))"
  by (simp add: keepsBoard_seq)

lemma keepsBoard_whenM [keeps_intros]: "keepsBoard a \<Longrightarrow> keepsBoard (whenM c a)"
  by (simp add: whenM_def keepsBoard_ret)

lemma keepsBoard_if [keeps_intros]:
  "keepsBoard a \<Longrightarrow> keepsBoard b \<Longrightarrow> keepsBoard (if c then a else b)"
  by simp

lemma keepsBoard_withState [keeps_intros]: "(\<And>s. keepsBoard (f s)) \<Longrightarrow> keepsBoard (withState f)"
  unfolding keepsBoard_def withState_def by blast

lemma keepsBoard_forEach [keeps_intros]: "(\<And>x. keepsBoard (f x)) \<Longrightarrow> keepsBoard (forEach xs f)"
  by (induction xs) (simp_all add: keepsBoard_ret keepsBoard_seq)

lemma checkMinimumCopperWidth_board: "keepsBoard (checkMinimumCopperWidth K p)"
  unfolding checkMinimumCopperWidth_def Let_def by (intro keeps_intros)

subsection \<open>Planes ignored\<close>

lemma seq_ret_right: "seq a (ret ()) = a"
  using block_single [of a] by simp

lemma eff_forEach_set:
  "(\<And>x. x \<in> set xs \<Longrightarrow> eff K P None (f x)) \<Longrightarrow> eff K P None (forEach xs f)"
  by (induction xs) (simp_all add: eff_ret eff_seq)

lemma eff_forEachPair_set:
  "(\<And>x y. x \<in> set xs \<Longrightarrow> y \<in> set xs \<Longrightarrow> eff K P None (f x y))
   \<Longrightarrow> eff K P None (forEachPair xs f)"
  by (induction xs) (simp_all add: eff_ret eff_seq eff_forEach_set)

lemma notPlane_arg: "notPlane it \<Longrightarrow> \<not> isPlaneArg (itemObj it)"
  by (cases "itemObj it") (simp_all add: notPlane_def)

lemma namesPlane_copperCopperMsg:
  "namesPlane (copperCopperMsg K c it1 it2 l) \<longleftrightarrow>
     isPlaneArg (itemObj it1) \<or> isPlaneArg (itemObj it2)"
  by (simp add: namesPlane_def copperCopperMsg_def mkMsg_def)

lemma checkCopperCopperClearances_noPlane:
  assumes run: "checkCopperCopperClearances K p s = (r, s')" and ign: "mIgnorePlanes s"
  shows "\<exists>ms. mMessages s' = mMessages s @ ms \<and> list_all (\<lambda>m. \<not> namesPlane m) ms"
proof (cases "getMinCopperCopperClearance (mSettings s) = 0")
  case True
  with run have "s' = s"
    by (simp add: checkCopperCopperClearances_def withState_def ret_def)
  then show ?thesis by simp
next
  case False
  let ?c = "getMinCopperCopperClearance (mSettings s)"
  let ?s1 = "s\<lparr>mProgressStatus := mProgressStatus s @ [''Check copper clearances...''],
                 emitted := emitted s @ [ProgressStatus ''Check copper clearances...'']\<rparr>"
  show ?thesis
  proof (cases "copperItems K (mBoard s) True (copperCopperOffset ?c)")
    case (Inl e)
    with run False ign have "s' = ?s1"
      by (simp add: checkCopperCopperClearances_def withState_def Let_def seq_def bind_def
          lift_def emitStatus_def)
    then show ?thesis by simp
  next
    case (Inr items)
    from copperItems_noPlane [OF Inr] have np: "list_all notPlane items" .
    have "eff K (\<lambda>m. \<not> namesPlane m) None (forEachPair items (checkCopperPair K ?c))"
    proof (rule eff_forEachPair_set)
      fix x y assume "x \<in> set items" "y \<in> set items"
      with np have "\<not> isPlaneArg (itemObj x)" "\<not> isPlaneArg (itemObj y)"
        by (auto simp: list_all_iff notPlane_arg)
      then show "eff K (\<lambda>m. \<not> namesPlane m) None (checkCopperPair K ?c x y)"
        by (intro eff_checkCopperPair) (simp add: namesPlane_copperCopperMsg)
    qed
    from eff_seq [OF this eff_emitProgress [of K _ p]]
    have e: "eff K (\<lambda>m. \<not> namesPlane m) (Some p)
               (seq (forEachPair items (checkCopperPair K ?c)) (emitProgress p))" .
    from False have "checkCopperCopperClearances K p s =
        seq (emitStatus ''Check copper clearances...'')
          (seq (bind (lift (copperItems K (mBoard s) (mIgnorePlanes s) (copperCopperOffset ?c)))
                  (\<lambda>items. forEachPair items (checkCopperPair K ?c)))
             (emitProgress p)) s"
      by (simp add: checkCopperCopperClearances_def withState_def Let_def seq_ret_right)
    with run ign Inr
    have "seq (forEachPair items (checkCopperPair K ?c)) (emitProgress p) ?s1 = (r, s')"
      by (simp add: seq_def bind_def lift_def emitStatus_def)
    with e obtain ms where "mMessages s' = mMessages ?s1 @ ms" "list_all (\<lambda>m. \<not> namesPlane m) ms"
      unfolding eff_def by blast
    then show ?thesis by auto
  qed
qed

lemma checkEffect_messages:
  assumes "checkEffect K en st P p m" and "m s = (r, s')"
  shows "\<exists>ms. mMessages s' = mMessages s @ ms \<and> list_all P ms \<and>
              mSettings s' = mSettings s \<and> mIgnorePlanes s' = mIgnorePlanes s"
proof (cases "en (mSettings s)")
  case True
  with assms show ?thesis unfolding checkEffect_def by (metis (lifting))
next
  case False
  with assms have "s' = s" unfolding checkEffect_def by metis
  then show ?thesis by simp
qed

lemma planesIgnored_other:
  assumes "checkEffect K en st (\<lambda>m. msgKind m \<in> set ks) p m"
    and "CopperCopperClearanceViolation \<notin> set ks"
  shows "planesIgnored m"
  unfolding planesIgnored_def
proof (intro allI impI)
  fix s r s'
  assume "m s = (r, s')" "mIgnorePlanes s"
  with checkEffect_messages [OF assms(1)] obtain ms where
    ms: "mMessages s' = mMessages s @ ms" "list_all (\<lambda>m. msgKind m \<in> set ks) ms"
    "mIgnorePlanes s'" by metis
  from ms(2) assms(2) have "filter isCopperCopper ms = []"
    by (auto simp: list_all_iff filter_empty_conv isCopperCopper_def)
  with ms show "mIgnorePlanes s' \<and>
          (\<exists>ms. mMessages s' = mMessages s @ ms \<and>
                list_all (\<lambda>m. \<not> namesPlane m) (filter isCopperCopper ms))"
    by auto
qed

lemma planesIgnored_copper: "planesIgnored (checkCopperCopperClearances K p)"
  unfolding planesIgnored_def
proof (intro allI impI)
  fix s r s'
  assume run: "checkCopperCopperClearances K p s = (r, s')" and ign: "mIgnorePlanes s"
  from checkCopperCopperClearances_noPlane [OF run ign] obtain ms where
    ms: "mMessages s' = mMessages s @ ms" "list_all (\<lambda>m. \<not> namesPlane m) ms" by blast
  from checkEffect_messages [OF checkCopperCopperClearances_effect run] ign
  have "mIgnorePlanes s'" by auto
  with ms show "mIgnorePlanes s' \<and>
          (\<exists>ms. mMessages s' = mMessages s @ ms \<and>
                list_all (\<lambda>m. \<not> namesPlane m) (filter isCopperCopper ms))"
    by (auto simp: list_all_iff)
qed

lemma planesIgnored_ret: "planesIgnored (ret ())"
  by (simp add: planesIgnored_def ret_def)

lemma planesIgnored_seq:
  assumes a: "planesIgnored a" and b: "planesIgnored b"
  shows "planesIgnored (seq a b)"
  unfolding planesIgnored_def
proof (intro allI impI)
  fix s r s'
  assume run: "seq a b s = (r, s')" and ign: "mIgnorePlanes s"
  obtain r1 s1 where 1: "a s = (r1, s1)" by (cases "a s")
  with a ign obtain ms1 where m1: "mIgnorePlanes s1" "mMessages s1 = mMessages s @ ms1"
      "list_all (\<lambda>m. \<not> namesPlane m) (filter isCopperCopper ms1)"
    unfolding planesIgnored_def by blast
  show "mIgnorePlanes s' \<and>
          (\<exists>ms. mMessages s' = mMessages s @ ms \<and>
                list_all (\<lambda>m. \<not> namesPlane m) (filter isCopperCopper ms))"
  proof (cases r1)
    case (Inl e)
    with run 1 have "s' = s1" by (simp add: seq_def bind_def)
    with m1 show ?thesis by auto
  next
    case (Inr u)
    with run 1 have "b s1 = (r, s')" by (simp add: seq_def bind_def)
    with b m1(1) obtain ms2 where "mIgnorePlanes s'" "mMessages s' = mMessages s1 @ ms2"
      "list_all (\<lambda>m. \<not> namesPlane m) (filter isCopperCopper ms2)"
      unfolding planesIgnored_def by blast
    with m1 show ?thesis by (intro conjI exI [of _ "ms1 @ ms2"]) simp_all
  qed
qed

lemma planesIgnored_quick: "planesIgnored (block (quickChecks K))"
  unfolding quickChecks_def block.simps
  by (intro planesIgnored_seq planesIgnored_ret planesIgnored_copper
        planesIgnored_other [OF checkMinimumCopperWidth_effect]
        planesIgnored_other [OF checkCopperBoardClearances_effect]
        planesIgnored_other [OF checkCopperHoleClearances_effect]) simp_all

lemma execute_quick_noPlane:
  assumes "execute K True s = (r, s')"
  shows "list_all (\<lambda>m. \<not> namesPlane m) (filter isCopperCopper (mMessages s'))"
proof -
  obtain r2 s2 where m: "block (quickChecks K) (runStart True s) = (r2, s2)"
    by (cases "block (quickChecks K) (runStart True s)")
  have "mIgnorePlanes (runStart True s)" by (simp add: runStart_def)
  with planesIgnored_quick [of K] m obtain ms where
    "mMessages s2 = mMessages (runStart True s) @ ms"
    "list_all (\<lambda>m. \<not> namesPlane m) (filter isCopperCopper ms)"
    unfolding planesIgnored_def by blast
  then have 2: "list_all (\<lambda>m. \<not> namesPlane m) (filter isCopperCopper (mMessages s2))"
    by (simp add: runStart_def)
  from assms m have "mMessages s' = mMessages s2"
    by (cases r2) (auto simp: execute_eq runChecks_def runEnd_def)
  with 2 show ?thesis by simp
qed

subsection \<open>The copper to copper messages of a quick run\<close>

lemma block_Cons_Inr:
  "block (a # as) s = (Inr (), s') \<Longrightarrow> \<exists>s1. a s = (Inr (), s1) \<and> block as s1 = (Inr (), s')"
  by (cases "a s") (auto simp: seq_def bind_def split: sum.splits)

lemma copperCopperViolations_kind:
  "filter isCopperCopper (copperCopperViolations K c items) = copperCopperViolations K c items"
proof -
  have "isCopperCopper m" if "m \<in> set (resultMsgs (copperPairMsgs K c pair))" for m pair
    using that
    by (cases pair)
       (auto simp: resultMsgs_def copperPairMsgs_def bindE_def isCopperCopper_def
          split: sum.splits if_splits)
  then show ?thesis
    by (auto simp: copperCopperViolations_def filter_id_conv)
qed

lemma filter_other:
  "list_all (\<lambda>m. msgKind m \<in> set ks) ms \<Longrightarrow> CopperCopperClearanceViolation \<notin> set ks
   \<Longrightarrow> filter isCopperCopper ms = []"
  by (auto simp: list_all_iff filter_empty_conv isCopperCopper_def)

lemma execute_quick_exact:
  assumes run: "execute K True s = (Inr (), s')"
  shows "if getMinCopperCopperClearance (mSettings s) = 0
         then filter isCopperCopper (mMessages s') = []
         else (\<exists>items. copperItems K (mBoard s) True
                 (copperCopperOffset (getMinCopperCopperClearance (mSettings s))) = Inr items \<and>
               filter isCopperCopper (mMessages s') =
                 copperCopperViolations K (getMinCopperCopperClearance (mSettings s)) items)"
proof -
  let ?c = "getMinCopperCopperClearance (mSettings s)"
  let ?s0 = "runStart True s"
  obtain r4 s4 where m: "block (quickChecks K) ?s0 = (r4, s4)"
    by (cases "block (quickChecks K) ?s0")
  with run have r4: "r4 = Inr ()"
    by (cases r4) (simp_all add: execute_eq runChecks_def)
  with run m have s': "mMessages s' = mMessages s4"
    by (auto simp: execute_eq runChecks_def runEnd_def)
  from m r4 have "block [checkMinimumCopperWidth K 14, checkCopperCopperClearances K 24,
      checkCopperBoardClearances K 34, checkCopperHoleClearances K 44] ?s0 = (Inr (), s4)"
    by (simp add: quickChecks_def)
  from block_Cons_Inr [OF this] obtain s1 where
    1: "checkMinimumCopperWidth K 14 ?s0 = (Inr (), s1)"
    and b1: "block [checkCopperCopperClearances K 24,
      checkCopperBoardClearances K 34, checkCopperHoleClearances K 44] s1 = (Inr (), s4)"
    by blast
  from block_Cons_Inr [OF b1] obtain s2 where
    2: "checkCopperCopperClearances K 24 s1 = (Inr (), s2)"
    and b2: "block [checkCopperBoardClearances K 34, checkCopperHoleClearances K 44] s2
               = (Inr (), s4)"
    by blast
  from block_Cons_Inr [OF b2] obtain s3 where
    3: "checkCopperBoardClearances K 34 s2 = (Inr (), s3)"
    and b3: "block [checkCopperHoleClearances K 44] s3 = (Inr (), s4)"
    by blast
  from b3 have 4: "checkCopperHoleClearances K 44 s3 = (Inr (), s4)"
    by (simp only: block_single)
  from checkEffect_messages [OF checkMinimumCopperWidth_effect 1] obtain ms1 where
    m1: "mMessages s1 = ms1" "list_all (\<lambda>m. msgKind m \<in> set [MinimumWidthViolation]) ms1"
      "mSettings s1 = mSettings s" "mIgnorePlanes s1 = True"
    by (auto simp: runStart_def)
  from checkMinimumCopperWidth_board [of K 14] 1 have bd: "mBoard s1 = mBoard s"
    unfolding keepsBoard_def by (auto simp: runStart_def)
  from checkEffect_messages [OF checkCopperBoardClearances_effect 3] obtain ms3 where
    m3: "mMessages s3 = mMessages s2 @ ms3"
      "list_all (\<lambda>m. msgKind m \<in> set [CopperBoardClearanceViolation]) ms3"
    by blast
  from checkEffect_messages [OF checkCopperHoleClearances_effect 4] obtain ms4 where
    m4: "mMessages s4 = mMessages s3 @ ms4"
      "list_all (\<lambda>m. msgKind m \<in> set [CopperHoleClearanceViolation]) ms4"
    by blast
  have f1: "filter isCopperCopper ms1 = []" by (rule filter_other [OF m1(2)]) simp
  have f3: "filter isCopperCopper ms3 = []" by (rule filter_other [OF m3(2)]) simp
  have f4: "filter isCopperCopper ms4 = []" by (rule filter_other [OF m4(2)]) simp
  show ?thesis
  proof (cases "?c = 0")
    case True
    with 2 m1(3) have "s2 = s1"
      by (simp add: checkCopperCopperClearances_def withState_def ret_def)
    with True s' m1(1) m3(1) m4(1) f1 f3 f4 show ?thesis by simp
  next
    case False
    with m1(3) have c1: "getMinCopperCopperClearance (mSettings s1) \<noteq> 0" by simp
    from checkCopperCopperClearances_items [OF c1 2] obtain items where
      "copperItems K (mBoard s1) (mIgnorePlanes s1)
         (copperCopperOffset (getMinCopperCopperClearance (mSettings s1))) = Inr items"
      "mMessages s2 = mMessages s1 @
         copperCopperViolations K (getMinCopperCopperClearance (mSettings s1)) items"
      by blast
    with m1 bd have it: "copperItems K (mBoard s) True (copperCopperOffset ?c) = Inr items"
      and v: "mMessages s2 = ms1 @ copperCopperViolations K ?c items"
      by simp_all
    from s' v m3(1) m4(1) f1 f3 f4
    have "filter isCopperCopper (mMessages s') = copperCopperViolations K ?c items"
      by (simp add: copperCopperViolations_kind)
    with it False show ?thesis by auto
  qed
qed

section \<open>Claim C1: copper to copper clearance\<close>

text \<open>
  Claim C1, as the code has it. For a clearance that is not 0, a check that
  returns has collected the copper objects of the board (vias, net lines,
  planes unless they are ignored, board polygons, board stroke texts, pads per
  copper layer, device polygons, device circles and device stroke texts), each
  with its area inflated by \<open>max (((clearance - maxArcTolerance) / 2) - 1) 0\<close>,
  and has appended, for the unordered pairs of objects in their order, exactly
  one message for each pair whose net signals differ or are missing, which
  shares a layer, and whose inflated areas have a non-empty intersection; the
  message is located at the flattened rings of that intersection. The offset is
  never negative: below the arc tolerance the areas are not inflated at all.
\<close>

theorem checkCopperCopperClearances_spec:
  assumes c: "isUnsignedLength (getMinCopperCopperClearance (mSettings s))"
      "getMinCopperCopperClearance (mSettings s) \<noteq> 0"
    and run: "checkCopperCopperClearances K p s = (Inr (), s')"
  shows "\<exists>areas.
           mapE (inflatedArea K (mBoard s)
                   (max (((getMinCopperCopperClearance (mSettings s) - maxArcTolerance) sdiv 2) - 1) 0))
             (copperObjects (mBoard s) (mIgnorePlanes s)) = Inr areas \<and>
           list_all (\<lambda>pair. isOK (copperPairMsgs K (getMinCopperCopperClearance (mSettings s)) pair))
             (pairsOf (inflatedItems (copperObjects (mBoard s) (mIgnorePlanes s)) areas)) \<and>
           mMessages s' = mMessages s @
             copperCopperViolations K (getMinCopperCopperClearance (mSettings s))
               (inflatedItems (copperObjects (mBoard s) (mIgnorePlanes s)) areas)"
proof -
  let ?c = "getMinCopperCopperClearance (mSettings s)"
  from checkCopperCopperClearances_items [OF c(2) run] obtain items where
    it: "copperItems K (mBoard s) (mIgnorePlanes s) (copperCopperOffset ?c) = Inr items"
    and ok: "list_all (\<lambda>pair. isOK (copperPairMsgs K ?c pair)) (pairsOf items)"
    and ms: "mMessages s' = mMessages s @ copperCopperViolations K ?c items"
    by blast
  from it have "mapE (itemOf K (mBoard s) (copperCopperOffset ?c))
      (copperObjects (mBoard s) (mIgnorePlanes s)) = Inr items"
    by (simp only: copperItems_objects)
  from mapE_itemOf [OF this] obtain areas where
    "mapE (inflatedArea K (mBoard s) (copperCopperOffset ?c))
       (copperObjects (mBoard s) (mIgnorePlanes s)) = Inr areas"
    "items = inflatedItems (copperObjects (mBoard s) (mIgnorePlanes s)) areas"
    by blast
  with ok ms copperCopperOffset_eq [OF c(1)] show ?thesis
    by (intro exI [of _ areas]) simp
qed

text \<open>
  On the board with copper objects of every kind the check reports each pair of
  neighbours, whose areas are 150 \<mu>m apart and overlap by 44998 nm when each is
  inflated by 97499 nm; it reports neither the two net lines of one net, nor
  the pad on the bottom layer with its neighbours on the top layer, nor any
  object that is not on a copper layer.
\<close>

lemma copperBoard_objects:
  "map objectItem (copperObjects copperBoard False) =
     [ArgVia 100, ArgNetLine 21, ArgNetLine 23, ArgPlane 30, ArgBoardPolygon 40,
      ArgBoardStrokeText 45, ArgPad 52, ArgPad 52, ArgDevice 50, ArgDevice 50,
      ArgBoardStrokeText 56]"
  by code_simp

lemma copperBoard_areas:
  "mapE (inflatedArea copperKernel copperBoard 97499) (copperObjects copperBoard False)
     = Inr copperAreas"
  by code_simp

lemma copperBoard_pairs:
  "isOK (mapE (copperPairMsgs copperKernel 200000)
           (pairsOf (inflatedItems (copperObjects copperBoard False) copperAreas)))"
  by code_simp

lemma copperBoard_locations:
  "map msgLocations (copperCopperViolations copperKernel 200000
      (inflatedItems (copperObjects copperBoard False) copperAreas))
   = [[segmentAt 152501 197499], [segmentAt 152501 197499], [segmentAt 402501 447499],
      [segmentAt 402501 447499], [segmentAt 652501 697499], [segmentAt 902501 947499],
      [segmentAt 1152501 1197499], [segmentAt 1402501 1447499], [segmentAt 1652501 1697499],
      [segmentAt 1902501 1947499]]"
  by code_simp

lemma copperState_offset: "copperCopperOffset 200000 = 97499"
  by code_simp

theorem checkCopperCopperClearances_spec_witness:
  "isUnsignedLength (getMinCopperCopperClearance (mSettings copperState)) \<and>
   getMinCopperCopperClearance (mSettings copperState) \<noteq> 0 \<and>
   fst (checkCopperCopperClearances copperKernel 24 copperState) = Inr () \<and>
   map objectItem (copperObjects copperBoard False) =
     [ArgVia 100, ArgNetLine 21, ArgNetLine 23, ArgPlane 30, ArgBoardPolygon 40,
      ArgBoardStrokeText 45, ArgPad 52, ArgPad 52, ArgDevice 50, ArgDevice 50,
      ArgBoardStrokeText 56] \<and>
   mapE (inflatedArea copperKernel copperBoard 97499) (copperObjects copperBoard False)
     = Inr copperAreas \<and>
   mMessages (snd (checkCopperCopperClearances copperKernel 24 copperState)) =
     copperCopperViolations copperKernel 200000
       (inflatedItems (copperObjects copperBoard False) copperAreas) \<and>
   map msgLocations (mMessages (snd (checkCopperCopperClearances copperKernel 24 copperState)))
     = [[segmentAt 152501 197499], [segmentAt 152501 197499], [segmentAt 402501 447499],
        [segmentAt 402501 447499], [segmentAt 652501 697499], [segmentAt 902501 947499],
        [segmentAt 1152501 1197499], [segmentAt 1402501 1447499], [segmentAt 1652501 1697499],
        [segmentAt 1902501 1947499]]"
proof -
  let ?run = "checkCopperCopperClearances copperKernel 24 copperState"
  let ?objs = "copperObjects copperBoard False"
  have v: "getMinCopperCopperClearance (mSettings copperState) = 200000"
      "mBoard copperState = copperBoard" "mIgnorePlanes copperState = False"
      "mMessages copperState = []"
    by (simp_all add: copperState_def initialState_def noSettings_def)
  have c: "isUnsignedLength (getMinCopperCopperClearance (mSettings copperState))"
      "getMinCopperCopperClearance (mSettings copperState) \<noteq> 0"
    by (simp_all add: v isUnsignedLength_def)
  have o: "max (((200000 :: int) - maxArcTolerance) sdiv 2 - 1) 0 = 97499"
    by (simp add: maxArcTolerance_def signed_divide_int_def)
  have "copperItems copperKernel copperBoard False 97499 = Inr (inflatedItems ?objs copperAreas)"
    by (simp only: copperItems_objects itemOf_areas [OF copperBoard_areas])
  then have it: "copperItems copperKernel (mBoard copperState) (mIgnorePlanes copperState)
      (copperCopperOffset (getMinCopperCopperClearance (mSettings copperState)))
      = Inr (inflatedItems ?objs copperAreas)"
    by (simp only: v copperState_offset)
  have ok: "isOK (mapE (copperPairMsgs copperKernel
                    (getMinCopperCopperClearance (mSettings copperState)))
                 (pairsOf (inflatedItems ?objs copperAreas)))"
    by (simp only: v copperBoard_pairs)
  have ret: "fst ?run = Inr ()"
    by (rule checkCopperCopperClearances_returns [OF it ok])
  then have run: "?run = (Inr (), snd ?run)" by (simp add: prod_eq_iff)
  from checkCopperCopperClearances_spec [OF c run] obtain areas where
    a: "mapE (inflatedArea copperKernel copperBoard 97499) ?objs = Inr areas"
    and m: "mMessages (snd ?run) =
        copperCopperViolations copperKernel 200000 (inflatedItems ?objs areas)"
    by (auto simp: v o)
  from a copperBoard_areas have "areas = copperAreas" by simp
  with m have ms: "mMessages (snd ?run) =
      copperCopperViolations copperKernel 200000 (inflatedItems ?objs copperAreas)" by simp
  from c ret copperBoard_objects copperBoard_areas ms copperBoard_locations
  show ?thesis by (simp only: simp_thms)
qed

text \<open>
  The claim as it is stated inflates by \<open>((clearance - maxArcTolerance) / 2) - 1\<close>.
  For a clearance of 1 \<mu>m this is -2001 nm, while the check inflates by 0: it
  reports the two vias of the example board, which overlap by 1 \<mu>m, where areas
  deflated by 2001 nm would not intersect.
\<close>

theorem copperCopperOffset_counterexample:
  "copperCopperOffset 1000 = 0 \<and>
   lenSub (lenDiv (lenSub 1000 maxArcTolerance) 2) 1 = - 2001 \<and>
   map msgKind (mMessages (snd (checkCopperCopperClearances lineKernel 24 smallClearanceState)))
     = [CopperCopperClearanceViolation] \<and>
   map_sum id (copperCopperViolations lineKernel 1000)
     (copperItems lineKernel exampleBoard False (- 2001)) = Inr []"
  by code_simp

section \<open>Claim C2: the quick run\<close>

text \<open>
  Claim C2. A quick run is the sequence of the first five statements, the
  minimum copper width, copper to copper, copper to board and copper to hole
  checks, and the last three statements: it has no step that rebuilds planes
  and none of the checks 5 to 17, and it does not depend on how the board
  rebuilds its planes. Every message of a quick run is of one of the four kinds
  of these checks. Planes are ignored: \<open>mIgnorePlanes\<close> is set, no message of
  the copper to copper check names a plane, whatever the outcome of the run,
  and when the run returns the messages of the copper to copper check are
  exactly the violations among the copper objects of the board without its
  planes, each with its inflated area.
\<close>

theorem execute_quick_spec:
  "execute K True =
     block [emitStarted, emitProgress 2, setIgnorePlanes True, clearProgressStatus,
            clearMessages,
            checkMinimumCopperWidth K 14, checkCopperCopperClearances K 24,
            checkCopperBoardClearances K 34, checkCopperHoleClearances K 44,
            withState (\<lambda>s. emitStatus (finishedStatus (length (mMessages s)))),
            emitProgress 100, emitFinished] \<and>
   execute (K\<lparr>rebuildAllPlanes := f\<rparr>) True = execute K True \<and>
   (execute K True s = (r, s') \<longrightarrow>
      list_all (\<lambda>m. msgKind m \<in> quickKinds) (mMessages s') \<and> mIgnorePlanes s' = True \<and>
      list_all (\<lambda>m. \<not> namesPlane m) (filter isCopperCopper (mMessages s'))) \<and>
   (execute K True s = (Inr (), s') \<longrightarrow>
      (if getMinCopperCopperClearance (mSettings s) = 0
       then filter isCopperCopper (mMessages s') = []
       else (\<exists>areas.
          mapE (inflatedArea K (mBoard s)
                  (copperCopperOffset (getMinCopperCopperClearance (mSettings s))))
            (copperObjects (mBoard s) True) = Inr areas \<and>
          filter isCopperCopper (mMessages s') =
            copperCopperViolations K (getMinCopperCopperClearance (mSettings s))
              (inflatedItems (copperObjects (mBoard s) True) areas)))) \<and>
   \<not> list_ex isCopperPlane (copperObjects board True) \<and>
   (copperItems K board True offset = Inr items \<longrightarrow> list_all notPlane items)"
proof -
  have "execute (K\<lparr>rebuildAllPlanes := f\<rparr>) True = execute K True"
    by (simp only: execute_quick rebuild_free)
  moreover have "list_all (\<lambda>m. msgKind m \<in> quickKinds) (mMessages s') \<and> mIgnorePlanes s' = True \<and>
      list_all (\<lambda>m. \<not> namesPlane m) (filter isCopperCopper (mMessages s'))"
    if "execute K True s = (r, s')"
  proof -
    from execute_run [OF that]
    have "list_all (rowsAllow (runRows True) (mSettings s)) (mMessages s')"
      and "mIgnorePlanes s' = True" by blast+
    with rowsAllow_quick execute_quick_noPlane [OF that] show ?thesis
      by (auto simp: list_all_iff)
  qed
  moreover have "if getMinCopperCopperClearance (mSettings s) = 0
       then filter isCopperCopper (mMessages s') = []
       else (\<exists>areas.
          mapE (inflatedArea K (mBoard s)
                  (copperCopperOffset (getMinCopperCopperClearance (mSettings s))))
            (copperObjects (mBoard s) True) = Inr areas \<and>
          filter isCopperCopper (mMessages s') =
            copperCopperViolations K (getMinCopperCopperClearance (mSettings s))
              (inflatedItems (copperObjects (mBoard s) True) areas))"
    if run: "execute K True s = (Inr (), s')"
  proof (cases "getMinCopperCopperClearance (mSettings s) = 0")
    case True
    with execute_quick_exact [OF run] show ?thesis by simp
  next
    case False
    let ?c = "getMinCopperCopperClearance (mSettings s)"
    from execute_quick_exact [OF run] False obtain items where
      it: "copperItems K (mBoard s) True (copperCopperOffset ?c) = Inr items"
      and ms: "filter isCopperCopper (mMessages s') = copperCopperViolations K ?c items"
      by auto
    from it have "mapE (itemOf K (mBoard s) (copperCopperOffset ?c))
        (copperObjects (mBoard s) True) = Inr items"
      by (simp only: copperItems_objects)
    from mapE_itemOf [OF this] obtain areas where
      "mapE (inflatedArea K (mBoard s) (copperCopperOffset ?c))
         (copperObjects (mBoard s) True) = Inr areas"
      "items = inflatedItems (copperObjects (mBoard s) True) areas"
      by blast
    with ms False show ?thesis by auto
  qed
  ultimately show ?thesis
    using execute_quick [of K] copperItems_noPlane [of K board offset items]
      copperObjects_noPlane [of board]
    by blast
qed

text \<open>
  On the board of the two vias and a plane the quick run reports the two vias
  only; the full run also reports the second via and the plane.
\<close>

lemma planeRun_ok: "fst (execute copperKernel True planeState) = Inr ()"
  by code_simp

lemma planeRun_locations:
  "map msgLocations (mMessages (snd (execute copperKernel True planeState))) =
     [[segmentAt 151501 347499]]"
  by code_simp

lemma planeRun_full:
  "map (\<lambda>m. (namesPlane m, msgLocations m))
     (filter isCopperCopper (mMessages (snd (execute copperKernel False planeState)))) =
     [(False, [segmentAt 151501 347499]), (True, [segmentAt 702501 846499])]"
  by code_simp

lemma planeBoard_areas:
  "mapE (inflatedArea copperKernel planeBoard 97499) (copperObjects planeBoard True)
     = Inr quickAreas"
  by code_simp

theorem execute_quick_spec_witness:
  "execute copperKernel True planeState = (Inr (), snd (execute copperKernel True planeState)) \<and>
   list_all (\<lambda>m. msgKind m \<in> quickKinds) (mMessages (snd (execute copperKernel True planeState))) \<and>
   mIgnorePlanes (snd (execute copperKernel True planeState)) = True \<and>
   list_all (\<lambda>m. \<not> namesPlane m)
     (filter isCopperCopper (mMessages (snd (execute copperKernel True planeState)))) \<and>
   mapE (inflatedArea copperKernel planeBoard 97499) (copperObjects planeBoard True)
     = Inr quickAreas \<and>
   filter isCopperCopper (mMessages (snd (execute copperKernel True planeState))) =
     copperCopperViolations copperKernel 200000
       (inflatedItems (copperObjects planeBoard True) quickAreas) \<and>
   copperItems copperKernel planeBoard True 97499 =
     Inr (inflatedItems (copperObjects planeBoard True) quickAreas) \<and>
   list_all notPlane (inflatedItems (copperObjects planeBoard True) quickAreas) \<and>
   map msgLocations (mMessages (snd (execute copperKernel True planeState))) =
     [[segmentAt 151501 347499]] \<and>
   map (\<lambda>m. (namesPlane m, msgLocations m))
     (filter isCopperCopper (mMessages (snd (execute copperKernel False planeState)))) =
     [(False, [segmentAt 151501 347499]), (True, [segmentAt 702501 846499])]"
proof -
  let ?s' = "snd (execute copperKernel True planeState)"
  let ?items = "inflatedItems (copperObjects planeBoard True) quickAreas"
  have v: "getMinCopperCopperClearance (mSettings planeState) = 200000"
      "mBoard planeState = planeBoard"
    by (simp_all add: planeState_def initialState_def noSettings_def)
  have o: "copperCopperOffset 200000 = 97499" by code_simp
  have run: "execute copperKernel True planeState = (Inr (), ?s')"
    using planeRun_ok by (simp add: prod_eq_iff)
  have it: "copperItems copperKernel planeBoard True 97499 = Inr ?items"
    by (simp only: copperItems_objects itemOf_areas [OF planeBoard_areas])
  note spec = execute_quick_spec [of copperKernel Inr planeState "Inr ()" ?s' planeBoard
      97499 ?items]
  from spec run have 1: "list_all (\<lambda>m. msgKind m \<in> quickKinds) (mMessages ?s') \<and>
      mIgnorePlanes ?s' = True \<and>
      list_all (\<lambda>m. \<not> namesPlane m) (filter isCopperCopper (mMessages ?s'))"
    by blast
  from spec run have "if getMinCopperCopperClearance (mSettings planeState) = 0
       then filter isCopperCopper (mMessages ?s') = []
       else (\<exists>areas.
          mapE (inflatedArea copperKernel (mBoard planeState)
                  (copperCopperOffset (getMinCopperCopperClearance (mSettings planeState))))
            (copperObjects (mBoard planeState) True) = Inr areas \<and>
          filter isCopperCopper (mMessages ?s') =
            copperCopperViolations copperKernel
              (getMinCopperCopperClearance (mSettings planeState))
              (inflatedItems (copperObjects (mBoard planeState) True) areas))"
    by blast
  then obtain areas where
    a: "mapE (inflatedArea copperKernel planeBoard 97499) (copperObjects planeBoard True)
          = Inr areas"
    and m: "filter isCopperCopper (mMessages ?s') =
        copperCopperViolations copperKernel 200000
          (inflatedItems (copperObjects planeBoard True) areas)"
    by (auto simp: v o)
  from a planeBoard_areas have "areas = quickAreas" by simp
  with m have 2: "filter isCopperCopper (mMessages ?s') =
      copperCopperViolations copperKernel 200000 ?items" by simp
  from spec it have 3: "list_all notPlane ?items" by blast
  from run 1 planeBoard_areas 2 it 3 planeRun_locations planeRun_full
  show ?thesis by (simp only: simp_thms)
qed

section \<open>Claim C3: a clearance of 0 disables its check\<close>

text \<open>
  Claim C3. Each of the five clearance checks returns at once, leaving the
  state as it is, when its clearance setting is 0; and when all five are 0, no
  message of a run is of the kind of a clearance check, whatever the board and
  the geometry.
\<close>

theorem clearance_zero:
  "(getMinCopperCopperClearance (mSettings s) = 0 \<longrightarrow>
      checkCopperCopperClearances K p s = (Inr (), s)) \<and>
   (getMinCopperBoardClearance (mSettings s) = 0 \<longrightarrow>
      checkCopperBoardClearances K p s = (Inr (), s)) \<and>
   (getMinCopperNpthClearance (mSettings s) = 0 \<longrightarrow>
      checkCopperHoleClearances K p s = (Inr (), s)) \<and>
   (getMinDrillDrillClearance (mSettings s) = 0 \<longrightarrow>
      checkDrillDrillClearances K p s = (Inr (), s)) \<and>
   (getMinDrillBoardClearance (mSettings s) = 0 \<longrightarrow>
      checkDrillBoardClearances K p s = (Inr (), s)) \<and>
   (clearancesZero (mSettings s) \<longrightarrow>
      list_all (\<lambda>m. msgKind m \<notin> clearanceKinds) (mMessages (snd (execute K quick s))))"
proof -
  have "list_all (\<lambda>m. msgKind m \<notin> clearanceKinds) (mMessages (snd (execute K quick s)))"
    if z: "clearancesZero (mSettings s)"
  proof -
    obtain r s' where run: "execute K quick s = (r, s')" by (cases "execute K quick s")
    from execute_run [OF run]
    have "list_all (rowsAllow (runRows quick) (mSettings s)) (mMessages s')" by blast
    with rowsAllow_clearance [OF z] run show ?thesis
      by (auto simp: list_all_iff)
  qed
  then show ?thesis
    by (simp add: checkCopperCopperClearances_def checkCopperBoardClearances_def
        checkCopperHoleClearances_def checkDrillDrillClearances_def
        checkDrillBoardClearances_def withState_def ret_def)
qed

theorem clearance_zero_witness:
  "clearancesZero (mSettings quietState) \<and>
   checkCopperCopperClearances lineKernel 24 quietState = (Inr (), quietState) \<and>
   checkDrillDrillClearances lineKernel 49 quietState = (Inr (), quietState) \<and>
   list_all (\<lambda>m. msgKind m \<notin> clearanceKinds)
     (mMessages (snd (execute lineKernel False quietState))) \<and>
   map msgKind (mMessages (snd (execute lineKernel False quietState))) = [MissingBoardOutline]"
proof -
  have z: "clearancesZero (mSettings quietState)"
    by (simp add: clearancesZero_def quietState_def initialState_def noSettings_def)
  from clearance_zero [of quietState lineKernel 24 False] z quietRun_kinds
    clearance_zero [of quietState lineKernel 49 False]
  show ?thesis by (simp add: clearancesZero_def)
qed

section \<open>Claim C4: drill to drill clearance\<close>

text \<open>
  Claim C4. For a clearance that is not 0 and a board whose drill diameters are
  positive lengths, a check that returns has taken every drill (via drills,
  board holes, pad holes, footprint holes) as the outline of its path for the
  diameter \<open>diameter + max 0 (clearance - maxArcTolerance - 1)\<close>, and has
  appended, for the pairs of drills in their order, exactly one message for each
  pair whose outlines have a non-empty intersection, located at the flattened
  intersection.
\<close>

theorem checkDrillDrillClearances_spec:
  assumes c: "isUnsignedLength (getMinDrillDrillClearance (mSettings s))"
      "getMinDrillDrillClearance (mSettings s) \<noteq> 0"
    and v: "drillsValid (mBoard s)"
    and run: "checkDrillDrillClearances K p s = (Inr (), s')"
  shows "list_all (\<lambda>pair. isOK (drillPairMsgs K (getMinDrillDrillClearance (mSettings s)) pair))
           (pairsOf (expandedDrills K (mBoard s) (getMinDrillDrillClearance (mSettings s)))) \<and>
         mMessages s' = mMessages s @
           drillDrillViolations K (getMinDrillDrillClearance (mSettings s))
             (expandedDrills K (mBoard s) (getMinDrillDrillClearance (mSettings s)))"
proof -
  let ?c = "getMinDrillDrillClearance (mSettings s)"
  let ?s1 = "s\<lparr>mProgressStatus := mProgressStatus s @ [''Check drill clearances...''],
                 emitted := emitted s @ [ProgressStatus ''Check drill clearances...'']\<rparr>"
  from run c(2) obtain items s2 where
    it: "drillItems K (mBoard s) (drillExpansion ?c) = Inr items"
    and loop: "forEachPair items (checkDrillPair K ?c) ?s1 = (Inr (), s2)"
    and fin: "emitProgress p s2 = (Inr (), s')"
    by (cases "drillItems K (mBoard s) (drillExpansion ?c)")
       (auto simp: checkDrillDrillClearances_def withState_def Let_def seq_def bind_def
          lift_def emitStatus_def ret_def split: prod.splits sum.splits)
  have "checkDrillPair K ?c = (\<lambda>a b. bind (lift (drillPairMsgs K ?c (a, b))) (emitAll K))"
    by (intro ext) (simp only: checkDrillPair_eq)
  with loop forEachPair_emit [of items "drillPairMsgs K ?c" K ?s1 s2]
  obtain mss where m: "mapE (drillPairMsgs K ?c) (pairsOf items) = Inr mss"
    "s2 = appendMsgs K (concat mss) ?s1" by auto
  from fin m(2) have "mMessages s' = mMessages s @ concat mss"
    by (auto simp: emitProgress_def appendMsgs_def)
  with mapE_results [OF m(1)] drillItems_exact [OF c(1) v it] show ?thesis
    by (simp add: drillDrillViolations_def)
qed

lemma exampleState_drill_run:
  "fst (checkDrillDrillClearances lineKernel 49 exampleState) = Inr ()"
  by code_simp

lemma exampleState_drill_messages:
  "mMessages (snd (checkDrillDrillClearances lineKernel 49 exampleState)) =
     [mkMsg DrillDrillClearanceViolation
        [ArgVia 100, ArgHoleUuid 100, ArgVia 200, ArgHoleUuid 200, ArgLength 400000]
        [[vertexAt (151501, 0), vertexAt (347499, 0)]]]"
  by code_simp

lemma exampleBoard_drillsValid: "drillsValid exampleBoard"
  by (simp add: drillsValid_def exampleBoard_def isPositiveLength_def)

theorem checkDrillDrillClearances_spec_witness:
  "isUnsignedLength (getMinDrillDrillClearance (mSettings exampleState)) \<and>
   getMinDrillDrillClearance (mSettings exampleState) \<noteq> 0 \<and>
   drillsValid (mBoard exampleState) \<and>
   fst (checkDrillDrillClearances lineKernel 49 exampleState) = Inr () \<and>
   mMessages (snd (checkDrillDrillClearances lineKernel 49 exampleState)) =
     drillDrillViolations lineKernel 400000 (expandedDrills lineKernel exampleBoard 400000) \<and>
   mMessages (snd (checkDrillDrillClearances lineKernel 49 exampleState)) =
     [mkMsg DrillDrillClearanceViolation
        [ArgVia 100, ArgHoleUuid 100, ArgVia 200, ArgHoleUuid 200, ArgLength 400000]
        [[vertexAt (151501, 0), vertexAt (347499, 0)]]]"
proof -
  have v: "getMinDrillDrillClearance (mSettings exampleState) = 400000"
      "mBoard exampleState = exampleBoard" "mMessages exampleState = []"
    by (simp_all add: exampleState_def initialState_def clearanceSettings_def noSettings_def)
  have c: "isUnsignedLength (getMinDrillDrillClearance (mSettings exampleState))"
      "getMinDrillDrillClearance (mSettings exampleState) \<noteq> 0"
    by (simp_all add: v isUnsignedLength_def)
  have b: "drillsValid (mBoard exampleState)"
    by (simp add: v exampleBoard_drillsValid)
  have run: "checkDrillDrillClearances lineKernel 49 exampleState =
      (Inr (), snd (checkDrillDrillClearances lineKernel 49 exampleState))"
    using exampleState_drill_run by (simp add: prod_eq_iff)
  from checkDrillDrillClearances_spec [OF c b run] c b exampleState_drill_run
    exampleState_drill_messages
  show ?thesis by (simp add: v)
qed

section \<open>Claim C5: allowed slots\<close>

lemma emits_ret: "emits K [] (ret ())"
  by (simp add: emits_def ret_def)

lemma emits_emitMessage: "emits K [m] (emitMessage K m)"
  by (simp add: emits_def emitMessage_eq)

lemma emits_whenM: "emits K ms m \<Longrightarrow> emits K (if c then ms else []) (whenM c m)"
  by (simp add: whenM_def emits_ret)

lemma emits_seq: "emits K as a \<Longrightarrow> emits K bs b \<Longrightarrow> emits K (as @ bs) (seq a b)"
  by (simp add: emits_def seq_def bind_def appendMsgs_append)

lemma emits_forEach:
  "(\<And>x. emits K (g x) (f x)) \<Longrightarrow> emits K (concat (map g xs)) (forEach xs f)"
  by (induction xs) (simp_all add: emits_ret emits_seq)

lemma concat_map_if:
  "concat (map (\<lambda>x. if c x then [m x] else []) xs) = map m (filter c xs)"
  by (induction xs) simp_all

lemma emits_slotHoles:
  "emits K (map m (filter c xs)) (forEach xs (\<lambda>x. whenM (c x) (emitMessage K (m x))))"
  using emits_forEach [of K "\<lambda>x. if c x then [m x] else []"
      "\<lambda>x. whenM (c x) (emitMessage K (m x))" xs]
  by (simp add: concat_map_if emits_whenM emits_emitMessage)

lemma checkAllowedNpthSlots_messages:
  "fst (checkAllowedNpthSlots K p s) = Inr () \<and>
   mMessages (snd (checkAllowedNpthSlots K p s)) =
     mMessages s @ forbiddenNpthSlots K (mBoard s) (getAllowedNpthSlots (mSettings s))"
proof (cases "getAllowedNpthSlots (mSettings s) = SlotsAny")
  case True
  then show ?thesis
    by (simp add: checkAllowedNpthSlots_def withState_def ret_def forbiddenNpthSlots_def
        requiresHoleSlotWarning_def)
next
  case False
  let ?a = "getAllowedNpthSlots (mSettings s)"
  have 1: "emits K (map (\<lambda>hole. mkMsg ForbiddenSlot [ArgBoardHole (holeUuid hole)]
                    (getHoleLocation K hole identityTransform identityTransform))
       (filter (\<lambda>hole. requiresHoleSlotWarning hole ?a) (getHoles (mBoard s))))
     (forEach (getHoles (mBoard s)) (\<lambda>hole.
         whenM (requiresHoleSlotWarning hole ?a)
           (emitMessage K (mkMsg ForbiddenSlot [ArgBoardHole (holeUuid hole)]
              (getHoleLocation K hole identityTransform identityTransform)))))"
    by (rule emits_slotHoles)
  have 2: "emits K (concat (map (\<lambda>device.
        map (\<lambda>hole. mkMsg ForbiddenSlot
                       [ArgDevice (componentUuid (deviceComponent device)), ArgHole (holeUuid hole)]
                       (getHoleLocation K hole (deviceTransform device) identityTransform))
          (filter (\<lambda>hole. requiresHoleSlotWarning hole ?a)
             (footprintHoles (deviceLibFootprint device))))
       (getDeviceInstances (mBoard s))))
     (forEach (getDeviceInstances (mBoard s)) (\<lambda>device.
         forEach (footprintHoles (deviceLibFootprint device)) (\<lambda>hole.
           whenM (requiresHoleSlotWarning hole ?a)
             (emitMessage K (mkMsg ForbiddenSlot
                [ArgDevice (componentUuid (deviceComponent device)), ArgHole (holeUuid hole)]
                (getHoleLocation K hole (deviceTransform device) identityTransform))))))"
    by (rule emits_forEach) (rule emits_slotHoles)
  from False 1 2 show ?thesis
    by (simp add: checkAllowedNpthSlots_def withState_def Let_def seq_def bind_def emits_def
        emitStatus_def emitProgress_def ret_def appendMsgs_def forbiddenNpthSlots_def)
qed

lemma checkAllowedPthSlots_messages:
  "fst (checkAllowedPthSlots K p s) = Inr () \<and>
   mMessages (snd (checkAllowedPthSlots K p s)) =
     mMessages s @ forbiddenPthSlots K (mBoard s) (getAllowedPthSlots (mSettings s))"
proof (cases "getAllowedPthSlots (mSettings s) = SlotsAny")
  case True
  then show ?thesis
    by (simp add: checkAllowedPthSlots_def withState_def ret_def forbiddenPthSlots_def
        requiresHoleSlotWarning_def)
next
  case False
  let ?a = "getAllowedPthSlots (mSettings s)"
  have 2: "emits K (concat (map (\<lambda>device.
        concat (map (\<lambda>pad.
           map (\<lambda>hole. mkMsg ForbiddenSlot [ArgPad (padUuid pad), ArgHole (holeUuid hole)]
                          (getHoleLocation K hole (libPadTransform pad) (deviceTransform device)))
             (filter (\<lambda>hole. requiresHoleSlotWarning hole ?a) (padHoles pad)))
          (devicePads device)))
       (getDeviceInstances (mBoard s))))
     (forEach (getDeviceInstances (mBoard s)) (\<lambda>device.
         forEach (devicePads device) (\<lambda>pad.
           forEach (padHoles pad) (\<lambda>hole.
             whenM (requiresHoleSlotWarning hole ?a)
               (emitMessage K (mkMsg ForbiddenSlot
                  [ArgPad (padUuid pad), ArgHole (holeUuid hole)]
                  (getHoleLocation K hole (libPadTransform pad) (deviceTransform device))))))))"
    by (rule emits_forEach, rule emits_forEach, rule emits_slotHoles)
  from False 2 show ?thesis
    by (simp add: checkAllowedPthSlots_def withState_def Let_def seq_def bind_def emits_def
        emitStatus_def emitProgress_def ret_def appendMsgs_def forbiddenPthSlots_def)
qed

lemma isCurvedSlot_round: "length (holePath hole) \<le> 1 \<Longrightarrow> \<not> isCurvedSlot hole"
  by (cases "holePath hole") (simp_all add: isCurvedSlot_def)

text \<open>
  Claim C5. A hole requires a slot warning exactly when its class exceeds the
  allowance: a curved slot whenever the allowance is below \<open>Any\<close>, a straight
  slot of at least three vertices whenever it is below \<open>MultiSegmentStraight\<close>,
  a straight slot of two vertices whenever it is below \<open>SingleSegmentStraight\<close>,
  and a round drill (a path of one vertex) never. Both allowed-slots checks
  always return and append one \<open>ForbiddenSlot\<close> message for exactly the holes
  they visit that require the warning.
\<close>

theorem requiresHoleSlotWarning_spec:
  "(requiresHoleSlotWarning hole allowed \<longleftrightarrow>
      (if isCurvedSlot hole then allowedSlotsRank allowed < allowedSlotsRank SlotsAny
       else if length (holePath hole) \<ge> 3
         then allowedSlotsRank allowed < allowedSlotsRank MultiSegmentStraight
       else if length (holePath hole) = 2
         then allowedSlotsRank allowed < allowedSlotsRank SingleSegmentStraight
       else False)) \<and>
   (length (holePath hole) \<le> 1 \<longrightarrow> \<not> requiresHoleSlotWarning hole allowed) \<and>
   fst (checkAllowedNpthSlots K p s) = Inr () \<and>
   mMessages (snd (checkAllowedNpthSlots K p s)) =
     mMessages s @ forbiddenNpthSlots K (mBoard s) (getAllowedNpthSlots (mSettings s)) \<and>
   fst (checkAllowedPthSlots K p s) = Inr () \<and>
   mMessages (snd (checkAllowedPthSlots K p s)) =
     mMessages s @ forbiddenPthSlots K (mBoard s) (getAllowedPthSlots (mSettings s))"
proof -
  have a: "requiresHoleSlotWarning hole allowed \<longleftrightarrow>
      (if isCurvedSlot hole then allowedSlotsRank allowed < allowedSlotsRank SlotsAny
       else if length (holePath hole) \<ge> 3
         then allowedSlotsRank allowed < allowedSlotsRank MultiSegmentStraight
       else if length (holePath hole) = 2
         then allowedSlotsRank allowed < allowedSlotsRank SingleSegmentStraight
       else False)"
    by (cases allowed)
       (auto simp: requiresHoleSlotWarning_def isMultiSegmentSlot_def isSlot_def)
  have b: "length (holePath hole) \<le> 1 \<longrightarrow> \<not> requiresHoleSlotWarning hole allowed"
    using isCurvedSlot_round [of hole] unfolding a by auto
  from a b checkAllowedNpthSlots_messages [of K p s] checkAllowedPthSlots_messages [of K p s]
  show ?thesis by blast
qed

theorem requiresHoleSlotWarning_spec_witness:
  "length (holePath \<lparr>holeUuid = 11, holeDiameter = 800000, holePath = [vertexAt (0, 0)]\<rparr>) \<le> 1 \<and>
   \<not> requiresHoleSlotWarning
        \<lparr>holeUuid = 11, holeDiameter = 800000, holePath = [vertexAt (0, 0)]\<rparr> SlotsNone \<and>
   map msgArgs (mMessages (snd (checkAllowedNpthSlots lineKernel 74 slotState))) =
     [[ArgBoardHole 13], [ArgBoardHole 14]]"
proof -
  let ?h = "\<lparr>holeUuid = 11, holeDiameter = 800000, holePath = [vertexAt (0, 0)]\<rparr>"
  note spec = requiresHoleSlotWarning_spec [of ?h SlotsNone lineKernel 74 slotState]
  have l: "length (holePath ?h) \<le> 1" by simp
  have f: "map msgArgs (forbiddenNpthSlots lineKernel (mBoard slotState)
          (getAllowedNpthSlots (mSettings slotState))) = [[ArgBoardHole 13], [ArgBoardHole 14]]"
    by code_simp
  have m: "mMessages slotState = []"
    by (simp add: slotState_def initialState_def)
  from spec l have 1: "\<not> requiresHoleSlotWarning ?h SlotsNone" by blast
  from spec have "mMessages (snd (checkAllowedNpthSlots lineKernel 74 slotState)) =
     mMessages slotState @ forbiddenNpthSlots lineKernel (mBoard slotState)
       (getAllowedNpthSlots (mSettings slotState))" by blast
  with f m have 2: "map msgArgs (mMessages (snd (checkAllowedNpthSlots lineKernel 74 slotState))) =
     [[ArgBoardHole 13], [ArgBoardHole 14]]" by simp
  from l 1 2 show ?thesis by blast
qed

section \<open>Claim C6: exceptions\<close>

text \<open>
  Claim C6, as the code has it. \<open>execute\<close> has no handler. It raises an
  exception exactly when one of its steps raises it, and then it ends there with
  that exception and the state of that moment: no \<open>finished\<close> signal, no progress
  of 100 and no final status are emitted, and the messages emitted so far stay
  in the list. It is the caller that catches the exception.
\<close>

theorem execute_exception:
  "(execute K quick s = (Inl e, s') \<longleftrightarrow>
      block (runChecks K quick) (runStart quick s) = (Inl e, s')) \<and>
   (execute K quick s = (Inl e, s') \<longrightarrow>
      Finished \<notin> set (emittedSince s s') \<and>
      ProgressPercent 100 \<notin> set (emittedSince s s') \<and>
      mProgressStatus s' = statusesOf (emittedSince s s') \<and>
      map (messageText K) (mMessages s') = messageTextsOf (emittedSince s s'))"
proof -
  have a: "execute K quick s = (Inl e, s') \<longleftrightarrow>
      block (runChecks K quick) (runStart quick s) = (Inl e, s')"
    by (auto simp: execute_eq split: prod.splits sum.splits)
  have b: "Finished \<notin> set (emittedSince s s') \<and>
      ProgressPercent 100 \<notin> set (emittedSince s s') \<and>
      mProgressStatus s' = statusesOf (emittedSince s s') \<and>
      map (messageText K) (mMessages s') = messageTextsOf (emittedSince s s')"
    if run: "execute K quick s = (Inl e, s')"
  proof -
    from execute_run [OF run] obtain tr where
      e: "emitted s' = emitted s @ [Started, ProgressPercent 2] @ tr"
      and st: "mProgressStatus s' = statusesOf tr"
      and m: "messageTextsOf tr = map (messageText K) (mMessages s')"
      and sub: "subseq (percentsOf tr) (map rowPercent (runRows quick))"
      and f: "Finished \<notin> set tr"
      by (auto simp: isOK_def)
    have "ProgressPercent 100 \<notin> set tr"
      using subseq_range [OF sub, of 100] percentsOf_notin [of 100 tr] by auto
    with e st m f show ?thesis by (simp add: emittedSince_def)
  qed
  from a b show ?thesis by blast
qed

theorem execute_exception_witness:
  "execute failingKernel False exampleState =
     (Inl (LogicError ''Clipper error''), snd (execute failingKernel False exampleState)) \<and>
   block (runChecks failingKernel False) (runStart False exampleState) =
     (Inl (LogicError ''Clipper error''), snd (execute failingKernel False exampleState)) \<and>
   Finished \<notin> set (emittedSince exampleState (snd (execute failingKernel False exampleState))) \<and>
   mProgressStatus (snd (execute failingKernel False exampleState)) =
     [''Rebuild planes...'', ''Check copper clearances...'']"
  using execute_exception [of failingKernel False exampleState "LogicError ''Clipper error''"
      "snd (execute failingKernel False exampleState)"]
    failingRun_eq failingRun_signals
  by simp

text \<open>
  The claim as it is stated has the exception caught within the check. On the
  example board, with an intersection that raises, \<open>execute\<close> itself ends with the
  exception of the geometry, after the status of the copper clearance check.
\<close>

theorem execute_exception_counterexample:
  "fst (execute failingKernel False exampleState) = Inl (LogicError ''Clipper error'') \<and>
   emittedSince exampleState (snd (execute failingKernel False exampleState)) =
     [Started, ProgressPercent 2, ProgressStatus ''Rebuild planes...'', ProgressPercent 12,
      ProgressStatus ''Check copper clearances...'']"
  by code_simp

section \<open>Claim C7: progress and status log\<close>

text \<open>
  Claim C7, as the code has it. The progress values emitted during a call of
  \<open>execute\<close> ascend. When the call returns, the last of them is 100, and the
  status log holds, in this order: \<open>Rebuild planes...\<close> unless the run is quick,
  one entry for each check of the run that its setting enables, and the closing
  entry \<open>Finished with n message(s)!\<close>.
\<close>

theorem execute_progress:
  assumes "execute K quick s = (r, s')"
  shows "emitted s' = emitted s @ emittedSince s s' \<and>
         sorted (percentsOf (emittedSince s s')) \<and>
         (isOK r \<longrightarrow>
            last (percentsOf (emittedSince s s')) = 100 \<and>
            mProgressPercent s' = 100 \<and>
            mProgressStatus s' =
              (if quick then [] else [''Rebuild planes...'']) @
              statusPerCheck quick (mSettings s) @
              [finishedStatus (length (mMessages s'))])"
proof -
  from execute_run [OF assms] obtain tr where
    e: "emitted s' = emitted s @ [Started, ProgressPercent 2] @ tr @
                 (if isOK r
                  then [ProgressStatus (finishedStatus (length (mMessages s'))),
                        ProgressPercent 100, Finished]
                  else [])"
    and st: "mProgressStatus s' = statusesOf tr @
                 (if isOK r then [finishedStatus (length (mMessages s'))] else [])"
    and ok: "isOK r \<longrightarrow> statusesOf tr = rowsStatus (runRows quick) (mSettings s)"
    and sub: "subseq (percentsOf tr) (map rowPercent (runRows quick))"
    by blast
  have s1: "sorted (percentsOf tr)"
    by (rule sorted_subseq [OF sub runRows_sorted])
  have r1: "\<forall>x \<in> set (percentsOf tr). 12 \<le> x \<and> x \<le> 97"
    using subseq_range [OF sub] by blast
  have p: "percentsOf (emittedSince s s') =
      2 # percentsOf tr @ (if isOK r then [100] else [])"
    using e by (simp add: emittedSince_def)
  have "sorted (2 # percentsOf tr @ (if isOK r then [100] else []))"
    using s1 r1 by (auto simp: sorted_append)
  moreover have "isOK r \<longrightarrow> last (2 # percentsOf tr @ (if isOK r then [100] else [])) = 100"
    by simp
  moreover have "rowsStatus (runRows quick) S =
      (if quick then [] else [''Rebuild planes...'']) @ statusPerCheck quick S" for S
    by (simp add: runRows_def statusPerCheck_def rowsStatus_def rebuildRow_def rowEnabled_def
        rowStatus_def)
  moreover have "isOK r \<longrightarrow> mProgressPercent s' = 100"
    using assms
    by (auto simp: execute_eq runEnd_def isOK_def split: prod.splits sum.splits)
  moreover have "emitted s' = emitted s @ emittedSince s s'"
    using e by (simp add: emittedSince_def)
  ultimately show ?thesis
    using st ok by (simp add: p)
qed

theorem execute_progress_witness:
  "execute lineKernel False exampleState = (Inr (), snd (execute lineKernel False exampleState)) \<and>
   sorted (percentsOf (emittedSince exampleState (snd (execute lineKernel False exampleState)))) \<and>
   percentsOf (emittedSince exampleState (snd (execute lineKernel False exampleState))) =
     [2, 12, 24, 49, 78, 88, 91, 92, 93, 95, 97, 100] \<and>
   mProgressStatus (snd (execute lineKernel False exampleState)) =
     [''Rebuild planes...''] @ statusPerCheck False (mSettings exampleState) @
     [finishedStatus (length (mMessages (snd (execute lineKernel False exampleState))))]"
  using execute_progress [OF exampleRun_eq] exampleRun_eq exampleRun_percents
  by (simp add: isOK_def)

text \<open>
  The claim as it is stated gives the status log one entry per check that ran,
  and no other, and has every call end with a progress of 100. A quick run with
  every check switched off returns with one entry in the log, the closing one,
  while no check has passed its guard; and a run that ends with an exception of
  the geometry has emitted 2 and 12 only.
\<close>

theorem status_log_counterexample:
  "fst (execute lineKernel True quietState) = Inr () \<and>
   mProgressStatus (snd (execute lineKernel True quietState)) =
     [''Finished with 0 message(s)!''] \<and>
   statusPerCheck True (mSettings quietState) = [] \<and>
   percentsOf (emittedSince exampleState (snd (execute failingKernel False exampleState))) =
     [2, 12]"
  by code_simp

section \<open>Claim C9: the message list of a run\<close>

text \<open>
  Claim C9. The outcome of \<open>execute\<close> does not depend on the messages and the
  status log that the object held before the call: both are cleared before any
  check runs. Whatever the outcome, the message list then holds exactly the
  messages whose \<open>progressMessage\<close> signals were emitted during the call, in the
  order of their emission. (The cache of copper paths is not cleared; it is not
  part of this statement.)
\<close>

theorem execute_messages:
  assumes "execute K quick s = (r, s')"
  shows "execute K quick (s\<lparr>mMessages := oldMessages, mProgressStatus := oldStatus\<rparr>) = (r, s') \<and>
         emitted s' = emitted s @ emittedSince s s' \<and>
         map (messageText K) (mMessages s') = messageTextsOf (emittedSince s s')"
proof -
  have "runStart quick (s\<lparr>mMessages := oldMessages, mProgressStatus := oldStatus\<rparr>) =
        runStart quick s"
    by (simp add: runStart_def)
  then have 1: "execute K quick (s\<lparr>mMessages := oldMessages, mProgressStatus := oldStatus\<rparr>)
      = execute K quick s"
    by (simp only: execute_eq)
  from execute_run [OF assms] obtain tr where
    "emitted s' = emitted s @ [Started, ProgressPercent 2] @ tr @
                 (if isOK r
                  then [ProgressStatus (finishedStatus (length (mMessages s'))),
                        ProgressPercent 100, Finished]
                  else [])"
    "messageTextsOf tr = map (messageText K) (mMessages s')"
    by blast
  then have "emitted s' = emitted s @ emittedSince s s' \<and>
      map (messageText K) (mMessages s') = messageTextsOf (emittedSince s s')"
    by (simp add: emittedSince_def)
  with 1 assms show ?thesis by simp
qed

theorem execute_messages_witness:
  "execute lineKernel False exampleState = (Inr (), snd (execute lineKernel False exampleState)) \<and>
   execute lineKernel False
     (exampleState\<lparr>mMessages := [mkMsg MissingDevice [ArgComponent 7] []],
                    mProgressStatus := [''stale'']\<rparr>)
     = (Inr (), snd (execute lineKernel False exampleState)) \<and>
   map msgKind (mMessages (snd (execute lineKernel False exampleState))) =
     [CopperCopperClearanceViolation, DrillDrillClearanceViolation, MissingBoardOutline]"
  using execute_messages [OF exampleRun_eq,
      where oldMessages = "[mkMsg MissingDevice [ArgComponent 7] []]" and oldStatus = "[''stale'']"]
    exampleRun_eq exampleRun_kinds
  by simp

section \<open>Claim C10: the diameter of the annular ring\<close>

lemma annularDiameter_eq:
  assumes "isPositiveLength d" "isUnsignedLength a" "d + 2 * a < 2 ^ 63"
  shows "annularDiameter d a = d + 2 * a - 1"
proof -
  from assms have 1: "lenMul a 2 = 2 * a"
    by (simp add: lenMul_def wrap64_id isLength_def isPositiveLength_def isUnsignedLength_def)
  from assms have 2: "lenAdd d (2 * a) = d + 2 * a"
    by (simp add: lenAdd_def wrap64_id isLength_def isPositiveLength_def isUnsignedLength_def)
  from assms have 3: "lenSub (d + 2 * a) 1 = d + 2 * a - 1"
    by (simp add: lenSub_def wrap64_id isLength_def isPositiveLength_def isUnsignedLength_def)
  show ?thesis by (simp add: annularDiameter_def 1 2 3)
qed

text \<open>
  Claim C10, as the code has it. For a drill diameter \<open>d > 0\<close> and an annular
  width \<open>a > 0\<close> with \<open>d + 2 * a\<close> below 2^63 nm, the diameter the check computes
  is \<open>d + 2 * a - 1\<close> and is positive, so that the via, or the pad hole, is tested
  against the common copper area and not skipped.
\<close>

theorem annular_ring_tested:
  assumes "isUnsignedLength a" "a \<noteq> 0"
    and "isPositiveLength (viaDrillDiameter via)" "viaDrillDiameter via + 2 * a < 2 ^ 63"
    and "isPositiveLength (holeDiameter hole)" "holeDiameter hole + 2 * a < 2 ^ 63"
  shows "0 < annularDiameter (viaDrillDiameter via) a \<and>
         checkViaAnnularRing K a tht via =
           reportUncovered K
             (convertPaths K
                [translated K (circlePath K (viaDrillDiameter via + 2 * a - 1)) (viaPosition via)]
                maxArcTolerance)
             tht (mkMsg MinimumAnnularRingViolation [ArgVia (viaUuid via), ArgLength a]) \<and>
         0 < annularDiameter (holeDiameter hole) a \<and>
         padHoleAreas K a pad areas hole =
           foldE (\<lambda>areas area.
                    clipUnite K areas
                      (convertPaths K [mapPath K (padTransform pad) area] maxArcTolerance))
             areas (toOutlineStrokes K (holePath hole) (holeDiameter hole + 2 * a - 1))"
proof -
  have v: "annularDiameter (viaDrillDiameter via) a = viaDrillDiameter via + 2 * a - 1"
    by (rule annularDiameter_eq [OF assms(3) assms(1) assms(4)])
  have h: "annularDiameter (holeDiameter hole) a = holeDiameter hole + 2 * a - 1"
    by (rule annularDiameter_eq [OF assms(5) assms(1) assms(6)])
  from assms have p: "0 < viaDrillDiameter via + 2 * a - 1" "0 < holeDiameter hole + 2 * a - 1"
    by (simp_all add: isPositiveLength_def isUnsignedLength_def)
  then show ?thesis
    by (simp add: checkViaAnnularRing_def padHoleAreas_def v h)
qed

theorem annular_ring_tested_witness:
  "isUnsignedLength 150000 \<and> (150000 :: int) \<noteq> 0 \<and>
   isPositiveLength (viaDrillDiameter exampleVia) \<and>
   isPositiveLength (holeDiameter exampleHole) \<and>
   annularDiameter (viaDrillDiameter exampleVia) 150000 = 599999 \<and>
   checkViaAnnularRing lineKernel 150000 [] exampleVia =
     reportUncovered lineKernel
       (convertPaths lineKernel
          [translated lineKernel (circlePath lineKernel 599999) (viaPosition exampleVia)]
          maxArcTolerance)
       [] (mkMsg MinimumAnnularRingViolation [ArgVia (viaUuid exampleVia), ArgLength 150000]) \<and>
   annularDiameter (holeDiameter exampleHole) 150000 = 1099999"
proof -
  have a: "isUnsignedLength 150000" "(150000 :: int) \<noteq> 0"
    by (simp_all add: isUnsignedLength_def)
  have v: "isPositiveLength (viaDrillDiameter exampleVia)"
      "viaDrillDiameter exampleVia + 2 * 150000 < 2 ^ 63"
    by (simp_all add: isPositiveLength_def exampleVia_def)
  have h: "isPositiveLength (holeDiameter exampleHole)"
      "holeDiameter exampleHole + 2 * 150000 < 2 ^ 63"
    by (simp_all add: isPositiveLength_def exampleHole_def)
  have e: "annularDiameter (viaDrillDiameter exampleVia) 150000 = 599999"
      "annularDiameter (holeDiameter exampleHole) 150000 = 1099999"
    by (simp_all add: annularDiameter_def lenSub_def lenAdd_def lenMul_def wrap64_def
        exampleVia_def exampleHole_def)
  have d: "viaDrillDiameter exampleVia + 2 * 150000 - 1 = 599999"
    by (simp add: exampleVia_def)
  from annular_ring_tested [OF a v h, of lineKernel "[]"]
  have "checkViaAnnularRing lineKernel 150000 [] exampleVia =
     reportUncovered lineKernel
       (convertPaths lineKernel
          [translated lineKernel (circlePath lineKernel 599999) (viaPosition exampleVia)]
          maxArcTolerance)
       [] (mkMsg MinimumAnnularRingViolation [ArgVia (viaUuid exampleVia), ArgLength 150000])"
    by (simp only: d)
  with a v h e show ?thesis by blast
qed

text \<open>
  The claim as it is stated has the diameter positive for every positive drill
  and every positive annular width. In 64 bits it is not: for a drill of 1 nm and
  an annular width of 2^62 nm the product \<open>2 * a\<close> wraps around, the diameter
  computed is -2^63, and the via is skipped.
\<close>

theorem annular_ring_counterexample:
  "isPositiveLength (viaDrillDiameter tinyVia) \<and> isUnsignedLength hugeRing \<and> hugeRing \<noteq> 0 \<and>
   annularDiameter (viaDrillDiameter tinyVia) hugeRing = - (2 ^ 63) \<and>
   checkViaAnnularRing lineKernel hugeRing [] tinyVia = ret ()"
  by (simp add: tinyVia_def hugeRing_def isPositiveLength_def isUnsignedLength_def
      annularDiameter_def lenSub_def lenAdd_def lenMul_def wrap64_def checkViaAnnularRing_def)


end
